theory Spec2Isabelle
  imports Main "HOL-Library.Word"
begin

unbundle bit_operations_syntax

section \<open>Machine types and kernel structures\<close>

text \<open>
  The Linux back-end of the debug engine (\<^verbatim>\<open>linux/debugger.h\<close> and
  \<^verbatim>\<open>linux/debugger/debugger_*.cpp\<close>) is compiled either for ARM64 or for x86_64;
  the code selects with \<^verbatim>\<open>#if defined(__aarch64__)\<close>. The embedding takes the
  architecture as a parameter and follows the branch of the source for each.
\<close>

type_synonym pid_t = int
type_synonym u64 = "64 word"
type_synonym u32 = "32 word"
type_synonym u8 = "8 word"

datatype arch = AARCH64 | X86_64

datatype errno = ESRCH | EIO | EFAULT | EOTHER

text \<open>
  \<^verbatim>\<open>struct user_pt_regs\<close> (ARM64) and \<^verbatim>\<open>struct user_regs_struct\<close> (x86_64). The
  array \<^verbatim>\<open>regs[31]\<close> is a function of the index.
\<close>

record user_pt_regs =
  regs :: "nat \<Rightarrow> u64"
  sp :: u64
  pc :: u64
  pstate :: u64

record user_regs_struct =
  r15 :: u64
  r14 :: u64
  r13 :: u64
  r12 :: u64
  rbp :: u64
  rbx :: u64
  r11 :: u64
  r10 :: u64
  r9 :: u64
  r8 :: u64
  rax :: u64
  rcx :: u64
  rdx :: u64
  rsi :: u64
  rdi :: u64
  orig_rax :: u64
  rip :: u64
  cs :: u64
  eflags :: u64
  rsp :: u64
  ss :: u64
  fs_base :: u64
  gs_base :: u64
  ds :: u64
  es :: u64
  fs :: u64
  gs :: u64

datatype user_regs = PtRegs user_pt_regs | RegsStruct user_regs_struct

text \<open>One entry of \<^verbatim>\<open>user_hwdebug_state.dbg_regs\<close> (ARM64).\<close>

record hw_dbg_reg =
  addr :: u64
  ctrl :: u32

section \<open>Architecture definitions (\<^verbatim>\<open>arch_defs.h\<close>)\<close>

definition ARM_BREAKPOINT_EXECUTE :: u32 where "ARM_BREAKPOINT_EXECUTE = 0x0"
definition ARM_BREAKPOINT_LOAD :: u32 where "ARM_BREAKPOINT_LOAD = 0x1"
definition ARM_BREAKPOINT_STORE :: u32 where "ARM_BREAKPOINT_STORE = 0x2"
definition ARM_BREAKPOINT_RW :: u32 where
  "ARM_BREAKPOINT_RW = ARM_BREAKPOINT_LOAD OR ARM_BREAKPOINT_STORE"

definition ARM_BREAKPOINT_LEN_1 :: u32 where "ARM_BREAKPOINT_LEN_1 = 0x1"
definition ARM_BREAKPOINT_LEN_2 :: u32 where "ARM_BREAKPOINT_LEN_2 = 0x3"
definition ARM_BREAKPOINT_LEN_4 :: u32 where "ARM_BREAKPOINT_LEN_4 = 0xf"
definition ARM_BREAKPOINT_LEN_8 :: u32 where "ARM_BREAKPOINT_LEN_8 = 0xff"

definition encode_ctrl_reg :: "u32 \<Rightarrow> u32 \<Rightarrow> u32 \<Rightarrow> u32 \<Rightarrow> u32 \<Rightarrow> u32" where
  "encode_ctrl_reg mismatch len btype privilege enabled =
     push_bit 22 mismatch OR push_bit 5 len OR push_bit 3 btype OR push_bit 1 privilege OR enabled"

definition X86_DR7_BREAK_ON_EXEC :: u32 where "X86_DR7_BREAK_ON_EXEC = 0"
definition X86_DR7_BREAK_ON_WRITE :: u32 where "X86_DR7_BREAK_ON_WRITE = 1"
definition X86_DR7_BREAK_ON_IO :: u32 where "X86_DR7_BREAK_ON_IO = 2"
definition X86_DR7_BREAK_ON_RW :: u32 where "X86_DR7_BREAK_ON_RW = 3"

definition X86_DR7_LEN_1 :: u32 where "X86_DR7_LEN_1 = 0"
definition X86_DR7_LEN_2 :: u32 where "X86_DR7_LEN_2 = 1"
definition X86_DR7_LEN_8 :: u32 where "X86_DR7_LEN_8 = 2"
definition X86_DR7_LEN_4 :: u32 where "X86_DR7_LEN_4 = 3"

text \<open>
  \<^verbatim>\<open>x86_dr_offset(index)\<close> selects the offset of debug register \<open>index\<close> in
  \<^verbatim>\<open>struct user\<close>; offset 0 stands for the reserved DR4/DR5 and for an index out of
  range. The embedding names the debug register the offset denotes.
\<close>

datatype dr_slot = DR nat | DR_NONE

definition x86_dr_offset :: "int \<Rightarrow> dr_slot" where
  "x86_dr_offset index =
     (if 0 \<le> index \<and> index \<le> 7 \<and> index \<noteq> 4 \<and> index \<noteq> 5 then DR (nat index) else DR_NONE)"

definition X86_DR6_OFFSET :: dr_slot where "X86_DR6_OFFSET = DR 6"
definition X86_DR7_OFFSET :: dr_slot where "X86_DR7_OFFSET = DR 7"

section \<open>Debugger types (\<^verbatim>\<open>debugger_types.h\<close>, \<^verbatim>\<open>debugger.h\<close>)\<close>

record SignalConfig =
  catch_signal :: bool
  pass_signal :: bool

datatype WatchpointType = READ | WRITE | READWRITE

datatype BreakpointType = HARDWARE | SOFTWARE

datatype DebugState = Running | BreakpointHit | WatchpointHit | SingleStepping | Paused

datatype DebugCommand =
    AttachToThreads
  | SetWatchpoint
  | RemoveWatchpoint
  | SetBreakpoint
  | RemoveBreakpoint
  | ContinueExecution
  | SingleStep
  | ReapplyWatchpoints
  | ReadRegister
  | WriteRegister
  | ReadMemory
  | SpawnProcess
  | SpawnProcessWithPty
  | ResumeUserStoppedThreads

text \<open>
  \<^verbatim>\<open>struct DebugRequest\<close>. Its parameter members carry the prefix \<open>rq_\<close>, since
  their names are also the parameter names of the functions they are passed to. The
  caller's output locations (\<^verbatim>\<open>reg_value_ptr\<close>, \<^verbatim>\<open>memory_buffer\<close>) are held by
  value: \<open>rq_reg_value_ptr\<close> is \<open>None\<close> for a null pointer and otherwise the value
  stored at the location; \<open>rq_memory_buffer\<close> is the content of the caller's buffer.
\<close>

record DebugRequest =
  command :: DebugCommand
  completed :: bool
  result :: int
  rq_address :: u64
  rq_size :: int
  rq_watchpoint_type :: WatchpointType
  rq_breakpoint_type :: BreakpointType
  rq_hit_count :: int
  rq_thread_id :: pid_t
  rq_reg_name :: string
  rq_reg_value :: u64
  rq_reg_value_ptr :: "u64 option"
  rq_memory_buffer :: "u8 list"
  rq_memory_size :: nat
  rq_memory_bytes_read :: int
  rq_executable_path :: string
  rq_spawn_args :: "string list"
  rq_spawned_pid :: pid_t
  rq_pty_fd :: int

definition new_DebugRequest :: "DebugCommand \<Rightarrow> DebugRequest" where
  "new_DebugRequest cmd =
     \<lparr>command = cmd, completed = False, result = -1, rq_address = 0, rq_size = 0,
      rq_watchpoint_type = READWRITE, rq_breakpoint_type = HARDWARE, rq_hit_count = 0,
      rq_thread_id = 0, rq_reg_name = [], rq_reg_value = 0, rq_reg_value_ptr = None,
      rq_memory_buffer = [], rq_memory_size = 0, rq_memory_bytes_read = 0,
      rq_executable_path = [], rq_spawn_args = [], rq_spawned_pid = 0, rq_pty_fd = -1\<rparr>"

record WatchpointSync =
  removing :: bool
  active_handlers :: int

record BreakpointSync =
  removing :: bool
  active_handlers :: int

definition MAX_WATCHPOINTS :: nat where "MAX_WATCHPOINTS = 1"
definition MAX_BREAKPOINTS :: nat where "MAX_BREAKPOINTS = 4"
definition MAX_SOFTWARE_BREAKPOINTS :: nat where "MAX_SOFTWARE_BREAKPOINTS = 1000000"

text \<open>
  The counters of the tables are \<^verbatim>\<open>int\<close>, 32 bits in two's complement: the result of an
  operation on them is taken modulo \<open>2 ^ 32\<close> into the range of \<^verbatim>\<open>int\<close>.
\<close>

definition wrap_int :: "int \<Rightarrow> int" where
  "wrap_int x = sint (word_of_int x :: 32 word)"

datatype SingleStepMode =
    None_mode
  | Watchpoint
  | Breakpoint
  | HardwareBreakpointContinue
  | SoftwareBreakpoint
  | SoftwareBreakpointContinue

record ThreadState =
  single_step_mode :: SingleStepMode
  single_step_count :: int
  current_breakpoint_index :: int
  regs :: user_regs
  is_attached :: bool
  is_stopped :: bool
  stopped_by_user :: bool
  original_wcr :: u32
  disabled_watchpoint_index :: int
  pending_signal :: int

definition zero_pt_regs :: user_pt_regs where
  "zero_pt_regs = \<lparr>user_pt_regs.regs = (\<lambda>i. 0), sp = 0, pc = 0, pstate = 0\<rparr>"

definition zero_regs_struct :: user_regs_struct where
  "zero_regs_struct =
     \<lparr>r15 = 0, r14 = 0, r13 = 0, r12 = 0, rbp = 0, rbx = 0, r11 = 0, r10 = 0, r9 = 0, r8 = 0,
      rax = 0, rcx = 0, rdx = 0, rsi = 0, rdi = 0, orig_rax = 0, rip = 0, cs = 0, eflags = 0,
      rsp = 0, ss = 0, fs_base = 0, gs_base = 0, ds = 0, es = 0, fs = 0, gs = 0\<rparr>"

definition zero_regs :: "arch \<Rightarrow> user_regs" where
  "zero_regs a = (case a of AARCH64 \<Rightarrow> PtRegs zero_pt_regs | X86_64 \<Rightarrow> RegsStruct zero_regs_struct)"

text \<open>A value-initialised \<^verbatim>\<open>ThreadState\<close>, as \<^verbatim>\<open>std::map::operator[]\<close> inserts it.\<close>

definition new_ThreadState :: "arch \<Rightarrow> ThreadState" where
  "new_ThreadState a =
     \<lparr>single_step_mode = None_mode, single_step_count = 0, current_breakpoint_index = -1,
      regs = zero_regs a, is_attached = False, is_stopped = False, stopped_by_user = False,
      original_wcr = 0, disabled_watchpoint_index = -1, pending_signal = 0\<rparr>"


text \<open>\<^verbatim>\<open>enum ExceptionType\<close> and \<^verbatim>\<open>NativeExceptionInfo\<close>, the payload of the upcall.\<close>

datatype ExceptionType =
    EXCEPTION_UNKNOWN
  | EXCEPTION_BREAKPOINT
  | EXCEPTION_WATCHPOINT
  | EXCEPTION_SINGLESTEP
  | EXCEPTION_SIGNAL
  | EXCEPTION_SIGSEGV
  | EXCEPTION_SIGBUS
  | EXCEPTION_SIGFPE
  | EXCEPTION_SIGILL
  | EXCEPTION_SIGABRT
  | EXCEPTION_SIGTRAP

record NativeExceptionInfo =
  architecture :: arch
  info_regs :: user_regs
  exception_type :: ExceptionType
  info_thread_id :: pid_t
  memory_address :: u64
  singlestep_mode :: SingleStepMode
  is_trace :: bool

section \<open>The kernel and the client as an environment\<close>

text \<open>
  Every call that leaves the engine (a \<^verbatim>\<open>ptrace\<close> request, \<^verbatim>\<open>waitpid\<close>,
  \<^verbatim>\<open>kill\<close>, \<^verbatim>\<open>fork\<close>, the \<^verbatim>\<open>send_exception_info\<close> upcall) is recorded, in
  order, in the field \<open>effects\<close> of the state. What the call returns is not decided by
  the engine: it is read from an environment \<open>os\<close>, a function from the position of the
  call in the log and the call itself to an \<open>answer\<close>, so that a theorem for every
  \<open>os\<close> holds whatever the kernel and the client reply.
\<close>

datatype regset = NT_PRSTATUS | NT_ARM_HW_BREAK | NT_ARM_HW_WATCH

datatype effect =
    PTRACE_CONT pid_t int
  | PTRACE_SINGLESTEP pid_t int
  | PTRACE_INTERRUPT pid_t
  | PTRACE_GETREGS pid_t
  | PTRACE_SETREGS pid_t user_regs_struct
  | PTRACE_GETREGSET pid_t regset
  | PTRACE_SETREGSET pid_t regset "hw_dbg_reg list"
  | PTRACE_SETREGSET_PRSTATUS pid_t user_pt_regs
  | PTRACE_PEEKDATA pid_t u64
  | PTRACE_POKEDATA pid_t u64 u64
  | PTRACE_PEEKUSER pid_t dr_slot
  | PTRACE_POKEUSER pid_t dr_slot u64
  | PTRACE_GETSIGINFO pid_t
  | PTRACE_GETEVENTMSG pid_t
  | PTRACE_TRACEME
  | PTRACE_DETACH pid_t
  | PTRACE_SEIZE pid_t
  | KILL pid_t int
  | WAITPID pid_t
  | FORK
  | FORKPTY
  | EXECVP string "string list"
  | FCNTL_GETFL int
  | FCNTL_SETFL_NONBLOCK int
  | CLOSE int
  | EXIT int
  | SEND_EXCEPTION_INFO NativeExceptionInfo pid_t
  | STOP_ALL_THREADS pid_t
  | IS_THREAD_STOPPED pid_t pid_t

record answer =
  a_ok :: bool
  a_errno :: errno
  a_word :: u64
  a_int :: int
  a_status :: int
  a_pt_regs :: user_pt_regs
  a_regs_struct :: user_regs_struct
  a_hwdebug :: "nat \<Rightarrow> hw_dbg_reg"
  a_pids :: "pid_t list"
  a_pids2 :: "pid_t list"
  a_attached :: "pid_t list"
  a_states :: "(pid_t \<times> ThreadState) list"

type_synonym os = "nat \<Rightarrow> effect \<Rightarrow> answer"

section \<open>The \<^verbatim>\<open>Debugger\<close> class\<close>

text \<open>
  The members of \<^verbatim>\<open>class Debugger\<close> that the engine reads and writes. Isabelle
  has no identifiers that end in an underscore: a member \<^verbatim>\<open>name_\<close> of the class is
  the field \<open>name\<close>, and \<^verbatim>\<open>pid_\<close> is \<open>target_pid\<close>. A
  \<^verbatim>\<open>std::map\<close> is an association list in key order, a \<^verbatim>\<open>std::set\<close> a list in key
  order, a \<^verbatim>\<open>std::vector\<close> a list.
\<close>

record Debugger =
  watchpoint_sync :: "WatchpointSync list"
  breakpoint_sync :: "BreakpointSync list"
  removing_mask :: u32
  target_pid :: pid_t
  attached_threads :: "pid_t list"
  debug_loop_running :: bool
  user_suspend_pending :: bool
  debug_command_queue :: "DebugRequest list"
  threads_attached :: bool
  watchpoint_used :: "bool list"
  watchpoint_addresses :: "u64 list"
  watchpoint_sizes :: "int list"
  watchpoint_types :: "WatchpointType list"
  breakpoint_used :: "bool list"
  breakpoint_addresses :: "u64 list"
  breakpoint_hit_counts :: "int list"
  breakpoint_target_counts :: "int list"
  breakpoint_types :: "BreakpointType list"
  software_breakpoint_used :: "bool list"
  software_breakpoint_addresses :: "u64 list"
  software_breakpoint_original_bytes :: "u8 list"
  thread_states :: "(pid_t \<times> ThreadState) list"
  debug_state :: DebugState
  current_thread :: pid_t
  signal_config :: "(int \<times> SignalConfig) list"
  effects :: "effect list"

text \<open>The constructor \<^verbatim>\<open>Debugger::Debugger(pid_t pid)\<close> (\<^verbatim>\<open>debugger_core.cpp\<close>).\<close>

definition Debugger_new :: "pid_t \<Rightarrow> Debugger" where
  "Debugger_new pid =
     \<lparr>watchpoint_sync = replicate 1 \<lparr>WatchpointSync.removing = False, active_handlers = 0\<rparr>,
      breakpoint_sync = replicate 4 \<lparr>BreakpointSync.removing = False, active_handlers = 0\<rparr>,
      removing_mask = 0,
      target_pid = pid,
      attached_threads = [],
      debug_loop_running = False,
      user_suspend_pending = False,
      debug_command_queue = [],
      threads_attached = False,
      watchpoint_used = replicate MAX_WATCHPOINTS False,
      watchpoint_addresses = replicate MAX_WATCHPOINTS 0,
      watchpoint_sizes = replicate MAX_WATCHPOINTS 0,
      watchpoint_types = replicate MAX_WATCHPOINTS READWRITE,
      breakpoint_used = replicate MAX_BREAKPOINTS False,
      breakpoint_addresses = replicate MAX_BREAKPOINTS 0,
      breakpoint_hit_counts = replicate MAX_BREAKPOINTS 0,
      breakpoint_target_counts = replicate MAX_BREAKPOINTS 0,
      breakpoint_types = replicate MAX_BREAKPOINTS HARDWARE,
      software_breakpoint_used = replicate MAX_SOFTWARE_BREAKPOINTS False,
      software_breakpoint_addresses = replicate MAX_SOFTWARE_BREAKPOINTS 0,
      software_breakpoint_original_bytes = replicate (MAX_SOFTWARE_BREAKPOINTS * 4) 0,
      thread_states = [],
      debug_state = Running,
      current_thread = 0,
      signal_config = [],
      effects = []\<rparr>"

definition sys :: "os \<Rightarrow> effect \<Rightarrow> Debugger \<Rightarrow> answer \<times> Debugger" where
  "sys os e d = (os (length (effects d)) e, d\<lparr>effects := effects d @ [e]\<rparr>)"

subsection \<open>\<^verbatim>\<open>std::map\<close> and \<^verbatim>\<open>std::set\<close>\<close>

fun map_set :: "int \<Rightarrow> 'v \<Rightarrow> (int \<times> 'v) list \<Rightarrow> (int \<times> 'v) list" where
  "map_set k v [] = [(k, v)]"
| "map_set k v ((k', v') # m) =
     (if k = k' then (k, v) # m
      else if k < k' then (k, v) # (k', v') # m
      else (k', v') # map_set k v m)"

definition map_erase :: "int \<Rightarrow> (int \<times> 'v) list \<Rightarrow> (int \<times> 'v) list" where
  "map_erase k m = filter (\<lambda>kv. fst kv \<noteq> k) m"

fun set_insert :: "int \<Rightarrow> int list \<Rightarrow> int list" where
  "set_insert k [] = [k]"
| "set_insert k (k' # m) =
     (if k = k' then k' # m else if k < k' then k # k' # m else k' # set_insert k m)"

definition set_erase :: "int \<Rightarrow> int list \<Rightarrow> int list" where
  "set_erase k m = filter (\<lambda>k'. k' \<noteq> k) m"

text \<open>\<^verbatim>\<open>thread_states[tid]\<close>: the entry, value-initialised when absent.\<close>

definition ts_at :: "arch \<Rightarrow> Debugger \<Rightarrow> pid_t \<Rightarrow> ThreadState" where
  "ts_at a d tid = (case map_of (thread_states d) tid of Some t \<Rightarrow> t | None \<Rightarrow> new_ThreadState a)"

text \<open>\<^verbatim>\<open>thread_states[tid].f = v\<close> for the field updates \<open>upd\<close>.\<close>

definition ts_update :: "arch \<Rightarrow> pid_t \<Rightarrow> (ThreadState \<Rightarrow> ThreadState) \<Rightarrow> Debugger \<Rightarrow> Debugger" where
  "ts_update a tid upd d = d\<lparr>thread_states := map_set tid (upd (ts_at a d tid)) (thread_states d)\<rparr>"

text \<open>
  \<^verbatim>\<open>for (int i = lo; i < lo + n; i++) if (P(i)) return i; return -1;\<close>, the shape of
  every slot search of the engine.
\<close>

primrec first_index :: "(nat \<Rightarrow> bool) \<Rightarrow> nat \<Rightarrow> nat \<Rightarrow> int" where
  "first_index P lo 0 = -1"
| "first_index P lo (Suc n) = (if P lo then int lo else first_index P (Suc lo) n)"

section \<open>Stop-the-world (\<^verbatim>\<open>debugger_thread.cpp\<close>)\<close>

text \<open>
  \<^verbatim>\<open>stop_all_threads\<close> interrupts the attached threads and polls \<^verbatim>\<open>waitpid\<close>
  against a five second deadline of the steady clock. Which threads it reports stopped,
  which of them were stopped before, and how it prunes \<open>attached_threads\<close> and
  \<open>thread_states\<close> meanwhile depends on the timing of the target: all four are read
  from the environment.
\<close>

definition stop_all_threads :: "os \<Rightarrow> pid_t \<Rightarrow> Debugger \<Rightarrow> (pid_t list \<times> pid_t list) \<times> Debugger" where
  "stop_all_threads os exclude_thread_id d =
     (let (r, d1) = sys os (STOP_ALL_THREADS exclude_thread_id) d
      in ((a_pids r, a_pids2 r),
          d1\<lparr>attached_threads := a_attached r, thread_states := a_states r\<rparr>))"

fun resume_threads :: "os \<Rightarrow> pid_t list \<Rightarrow> Debugger \<Rightarrow> Debugger" where
  "resume_threads os [] d = d"
| "resume_threads os (tid # stopped_threads) d =
     (let state_it = map_of (thread_states d) tid;
          signal_to_pass = (case state_it of Some st \<Rightarrow> pending_signal st | None \<Rightarrow> 0);
          d0 = (case state_it of
                  Some st \<Rightarrow> d\<lparr>thread_states :=
                               map_set tid (st\<lparr>pending_signal := 0\<rparr>) (thread_states d)\<rparr>
                | None \<Rightarrow> d);
          (r, d1) = sys os (PTRACE_CONT tid signal_to_pass) d0
      in if \<not> a_ok r then
           (if a_errno r = ESRCH then
              resume_threads os stopped_threads
                (d1\<lparr>attached_threads := set_erase tid (attached_threads d1),
                    thread_states := map_erase tid (thread_states d1)\<rparr>)
            else resume_threads os stopped_threads d1)
         else
           resume_threads os stopped_threads
             (case state_it of
                Some st \<Rightarrow> d1\<lparr>thread_states :=
                             map_set tid (st\<lparr>pending_signal := 0, is_stopped := False\<rparr>)
                               (thread_states d1)\<rparr>
              | None \<Rightarrow> d1))"

text \<open>
  The selection every install and remove makes before resuming: the stopped threads that
  were not stopped before the call.
\<close>

definition threads_to_resume :: "pid_t list \<Rightarrow> pid_t list \<Rightarrow> pid_t list" where
  "threads_to_resume stopped_threads already_stopped =
     filter (\<lambda>tid. tid \<notin> set already_stopped) stopped_threads"

section \<open>Watchpoints (\<^verbatim>\<open>debugger_watchpoint.cpp\<close>)\<close>

definition find_free_watchpoint :: "Debugger \<Rightarrow> int" where
  "find_free_watchpoint d = first_index (\<lambda>i. \<not> watchpoint_used d ! i) 0 MAX_WATCHPOINTS"

definition find_watchpoint_index :: "Debugger \<Rightarrow> u64 \<Rightarrow> int" where
  "find_watchpoint_index d address =
     first_index (\<lambda>i. watchpoint_used d ! i \<and> watchpoint_addresses d ! i = address) 0 MAX_WATCHPOINTS"

text \<open>The length selection of \<^verbatim>\<open>apply_watchpoint_to_threads\<close>, for each architecture.\<close>

definition arm_length :: "int \<Rightarrow> u32" where
  "arm_length sz =
     (if sz \<le> 1 then ARM_BREAKPOINT_LEN_1
      else if sz \<le> 2 then ARM_BREAKPOINT_LEN_2
      else if sz \<le> 4 then ARM_BREAKPOINT_LEN_4
      else ARM_BREAKPOINT_LEN_8)"

definition x86_len :: "int \<Rightarrow> u32" where
  "x86_len sz =
     (if sz \<le> 1 then X86_DR7_LEN_1
      else if sz \<le> 2 then X86_DR7_LEN_2
      else if sz \<le> 4 then X86_DR7_LEN_4
      else X86_DR7_LEN_8)"

text \<open>The access type selection (the \<^verbatim>\<open>switch (type)\<close> of each architecture).\<close>

definition arm_btype :: "WatchpointType \<Rightarrow> u32" where
  "arm_btype wtype =
     (case wtype of
        READ \<Rightarrow> ARM_BREAKPOINT_LOAD
      | WRITE \<Rightarrow> ARM_BREAKPOINT_STORE
      | READWRITE \<Rightarrow> ARM_BREAKPOINT_STORE OR ARM_BREAKPOINT_LOAD)"

definition x86_cond :: "WatchpointType \<Rightarrow> u32" where
  "x86_cond wtype =
     (case wtype of
        WRITE \<Rightarrow> X86_DR7_BREAK_ON_WRITE
      | READ \<Rightarrow> X86_DR7_BREAK_ON_RW
      | READWRITE \<Rightarrow> X86_DR7_BREAK_ON_RW)"

text \<open>
  The local \<^verbatim>\<open>user_hwdebug_state\<close> after \<^verbatim>\<open>memset\<close> and \<^verbatim>\<open>PTRACE_GETREGSET\<close> with
  an \<^verbatim>\<open>iovec\<close> of \<open>8 + 16 * n\<close> bytes: the kernel fills the first \<open>n\<close> of the 16
  entries.
\<close>

definition zero_dbg_reg :: hw_dbg_reg where
  "zero_dbg_reg = \<lparr>addr = 0, ctrl = 0\<rparr>"

definition getregset_hw :: "nat \<Rightarrow> answer \<Rightarrow> hw_dbg_reg list" where
  "getregset_hw n r = map (\<lambda>i. if i < n then a_hwdebug r i else zero_dbg_reg) [0..<16]"

text \<open>
  \<^verbatim>\<open>for (i = 0; i < MAX_WATCHPOINTS; i++) if (dbg_regs[i].addr != 0) dbg_regs[i].ctrl |= 1;\<close>
\<close>

definition reenable_watchpoints :: "nat \<Rightarrow> hw_dbg_reg list \<Rightarrow> hw_dbg_reg list" where
  "reenable_watchpoints n ws =
     map (\<lambda>i. if i < n \<and> addr (ws ! i) \<noteq> 0 then (ws ! i)\<lparr>ctrl := ctrl (ws ! i) OR 1\<rparr> else ws ! i)
       [0..<length ws]"

text \<open>
  The DR7 value of the x86_64 branch. \<^verbatim>\<open>x86_cond\<close> and \<^verbatim>\<open>x86_len\<close> are \<^verbatim>\<open>int\<close>, so
  \<^verbatim>\<open>(x86_cond | (x86_len << 2)) << shift\<close> is a 32-bit signed value, sign-extended when
  it is or-ed into the \<^verbatim>\<open>unsigned long\<close>.
\<close>

definition watch_dr7 :: "u64 \<Rightarrow> int \<Rightarrow> u32 \<Rightarrow> u32 \<Rightarrow> u64" where
  "watch_dr7 dr7 index cond len =
     (let dr7a = dr7 OR push_bit (nat (index * 2)) 1;
          shift = nat (16 + index * 4);
          dr7b = dr7a AND NOT (push_bit shift 0xF)
      in dr7b OR scast (push_bit shift (cond OR push_bit 2 len)))"

fun apply_watchpoint_to_threads ::
  "arch \<Rightarrow> os \<Rightarrow> pid_t list \<Rightarrow> int \<Rightarrow> u64 \<Rightarrow> int \<Rightarrow> WatchpointType \<Rightarrow> Debugger \<Rightarrow> bool \<times> Debugger" where
  "apply_watchpoint_to_threads a os [] index address sz wtype d = (True, d)"
| "apply_watchpoint_to_threads a os (tid # threads) index address sz wtype d =
     (case a of
        AARCH64 \<Rightarrow>
          (let (r1, d1) = sys os (PTRACE_GETREGSET tid NT_ARM_HW_WATCH) d
           in if \<not> a_ok r1 then apply_watchpoint_to_threads a os threads index address sz wtype d1
              else
                let wp_state0 = reenable_watchpoints MAX_WATCHPOINTS (getregset_hw MAX_WATCHPOINTS r1);
                    wp_state1 = wp_state0[nat index :=
                      \<lparr>addr = address,
                       ctrl = encode_ctrl_reg 0 (arm_length sz) (arm_btype wtype) 2 1\<rparr>];
                    (r2, d2) = sys os (PTRACE_SETREGSET tid NT_ARM_HW_WATCH
                                         (take MAX_WATCHPOINTS wp_state1)) d1
                in if \<not> a_ok r2 then
                     (if a_errno r2 = ESRCH
                      then apply_watchpoint_to_threads a os threads index address sz wtype d2
                      else (False, d2))
                   else apply_watchpoint_to_threads a os threads index address sz wtype d2)
      | X86_64 \<Rightarrow>
          (let (r1, d1) = sys os (PTRACE_POKEUSER tid (x86_dr_offset index) address) d
           in if \<not> a_ok r1 then
                (if a_errno r1 = ESRCH
                 then apply_watchpoint_to_threads a os threads index address sz wtype d1
                 else (False, d1))
              else
                let (r2, d2) = sys os (PTRACE_PEEKUSER tid X86_DR7_OFFSET) d1;
                    dr7 = watch_dr7 (a_word r2) index (x86_cond wtype) (x86_len sz);
                    (r3, d3) = sys os (PTRACE_POKEUSER tid X86_DR7_OFFSET dr7) d2
                in if \<not> a_ok r3 then
                     (if a_errno r3 = ESRCH
                      then apply_watchpoint_to_threads a os threads index address sz wtype d3
                      else (False, d3))
                   else apply_watchpoint_to_threads a os threads index address sz wtype d3))"

definition set_watchpoint_internal ::
  "arch \<Rightarrow> os \<Rightarrow> u64 \<Rightarrow> int \<Rightarrow> WatchpointType \<Rightarrow> Debugger \<Rightarrow> int \<times> Debugger" where
  "set_watchpoint_internal a os address sz wtype d =
     (let index = find_free_watchpoint d
      in if index = -1 then (-1, d)
         else
           let ((stopped_threads, already_stopped), d1) = stop_all_threads os 0 d
           in if stopped_threads = [] then (-1, d1)
              else
                let (success, d2) =
                      apply_watchpoint_to_threads a os stopped_threads index address sz wtype d1;
                    d3 = resume_threads os (threads_to_resume stopped_threads already_stopped) d2
                in if success then
                     (0, d3\<lparr>watchpoint_used := (watchpoint_used d3)[nat index := True],
                            watchpoint_addresses := (watchpoint_addresses d3)[nat index := address],
                            watchpoint_sizes := (watchpoint_sizes d3)[nat index := sz],
                            watchpoint_types := (watchpoint_types d3)[nat index := wtype]\<rparr>)
                   else (-1, d3))"

section \<open>Registers (\<^verbatim>\<open>debugger_register.cpp\<close>)\<close>

text \<open>
  The register mapping of \<^verbatim>\<open>read_register_internal\<close>, one chain of comparisons for
  each architecture; \<open>None\<close> is the final \<^verbatim>\<open>else\<close> (unknown register, -1).
\<close>

definition read_reg_arm64 :: "string \<Rightarrow> user_pt_regs \<Rightarrow> u64 option" where
  "read_reg_arm64 reg_name rgs =
     (if reg_name = ''x0'' then Some (user_pt_regs.regs rgs 0)
      else if reg_name = ''x1'' then Some (user_pt_regs.regs rgs 1)
      else if reg_name = ''x2'' then Some (user_pt_regs.regs rgs 2)
      else if reg_name = ''x3'' then Some (user_pt_regs.regs rgs 3)
      else if reg_name = ''x4'' then Some (user_pt_regs.regs rgs 4)
      else if reg_name = ''x5'' then Some (user_pt_regs.regs rgs 5)
      else if reg_name = ''x6'' then Some (user_pt_regs.regs rgs 6)
      else if reg_name = ''x7'' then Some (user_pt_regs.regs rgs 7)
      else if reg_name = ''x8'' then Some (user_pt_regs.regs rgs 8)
      else if reg_name = ''x9'' then Some (user_pt_regs.regs rgs 9)
      else if reg_name = ''x10'' then Some (user_pt_regs.regs rgs 10)
      else if reg_name = ''x11'' then Some (user_pt_regs.regs rgs 11)
      else if reg_name = ''x12'' then Some (user_pt_regs.regs rgs 12)
      else if reg_name = ''x13'' then Some (user_pt_regs.regs rgs 13)
      else if reg_name = ''x14'' then Some (user_pt_regs.regs rgs 14)
      else if reg_name = ''x15'' then Some (user_pt_regs.regs rgs 15)
      else if reg_name = ''x16'' then Some (user_pt_regs.regs rgs 16)
      else if reg_name = ''x17'' then Some (user_pt_regs.regs rgs 17)
      else if reg_name = ''x18'' then Some (user_pt_regs.regs rgs 18)
      else if reg_name = ''x19'' then Some (user_pt_regs.regs rgs 19)
      else if reg_name = ''x20'' then Some (user_pt_regs.regs rgs 20)
      else if reg_name = ''x21'' then Some (user_pt_regs.regs rgs 21)
      else if reg_name = ''x22'' then Some (user_pt_regs.regs rgs 22)
      else if reg_name = ''x23'' then Some (user_pt_regs.regs rgs 23)
      else if reg_name = ''x24'' then Some (user_pt_regs.regs rgs 24)
      else if reg_name = ''x25'' then Some (user_pt_regs.regs rgs 25)
      else if reg_name = ''x26'' then Some (user_pt_regs.regs rgs 26)
      else if reg_name = ''x27'' then Some (user_pt_regs.regs rgs 27)
      else if reg_name = ''x28'' then Some (user_pt_regs.regs rgs 28)
      else if reg_name = ''x29'' then Some (user_pt_regs.regs rgs 29)
      else if reg_name = ''x30'' then Some (user_pt_regs.regs rgs 30)
      else if reg_name = ''sp'' then Some (sp rgs)
      else if reg_name = ''pc'' then Some (pc rgs)
      else if reg_name = ''pstate'' then Some (pstate rgs)
      else None)"

definition read_reg_x86_64 :: "string \<Rightarrow> user_regs_struct \<Rightarrow> u64 option" where
  "read_reg_x86_64 reg_name rgs =
     (if reg_name = ''rax'' then Some (rax rgs)
      else if reg_name = ''rbx'' then Some (rbx rgs)
      else if reg_name = ''rcx'' then Some (rcx rgs)
      else if reg_name = ''rdx'' then Some (rdx rgs)
      else if reg_name = ''rsi'' then Some (rsi rgs)
      else if reg_name = ''rdi'' then Some (rdi rgs)
      else if reg_name = ''rbp'' then Some (rbp rgs)
      else if reg_name = ''rsp'' then Some (rsp rgs)
      else if reg_name = ''r8'' then Some (r8 rgs)
      else if reg_name = ''r9'' then Some (r9 rgs)
      else if reg_name = ''r10'' then Some (r10 rgs)
      else if reg_name = ''r11'' then Some (r11 rgs)
      else if reg_name = ''r12'' then Some (r12 rgs)
      else if reg_name = ''r13'' then Some (r13 rgs)
      else if reg_name = ''r14'' then Some (r14 rgs)
      else if reg_name = ''r15'' then Some (r15 rgs)
      else if reg_name = ''rip'' then Some (rip rgs)
      else if reg_name = ''rflags'' \<or> reg_name = ''eflags'' then Some (eflags rgs)
      else if reg_name = ''cs'' then Some (cs rgs)
      else if reg_name = ''ss'' then Some (ss rgs)
      else if reg_name = ''ds'' then Some (ds rgs)
      else if reg_name = ''es'' then Some (es rgs)
      else if reg_name = ''fs'' then Some (fs rgs)
      else if reg_name = ''gs'' then Some (gs rgs)
      else if reg_name = ''fs_base'' then Some (fs_base rgs)
      else if reg_name = ''gs_base'' then Some (gs_base rgs)
      else None)"

text \<open>The register mapping of \<^verbatim>\<open>write_register_internal\<close>.\<close>

definition write_reg_arm64 :: "string \<Rightarrow> u64 \<Rightarrow> user_pt_regs \<Rightarrow> user_pt_regs option" where
  "write_reg_arm64 reg_name v rgs =
     (if reg_name = ''x0'' then Some (rgs\<lparr>user_pt_regs.regs := (user_pt_regs.regs rgs)(0 := v)\<rparr>)
      else if reg_name = ''x1'' then Some (rgs\<lparr>user_pt_regs.regs := (user_pt_regs.regs rgs)(1 := v)\<rparr>)
      else if reg_name = ''x2'' then Some (rgs\<lparr>user_pt_regs.regs := (user_pt_regs.regs rgs)(2 := v)\<rparr>)
      else if reg_name = ''x3'' then Some (rgs\<lparr>user_pt_regs.regs := (user_pt_regs.regs rgs)(3 := v)\<rparr>)
      else if reg_name = ''x4'' then Some (rgs\<lparr>user_pt_regs.regs := (user_pt_regs.regs rgs)(4 := v)\<rparr>)
      else if reg_name = ''x5'' then Some (rgs\<lparr>user_pt_regs.regs := (user_pt_regs.regs rgs)(5 := v)\<rparr>)
      else if reg_name = ''x6'' then Some (rgs\<lparr>user_pt_regs.regs := (user_pt_regs.regs rgs)(6 := v)\<rparr>)
      else if reg_name = ''x7'' then Some (rgs\<lparr>user_pt_regs.regs := (user_pt_regs.regs rgs)(7 := v)\<rparr>)
      else if reg_name = ''x8'' then Some (rgs\<lparr>user_pt_regs.regs := (user_pt_regs.regs rgs)(8 := v)\<rparr>)
      else if reg_name = ''x9'' then Some (rgs\<lparr>user_pt_regs.regs := (user_pt_regs.regs rgs)(9 := v)\<rparr>)
      else if reg_name = ''x10'' then Some (rgs\<lparr>user_pt_regs.regs := (user_pt_regs.regs rgs)(10 := v)\<rparr>)
      else if reg_name = ''x11'' then Some (rgs\<lparr>user_pt_regs.regs := (user_pt_regs.regs rgs)(11 := v)\<rparr>)
      else if reg_name = ''x12'' then Some (rgs\<lparr>user_pt_regs.regs := (user_pt_regs.regs rgs)(12 := v)\<rparr>)
      else if reg_name = ''x13'' then Some (rgs\<lparr>user_pt_regs.regs := (user_pt_regs.regs rgs)(13 := v)\<rparr>)
      else if reg_name = ''x14'' then Some (rgs\<lparr>user_pt_regs.regs := (user_pt_regs.regs rgs)(14 := v)\<rparr>)
      else if reg_name = ''x15'' then Some (rgs\<lparr>user_pt_regs.regs := (user_pt_regs.regs rgs)(15 := v)\<rparr>)
      else if reg_name = ''x16'' then Some (rgs\<lparr>user_pt_regs.regs := (user_pt_regs.regs rgs)(16 := v)\<rparr>)
      else if reg_name = ''x17'' then Some (rgs\<lparr>user_pt_regs.regs := (user_pt_regs.regs rgs)(17 := v)\<rparr>)
      else if reg_name = ''x18'' then Some (rgs\<lparr>user_pt_regs.regs := (user_pt_regs.regs rgs)(18 := v)\<rparr>)
      else if reg_name = ''x19'' then Some (rgs\<lparr>user_pt_regs.regs := (user_pt_regs.regs rgs)(19 := v)\<rparr>)
      else if reg_name = ''x20'' then Some (rgs\<lparr>user_pt_regs.regs := (user_pt_regs.regs rgs)(20 := v)\<rparr>)
      else if reg_name = ''x21'' then Some (rgs\<lparr>user_pt_regs.regs := (user_pt_regs.regs rgs)(21 := v)\<rparr>)
      else if reg_name = ''x22'' then Some (rgs\<lparr>user_pt_regs.regs := (user_pt_regs.regs rgs)(22 := v)\<rparr>)
      else if reg_name = ''x23'' then Some (rgs\<lparr>user_pt_regs.regs := (user_pt_regs.regs rgs)(23 := v)\<rparr>)
      else if reg_name = ''x24'' then Some (rgs\<lparr>user_pt_regs.regs := (user_pt_regs.regs rgs)(24 := v)\<rparr>)
      else if reg_name = ''x25'' then Some (rgs\<lparr>user_pt_regs.regs := (user_pt_regs.regs rgs)(25 := v)\<rparr>)
      else if reg_name = ''x26'' then Some (rgs\<lparr>user_pt_regs.regs := (user_pt_regs.regs rgs)(26 := v)\<rparr>)
      else if reg_name = ''x27'' then Some (rgs\<lparr>user_pt_regs.regs := (user_pt_regs.regs rgs)(27 := v)\<rparr>)
      else if reg_name = ''x28'' then Some (rgs\<lparr>user_pt_regs.regs := (user_pt_regs.regs rgs)(28 := v)\<rparr>)
      else if reg_name = ''x29'' then Some (rgs\<lparr>user_pt_regs.regs := (user_pt_regs.regs rgs)(29 := v)\<rparr>)
      else if reg_name = ''x30'' then Some (rgs\<lparr>user_pt_regs.regs := (user_pt_regs.regs rgs)(30 := v)\<rparr>)
      else if reg_name = ''sp'' then Some (rgs\<lparr>sp := v\<rparr>)
      else if reg_name = ''pc'' then Some (rgs\<lparr>pc := v\<rparr>)
      else if reg_name = ''pstate'' then Some (rgs\<lparr>pstate := v\<rparr>)
      else None)"

definition write_reg_x86_64 :: "string \<Rightarrow> u64 \<Rightarrow> user_regs_struct \<Rightarrow> user_regs_struct option" where
  "write_reg_x86_64 reg_name v rgs =
     (if reg_name = ''rax'' then Some (rgs\<lparr>rax := v\<rparr>)
      else if reg_name = ''rbx'' then Some (rgs\<lparr>rbx := v\<rparr>)
      else if reg_name = ''rcx'' then Some (rgs\<lparr>rcx := v\<rparr>)
      else if reg_name = ''rdx'' then Some (rgs\<lparr>rdx := v\<rparr>)
      else if reg_name = ''rsi'' then Some (rgs\<lparr>rsi := v\<rparr>)
      else if reg_name = ''rdi'' then Some (rgs\<lparr>rdi := v\<rparr>)
      else if reg_name = ''rbp'' then Some (rgs\<lparr>rbp := v\<rparr>)
      else if reg_name = ''rsp'' then Some (rgs\<lparr>rsp := v\<rparr>)
      else if reg_name = ''r8'' then Some (rgs\<lparr>r8 := v\<rparr>)
      else if reg_name = ''r9'' then Some (rgs\<lparr>r9 := v\<rparr>)
      else if reg_name = ''r10'' then Some (rgs\<lparr>r10 := v\<rparr>)
      else if reg_name = ''r11'' then Some (rgs\<lparr>r11 := v\<rparr>)
      else if reg_name = ''r12'' then Some (rgs\<lparr>r12 := v\<rparr>)
      else if reg_name = ''r13'' then Some (rgs\<lparr>r13 := v\<rparr>)
      else if reg_name = ''r14'' then Some (rgs\<lparr>r14 := v\<rparr>)
      else if reg_name = ''r15'' then Some (rgs\<lparr>r15 := v\<rparr>)
      else if reg_name = ''rip'' then Some (rgs\<lparr>rip := v\<rparr>)
      else if reg_name = ''rflags'' \<or> reg_name = ''eflags'' then Some (rgs\<lparr>eflags := v\<rparr>)
      else if reg_name = ''cs'' then Some (rgs\<lparr>cs := v\<rparr>)
      else if reg_name = ''ss'' then Some (rgs\<lparr>ss := v\<rparr>)
      else if reg_name = ''ds'' then Some (rgs\<lparr>ds := v\<rparr>)
      else if reg_name = ''es'' then Some (rgs\<lparr>es := v\<rparr>)
      else if reg_name = ''fs'' then Some (rgs\<lparr>fs := v\<rparr>)
      else if reg_name = ''gs'' then Some (rgs\<lparr>gs := v\<rparr>)
      else if reg_name = ''fs_base'' then Some (rgs\<lparr>fs_base := v\<rparr>)
      else if reg_name = ''gs_base'' then Some (rgs\<lparr>gs_base := v\<rparr>)
      else None)"

text \<open>
  Fetching the general registers: \<^verbatim>\<open>PTRACE_GETREGSET\<close> with \<^verbatim>\<open>NT_PRSTATUS\<close> on ARM64,
  \<^verbatim>\<open>PTRACE_GETREGS\<close> on x86_64.
\<close>

definition getregs_call :: "arch \<Rightarrow> pid_t \<Rightarrow> effect" where
  "getregs_call a tid =
     (case a of AARCH64 \<Rightarrow> PTRACE_GETREGSET tid NT_PRSTATUS | X86_64 \<Rightarrow> PTRACE_GETREGS tid)"

text \<open>The register file an answer of the kernel carries for the architecture.\<close>

definition answer_regs :: "arch \<Rightarrow> answer \<Rightarrow> user_regs" where
  "answer_regs a r = (case a of AARCH64 \<Rightarrow> PtRegs (a_pt_regs r) | X86_64 \<Rightarrow> RegsStruct (a_regs_struct r))"

text \<open>
  \<open>val\<close> is the location \<^verbatim>\<open>uint64_t* value\<close>: \<open>None\<close> for a null pointer, otherwise
  its content, returned updated.
\<close>

definition read_register_internal ::
  "arch \<Rightarrow> os \<Rightarrow> pid_t \<Rightarrow> string \<Rightarrow> u64 option \<Rightarrow> Debugger \<Rightarrow> (int \<times> u64 option) \<times> Debugger" where
  "read_register_internal a os thread_id reg_name val d =
     (if val = None \<or> thread_id \<notin> set (attached_threads d) then ((-1, val), d)
      else
        (case a of
           AARCH64 \<Rightarrow>
             (let (r, d1) = sys os (PTRACE_GETREGSET thread_id NT_PRSTATUS) d
              in if \<not> a_ok r then ((-1, val), d1)
                 else (case read_reg_arm64 reg_name (a_pt_regs r) of
                         Some x \<Rightarrow> ((0, Some x), d1)
                       | None \<Rightarrow> ((-1, val), d1)))
         | X86_64 \<Rightarrow>
             (let (r, d1) = sys os (PTRACE_GETREGS thread_id) d
              in if \<not> a_ok r then ((-1, val), d1)
                 else (case read_reg_x86_64 reg_name (a_regs_struct r) of
                         Some x \<Rightarrow> ((0, Some x), d1)
                       | None \<Rightarrow> ((-1, val), d1)))))"

definition write_register_internal ::
  "arch \<Rightarrow> os \<Rightarrow> pid_t \<Rightarrow> string \<Rightarrow> u64 \<Rightarrow> Debugger \<Rightarrow> int \<times> Debugger" where
  "write_register_internal a os thread_id reg_name v d =
     (if thread_id \<notin> set (attached_threads d) then (-1, d)
      else
        (case a of
           AARCH64 \<Rightarrow>
             (let (r, d1) = sys os (PTRACE_GETREGSET thread_id NT_PRSTATUS) d
              in if \<not> a_ok r then (-1, d1)
                 else (case write_reg_arm64 reg_name v (a_pt_regs r) of
                         None \<Rightarrow> (-1, d1)
                       | Some rgs \<Rightarrow>
                           (let (r2, d2) = sys os (PTRACE_SETREGSET_PRSTATUS thread_id rgs) d1
                            in if \<not> a_ok r2 then (-1, d2) else (0, d2))))
         | X86_64 \<Rightarrow>
             (let (r, d1) = sys os (PTRACE_GETREGS thread_id) d
              in if \<not> a_ok r then (-1, d1)
                 else (case write_reg_x86_64 reg_name v (a_regs_struct r) of
                         None \<Rightarrow> (-1, d1)
                       | Some rgs \<Rightarrow>
                           (let (r2, d2) = sys os (PTRACE_SETREGS thread_id rgs) d1
                            in if \<not> a_ok r2 then (-1, d2) else (0, d2))))))"


section \<open>Wait status and signal numbers\<close>

text \<open>
  The macros of \<^verbatim>\<open><sys/wait.h>\<close> on Linux and the signal numbers of ARM64 and x86_64
  Linux, which the engine uses by name.
\<close>

definition WIFSTOPPED :: "int \<Rightarrow> bool" where
  "WIFSTOPPED status = (status AND 0xff = 0x7f)"

definition WSTOPSIG :: "int \<Rightarrow> int" where
  "WSTOPSIG status = drop_bit 8 status AND 0xff"

definition WIFEXITED :: "int \<Rightarrow> bool" where
  "WIFEXITED status = (status AND 0x7f = 0)"

definition WIFSIGNALED :: "int \<Rightarrow> bool" where
  "WIFSIGNALED status = (status AND 0x7f \<noteq> 0 \<and> status AND 0x7f \<noteq> 0x7f)"

definition SIGILL :: int where "SIGILL = 4"
definition SIGTRAP :: int where "SIGTRAP = 5"
definition SIGABRT :: int where "SIGABRT = 6"
definition SIGBUS :: int where "SIGBUS = 7"
definition SIGFPE :: int where "SIGFPE = 8"
definition SIGSEGV :: int where "SIGSEGV = 11"
definition SIGCONT :: int where "SIGCONT = 18"
definition SIGSTOP :: int where "SIGSTOP = 19"
definition SIGTSTP :: int where "SIGTSTP = 20"

definition PTRACE_EVENT_CLONE :: int where "PTRACE_EVENT_CLONE = 3"
definition PTRACE_EVENT_STOP :: int where "PTRACE_EVENT_STOP = 128"

section \<open>Spawn (\<^verbatim>\<open>debugger_spawn.cpp\<close>)\<close>

text \<open>
  \<^verbatim>\<open>fork\<close> returns twice. The environment's answer to \<open>FORK\<close> says in which process the
  function continues: 0 is the child. The child never returns to its caller: it ends in
  \<^verbatim>\<open>_exit\<close> (\<open>Exited\<close>) or its image is replaced by \<^verbatim>\<open>execvp\<close> (\<open>Replaced\<close>).
\<close>

datatype outcome = Returned int | Exited int | Replaced

text \<open>
  The notification the spawn functions build by hand after \<^verbatim>\<open>memset\<close>: on x86_64 the
  segment registers and bases stay zero.
\<close>

definition spawn_info_regs :: "arch \<Rightarrow> answer \<Rightarrow> user_regs" where
  "spawn_info_regs a r =
     (case a of
        AARCH64 \<Rightarrow> PtRegs (a_pt_regs r)
      | X86_64 \<Rightarrow>
          (let rgs = a_regs_struct r
           in RegsStruct (zero_regs_struct\<lparr>rax := rax rgs, rbx := rbx rgs, rcx := rcx rgs,
                rdx := rdx rgs, rsi := rsi rgs, rdi := rdi rgs, rbp := rbp rgs, rsp := rsp rgs,
                r8 := r8 rgs, r9 := r9 rgs, r10 := r10 rgs, r11 := r11 rgs, r12 := r12 rgs,
                r13 := r13 rgs, r14 := r14 rgs, r15 := r15 rgs, rip := rip rgs,
                eflags := eflags rgs\<rparr>)))"

definition spawn_exception_info :: "arch \<Rightarrow> answer \<Rightarrow> pid_t \<Rightarrow> NativeExceptionInfo" where
  "spawn_exception_info a r pid =
     \<lparr>architecture = a, info_regs = spawn_info_regs a r, exception_type = EXCEPTION_BREAKPOINT,
      info_thread_id = pid, memory_address = 0, singlestep_mode = None_mode, is_trace = False\<rparr>"

text \<open>
  The parent's promotion from \<^verbatim>\<open>PTRACE_TRACEME\<close> to \<^verbatim>\<open>PTRACE_SEIZE\<close>, shared in shape by
  both spawn functions; \<open>cleanup\<close> is what a failing step does before it returns -1
  (nothing, or \<^verbatim>\<open>close(master_fd)\<close>).
\<close>

definition spawn_parent ::
  "arch \<Rightarrow> os \<Rightarrow> pid_t \<Rightarrow> (Debugger \<Rightarrow> Debugger) \<Rightarrow> DebugRequest \<Rightarrow> Debugger \<Rightarrow>
     int \<times> DebugRequest \<times> Debugger" where
  "spawn_parent a os pid cleanup request d =
     (let (w, d1) = sys os (WAITPID pid) d
      in if a_int w < 0 then (-1, request, cleanup d1)
         else if WIFSTOPPED (a_status w) then
           (let (k, d2) = sys os (KILL pid SIGSTOP) d1
            in if \<not> a_ok k then (-1, request, cleanup d2)
               else
                 let (dt, d3) = sys os (PTRACE_DETACH pid) d2
                 in if \<not> a_ok dt then (-1, request, cleanup d3)
                    else
                      let (w2, d4) = sys os (WAITPID pid) d3
                      in if a_int w2 \<noteq> pid \<or> \<not> WIFSTOPPED (a_status w2) then (-1, request, cleanup d4)
                         else
                           let (sz, d5) = sys os (PTRACE_SEIZE pid) d4
                           in if \<not> a_ok sz then (-1, request, cleanup d5)
                              else
                                let (ir, d6) = sys os (PTRACE_INTERRUPT pid) d5
                                in if \<not> a_ok ir then (-1, request, cleanup d6)
                                   else
                                     let (w3, d7) = sys os (WAITPID pid) d6
                                     in if a_int w3 \<noteq> pid then (-1, request, cleanup d7)
                                        else
                                          let d8 = ts_update a pid
                                                (\<lambda>t. t\<lparr>is_attached := True, is_stopped := True,
                                                        current_breakpoint_index := -1,
                                                        single_step_mode := None_mode\<rparr>)
                                                (d7\<lparr>target_pid := pid,
                                                    attached_threads := set_insert pid (attached_threads d7)\<rparr>);
                                              d9 = d8\<lparr>threads_attached := True, current_thread := pid,
                                                      debug_state := Paused\<rparr>;
                                              (g, d10) = sys os (getregs_call a pid) d9;
                                              d11 = (if a_ok g
                                                     then snd (sys os (SEND_EXCEPTION_INFO
                                                                 (spawn_exception_info a g pid) pid) d10)
                                                     else d10)
                                          in (0, request\<lparr>rq_spawned_pid := pid\<rparr>, d11))
         else if WIFEXITED (a_status w) then (-1, request, cleanup d1)
         else if WIFSIGNALED (a_status w) then (-1, request, cleanup d1)
         else (-1, request, d1))"

definition spawn_child :: "os \<Rightarrow> DebugRequest \<Rightarrow> Debugger \<Rightarrow> outcome \<times> Debugger" where
  "spawn_child os request d =
     (let (t, d1) = sys os PTRACE_TRACEME d
      in if \<not> a_ok t then (Exited 1, snd (sys os (EXIT 1) d1))
         else
           let (x, d2) = sys os (EXECVP (rq_executable_path request)
                                   (rq_executable_path request # rq_spawn_args request)) d1
           in if a_ok x then (Replaced, d2) else (Exited 1, snd (sys os (EXIT 1) d2)))"

definition spawn_process_internal ::
  "arch \<Rightarrow> os \<Rightarrow> DebugRequest \<Rightarrow> Debugger \<Rightarrow> outcome \<times> DebugRequest \<times> Debugger" where
  "spawn_process_internal a os request d =
     (let (f, d1) = sys os FORK d;
          pid = a_int f
      in if pid < 0 then (Returned (-1), request, d1)
         else if pid = 0 then
           (let (out, d2) = spawn_child os request d1 in (out, request, d2))
         else
           (let (res, request', d2) = spawn_parent a os pid (\<lambda>d. d) request d1
            in (Returned res, request', d2)))"

text \<open>
  The variant with a pseudo-terminal (not the Android build, which returns -1 at once).
  \<^verbatim>\<open>forkpty\<close> answers the child's pid and, in \<open>a_status\<close>, the master descriptor.
\<close>

definition spawn_process_with_pty_internal ::
  "arch \<Rightarrow> os \<Rightarrow> DebugRequest \<Rightarrow> Debugger \<Rightarrow> outcome \<times> DebugRequest \<times> Debugger" where
  "spawn_process_with_pty_internal a os request d =
     (let (f, d1) = sys os FORKPTY d;
          pid = a_int f;
          master_fd = a_status f
      in if pid < 0 then (Returned (-1), request, d1)
         else if pid = 0 then
           (let (out, d2) = spawn_child os request d1 in (out, request, d2))
         else
           (let (fl, d2) = sys os (FCNTL_GETFL master_fd) d1;
                d3 = (if a_int fl \<noteq> -1 then snd (sys os (FCNTL_SETFL_NONBLOCK master_fd) d2) else d2);
                (res, request', d4) =
                   spawn_parent a os pid (\<lambda>d. snd (sys os (CLOSE master_fd) d)) request d3
            in (Returned res,
                (if res = 0 then request'\<lparr>rq_pty_fd := master_fd\<rparr> else request'), d4)))"

text \<open>
  The sibling of the spawn functions in \<^verbatim>\<open>linux/core/process_api.cpp\<close>
  (\<^verbatim>\<open>static pid_t spawn_process_internal\<close>), which spawns without tracing;
  \<open>envp\<close> is \<open>None\<close> for a null pointer.
\<close>

definition process_api_spawn_process_internal ::
  "os \<Rightarrow> string \<Rightarrow> string list \<Rightarrow> string list option \<Rightarrow> bool \<Rightarrow> Debugger \<Rightarrow> outcome \<times> Debugger" where
  "process_api_spawn_process_internal os executable_path argv envp suspended d =
     (let (f, d1) = sys os FORK d;
          pid = a_int f
      in if pid < 0 then (Returned (-1), d1)
         else if pid = 0 then
           (let d2 = (if suspended then snd (sys os (KILL 0 SIGSTOP) d1) else d1);
                (x, d3) = sys os (EXECVP executable_path argv) d2
            in if a_ok x then (Replaced, d3) else (Exited 127, snd (sys os (EXIT 127) d3)))
         else if suspended then
           (let (w, d2) = sys os (WAITPID pid) d1
            in if a_int w \<noteq> pid then (Returned (-1), snd (sys os (KILL pid 9) d2))
               else if \<not> WIFSTOPPED (a_status w) then (Returned (-1), snd (sys os (KILL pid 9) d2))
               else (Returned pid, d2))
         else (Returned pid, d1))"

subsection \<open>Removing and re-applying watchpoints\<close>

fun clear_watchpoint_from_threads :: "arch \<Rightarrow> os \<Rightarrow> pid_t list \<Rightarrow> int \<Rightarrow> Debugger \<Rightarrow> bool \<times> Debugger" where
  "clear_watchpoint_from_threads a os [] index d = (True, d)"
| "clear_watchpoint_from_threads a os (tid # threads) index d =
     (case a of
        AARCH64 \<Rightarrow>
          (let (r1, d1) = sys os (PTRACE_GETREGSET tid NT_ARM_HW_WATCH) d
           in if \<not> a_ok r1 then
                (if a_errno r1 = ESRCH
                 then clear_watchpoint_from_threads a os threads index d1
                 else (False, d1))
              else
                let wp_state = (getregset_hw MAX_WATCHPOINTS r1)[nat index := \<lparr>addr = 0, ctrl = 0\<rparr>];
                    (r2, d2) = sys os (PTRACE_SETREGSET tid NT_ARM_HW_WATCH
                                         (take MAX_WATCHPOINTS wp_state)) d1
                in if \<not> a_ok r2 then
                     (if a_errno r2 = ESRCH
                      then clear_watchpoint_from_threads a os threads index d2
                      else (False, d2))
                   else clear_watchpoint_from_threads a os threads index d2)
      | X86_64 \<Rightarrow>
          (let (r1, d1) = sys os (PTRACE_POKEUSER tid (x86_dr_offset index) 0) d
           in if \<not> a_ok r1 then
                (if a_errno r1 = ESRCH
                 then clear_watchpoint_from_threads a os threads index d1
                 else (False, d1))
              else
                let (r2, d2) = sys os (PTRACE_PEEKUSER tid X86_DR7_OFFSET) d1;
                    (r3, d3) = sys os (PTRACE_POKEUSER tid X86_DR7_OFFSET
                                         (a_word r2 AND NOT (push_bit (nat (index * 2)) 1)
                                            AND NOT (push_bit (nat (16 + index * 4)) 0xF))) d2
                in if \<not> a_ok r3 then
                     (if a_errno r3 = ESRCH
                      then clear_watchpoint_from_threads a os threads index d3
                      else (False, d3))
                   else clear_watchpoint_from_threads a os threads index d3))"

text \<open>\<^verbatim>\<open>watchpoint_sync_[index].removing.store(b)\<close> with the matching update of the mask.\<close>

definition set_removing :: "int \<Rightarrow> bool \<Rightarrow> Debugger \<Rightarrow> Debugger" where
  "set_removing index b d =
     d\<lparr>watchpoint_sync :=
         (watchpoint_sync d)[nat index := (watchpoint_sync d ! nat index)\<lparr>WatchpointSync.removing := b\<rparr>],
       removing_mask :=
         (if b then removing_mask d OR push_bit (nat index) 1
          else removing_mask d AND NOT (push_bit (nat index) 1))\<rparr>"

text \<open>
  Between setting and clearing the flag, \<^verbatim>\<open>remove_watchpoint_internal\<close> polls
  \<open>active_handlers\<close> for at most a second. The counter is only written by the thread
  that polls, so the wait changes nothing and is left out.
\<close>

definition remove_watchpoint_internal :: "arch \<Rightarrow> os \<Rightarrow> u64 \<Rightarrow> Debugger \<Rightarrow> int \<times> Debugger" where
  "remove_watchpoint_internal a os address d =
     (let index = find_watchpoint_index d address
      in if index = -1 then (-1, d)
         else
           let d0 = set_removing index True d;
               ((stopped_threads, already_stopped), d1) = stop_all_threads os 0 d0
           in if stopped_threads = [] then (-1, set_removing index False d1)
              else
                let (success, d2) = clear_watchpoint_from_threads a os stopped_threads index d1;
                    d3 = resume_threads os (threads_to_resume stopped_threads already_stopped) d2;
                    d4 = set_removing index False d3
                in if success then
                     (0, d4\<lparr>watchpoint_used := (watchpoint_used d4)[nat index := False],
                            watchpoint_addresses := (watchpoint_addresses d4)[nat index := 0],
                            watchpoint_sizes := (watchpoint_sizes d4)[nat index := 0]\<rparr>)
                   else (-1, d4))"

text \<open>The loop of \<^verbatim>\<open>reapply_all_watchpoints_internal\<close> over the slots from \<open>i\<close> on.\<close>

fun reapply_slots :: "arch \<Rightarrow> os \<Rightarrow> pid_t list \<Rightarrow> nat \<Rightarrow> nat \<Rightarrow> bool \<Rightarrow> Debugger \<Rightarrow> bool \<times> Debugger" where
  "reapply_slots a os stopped_threads i 0 success d = (success, d)"
| "reapply_slots a os stopped_threads i (Suc n) success d =
     (if WatchpointSync.removing (watchpoint_sync d ! i)
      then reapply_slots a os stopped_threads (Suc i) n success d
      else if watchpoint_used d ! i then
        (let (ok, d1) = apply_watchpoint_to_threads a os stopped_threads (int i)
                          (watchpoint_addresses d ! i) (watchpoint_sizes d ! i)
                          (watchpoint_types d ! i) d
         in reapply_slots a os stopped_threads (Suc i) n (success \<and> ok) d1)
      else reapply_slots a os stopped_threads (Suc i) n success d)"

text \<open>Marking the threads that are about to be resumed as running, where they have a state.\<close>

fun mark_running :: "pid_t list \<Rightarrow> (pid_t \<times> ThreadState) list \<Rightarrow> (pid_t \<times> ThreadState) list" where
  "mark_running [] m = m"
| "mark_running (tid # tids) m =
     mark_running tids
       (case map_of m tid of
          Some st \<Rightarrow> map_set tid (st\<lparr>is_stopped := False\<rparr>) m
        | None \<Rightarrow> m)"

definition reapply_all_watchpoints_internal :: "arch \<Rightarrow> os \<Rightarrow> pid_t \<Rightarrow> Debugger \<Rightarrow> int \<times> Debugger" where
  "reapply_all_watchpoints_internal a os already_stopped_thread d =
     (let ((stopped0, already_stopped), d1) = stop_all_threads os already_stopped_thread d;
          stopped_threads =
            (if already_stopped_thread \<noteq> 0 \<and> already_stopped_thread \<notin> set stopped0
             then stopped0 @ [already_stopped_thread] else stopped0)
      in if stopped_threads = [] then (-1, d1)
         else
           let (success, d2) = reapply_slots a os stopped_threads 0 MAX_WATCHPOINTS True d1;
               resume = threads_to_resume stopped_threads already_stopped;
               d3 = resume_threads os resume
                      (d2\<lparr>thread_states := mark_running resume (thread_states d2)\<rparr>)
           in if \<not> success then (-1, d3) else (0, d3))"


section \<open>Breakpoints (\<^verbatim>\<open>debugger_breakpoint.cpp\<close>)\<close>

definition find_free_breakpoint :: "Debugger \<Rightarrow> int" where
  "find_free_breakpoint d = first_index (\<lambda>i. \<not> breakpoint_used d ! i) 0 MAX_BREAKPOINTS"

text \<open>
  Hardware slots first; then the software table, whose hits are reported as the slot
  number plus 1000. On x86_64 the address just behind an \<^verbatim>\<open>INT3\<close> matches too.
\<close>

definition find_breakpoint_index :: "arch \<Rightarrow> Debugger \<Rightarrow> u64 \<Rightarrow> int" where
  "find_breakpoint_index a d address =
     (let hw = first_index (\<lambda>i. breakpoint_used d ! i \<and> breakpoint_addresses d ! i = address)
                 0 MAX_BREAKPOINTS
      in if hw \<noteq> -1 then hw
         else
           let sw = first_index
                      (\<lambda>i. software_breakpoint_used d ! i \<and>
                           (software_breakpoint_addresses d ! i = address \<or>
                            (a = X86_64 \<and> address > 0 \<and>
                             software_breakpoint_addresses d ! i = address - 1)))
                      0 MAX_SOFTWARE_BREAKPOINTS
           in if sw \<noteq> -1 then sw + 1000 else -1)"

text \<open>The control word of an execution breakpoint and the DR7 value of the x86_64 branch.\<close>

definition exec_ctrl :: u32 where
  "exec_ctrl = encode_ctrl_reg 0 ARM_BREAKPOINT_LEN_4 ARM_BREAKPOINT_EXECUTE 0 1"

definition exec_dr7 :: "u64 \<Rightarrow> int \<Rightarrow> u64" where
  "exec_dr7 dr7 index =
     (let dr7a = dr7 OR push_bit (nat (index * 2)) 1;
          shift = nat (16 + index * 4);
          dr7b = dr7a AND NOT (push_bit shift 0xF)
      in dr7b OR scast (push_bit shift (X86_DR7_BREAK_ON_EXEC OR push_bit 2 X86_DR7_LEN_1)))"

text \<open>Clearing the enable, condition and length bits of slot \<open>index\<close> in DR7.\<close>

definition clear_dr7 :: "u64 \<Rightarrow> int \<Rightarrow> u64" where
  "clear_dr7 dr7 index =
     (dr7 AND NOT (push_bit (nat (index * 2)) 1)) AND NOT (push_bit (nat (16 + index * 4)) 0xF)"

definition reenable_breakpoints :: "nat \<Rightarrow> (nat \<Rightarrow> bool) \<Rightarrow> hw_dbg_reg list \<Rightarrow> hw_dbg_reg list" where
  "reenable_breakpoints n keep ws =
     map (\<lambda>i. if i < n \<and> keep i \<and> addr (ws ! i) \<noteq> 0 then (ws ! i)\<lparr>ctrl := exec_ctrl\<rparr> else ws ! i)
       [0..<length ws]"

fun apply_breakpoint_to_threads ::
  "arch \<Rightarrow> os \<Rightarrow> pid_t list \<Rightarrow> int \<Rightarrow> u64 \<Rightarrow> Debugger \<Rightarrow> bool \<times> Debugger" where
  "apply_breakpoint_to_threads a os [] index address d = (True, d)"
| "apply_breakpoint_to_threads a os (tid # threads) index address d =
     (case a of
        AARCH64 \<Rightarrow>
          (let (r1, d1) = sys os (PTRACE_GETREGSET tid NT_ARM_HW_BREAK) d
           in if \<not> a_ok r1 then
                (if a_errno r1 = ESRCH
                 then apply_breakpoint_to_threads a os threads index address d1
                 else (False, d1))
              else
                let bp_state0 = reenable_breakpoints MAX_BREAKPOINTS (\<lambda>i. True)
                                  (getregset_hw MAX_BREAKPOINTS r1);
                    bp_state1 = bp_state0[nat index := \<lparr>addr = address, ctrl = exec_ctrl\<rparr>];
                    (r2, d2) = sys os (PTRACE_SETREGSET tid NT_ARM_HW_BREAK
                                         (take MAX_BREAKPOINTS bp_state1)) d1
                in if \<not> a_ok r2 then
                     (if a_errno r2 = ESRCH
                      then apply_breakpoint_to_threads a os threads index address d2
                      else (False, d2))
                   else apply_breakpoint_to_threads a os threads index address d2)
      | X86_64 \<Rightarrow>
          (let (r1, d1) = sys os (PTRACE_POKEUSER tid (x86_dr_offset index) address) d
           in if \<not> a_ok r1 then
                (if a_errno r1 = ESRCH
                 then apply_breakpoint_to_threads a os threads index address d1
                 else (False, d1))
              else
                let (r2, d2) = sys os (PTRACE_PEEKUSER tid X86_DR7_OFFSET) d1;
                    (r3, d3) = sys os (PTRACE_POKEUSER tid X86_DR7_OFFSET
                                         (exec_dr7 (a_word r2) index)) d2
                in if \<not> a_ok r3 then
                     (if a_errno r3 = ESRCH
                      then apply_breakpoint_to_threads a os threads index address d3
                      else (False, d3))
                   else apply_breakpoint_to_threads a os threads index address d3))"

text \<open>
  Clearing slot \<open>index\<close> of the register set \<open>rs\<close> (breakpoints or watchpoints) on
  every thread: \<^verbatim>\<open>clear_breakpoint_from_threads\<close> re-enables the other breakpoints on
  ARM64 first, \<^verbatim>\<open>clear_watchpoint_from_threads\<close> does not.
\<close>

fun clear_breakpoint_from_threads :: "arch \<Rightarrow> os \<Rightarrow> pid_t list \<Rightarrow> int \<Rightarrow> Debugger \<Rightarrow> bool \<times> Debugger" where
  "clear_breakpoint_from_threads a os [] index d = (True, d)"
| "clear_breakpoint_from_threads a os (tid # threads) index d =
     (case a of
        AARCH64 \<Rightarrow>
          (let (r1, d1) = sys os (PTRACE_GETREGSET tid NT_ARM_HW_BREAK) d
           in if \<not> a_ok r1 then
                (if a_errno r1 = ESRCH
                 then clear_breakpoint_from_threads a os threads index d1
                 else (False, d1))
              else
                let bp_state0 = reenable_breakpoints MAX_BREAKPOINTS (\<lambda>i. int i \<noteq> index)
                                  (getregset_hw MAX_BREAKPOINTS r1);
                    bp_state1 = bp_state0[nat index := \<lparr>addr = 0, ctrl = 0\<rparr>];
                    (r2, d2) = sys os (PTRACE_SETREGSET tid NT_ARM_HW_BREAK
                                         (take MAX_BREAKPOINTS bp_state1)) d1
                in if \<not> a_ok r2 then
                     (if a_errno r2 = ESRCH
                      then clear_breakpoint_from_threads a os threads index d2
                      else (False, d2))
                   else clear_breakpoint_from_threads a os threads index d2)
      | X86_64 \<Rightarrow>
          (let (r1, d1) = sys os (PTRACE_POKEUSER tid (x86_dr_offset index) 0) d
           in if \<not> a_ok r1 then
                (if a_errno r1 = ESRCH
                 then clear_breakpoint_from_threads a os threads index d1
                 else (False, d1))
              else
                let (r2, d2) = sys os (PTRACE_PEEKUSER tid X86_DR7_OFFSET) d1;
                    (r3, d3) = sys os (PTRACE_POKEUSER tid X86_DR7_OFFSET
                                         (clear_dr7 (a_word r2) index)) d2
                in if \<not> a_ok r3 then
                     (if a_errno r3 = ESRCH
                      then clear_breakpoint_from_threads a os threads index d3
                      else (False, d3))
                   else clear_breakpoint_from_threads a os threads index d3))"

definition set_hardware_breakpoint_internal ::
  "arch \<Rightarrow> os \<Rightarrow> u64 \<Rightarrow> int \<Rightarrow> Debugger \<Rightarrow> int \<times> Debugger" where
  "set_hardware_breakpoint_internal a os address hit_count d =
     (let index = find_free_breakpoint d
      in if index = -1 then (-1, d)
         else
           let ((stopped_threads, already_stopped), d1) = stop_all_threads os 0 d
           in if stopped_threads = [] then (-1, d1)
              else
                let (success, d2) = apply_breakpoint_to_threads a os stopped_threads index address d1;
                    d3 = resume_threads os (threads_to_resume stopped_threads already_stopped) d2
                in if success then
                     (0, d3\<lparr>breakpoint_used := (breakpoint_used d3)[nat index := True],
                            breakpoint_addresses := (breakpoint_addresses d3)[nat index := address],
                            breakpoint_target_counts :=
                              (breakpoint_target_counts d3)[nat index := hit_count],
                            breakpoint_hit_counts := (breakpoint_hit_counts d3)[nat index := 0],
                            breakpoint_types := (breakpoint_types d3)[nat index := HARDWARE]\<rparr>)
                   else (-1, d3))"

subsection \<open>Software breakpoints\<close>

text \<open>The bytes of a machine word in memory order (both targets are little-endian).\<close>

definition word_bytes :: "u64 \<Rightarrow> u8 list" where
  "word_bytes w = map (\<lambda>i. ucast (drop_bit (8 * i) w)) [0..<8]"

text \<open>\<^verbatim>\<open>memcpy(&xs[off], bs, length bs)\<close> into a vector.\<close>

fun store_bytes :: "nat \<Rightarrow> u8 list \<Rightarrow> u8 list \<Rightarrow> u8 list" where
  "store_bytes off [] xs = xs"
| "store_bytes off (b # bs) xs = store_bytes (Suc off) bs (xs[off := b])"

text \<open>The trap width, the trap instruction merged into a word, and an instruction put back.\<close>

definition bp_size :: "arch \<Rightarrow> nat" where
  "bp_size a = (case a of AARCH64 \<Rightarrow> 4 | X86_64 \<Rightarrow> 1)"

definition patch_trap :: "arch \<Rightarrow> u64 \<Rightarrow> u64" where
  "patch_trap a word =
     (case a of
        AARCH64 \<Rightarrow> (word AND NOT 0xFFFFFFFF) OR 0xD4200000
      | X86_64 \<Rightarrow> (word AND NOT 0xFF) OR 0xCC)"

definition u32_of_bytes :: "u8 list \<Rightarrow> u64" where
  "u32_of_bytes bs =
     ucast (bs ! 0) OR push_bit 8 (ucast (bs ! 1)) OR push_bit 16 (ucast (bs ! 2))
       OR push_bit 24 (ucast (bs ! 3))"

definition restore_original :: "arch \<Rightarrow> u64 \<Rightarrow> u8 list \<Rightarrow> u64" where
  "restore_original a word original_bytes =
     (case a of
        AARCH64 \<Rightarrow> (word AND NOT 0xFFFFFFFF) OR u32_of_bytes original_bytes
      | X86_64 \<Rightarrow> (word AND NOT 0xFF) OR ucast (original_bytes ! 0))"

definition set_software_breakpoint_internal ::
  "arch \<Rightarrow> os \<Rightarrow> u64 \<Rightarrow> int \<Rightarrow> Debugger \<Rightarrow> int \<times> Debugger" where
  "set_software_breakpoint_internal a os address hit_count d =
     (let index = first_index (\<lambda>i. \<not> software_breakpoint_used d ! i) 0 MAX_SOFTWARE_BREAKPOINTS
      in if index = -1 then (-1, d)
         else
           let ((stopped_threads, already_stopped), d1) = stop_all_threads os 0 d
           in if stopped_threads = [] then (-1, d1)
              else
                let (r, d2) = sys os (PTRACE_PEEKDATA (target_pid d1) address) d1
                in if \<not> a_ok r then
                     (-1, resume_threads os (threads_to_resume stopped_threads already_stopped) d2)
                   else
                     let word = a_word r;
                         original_bytes = take (bp_size a) (word_bytes word)
                                            @ replicate (4 - bp_size a) 0;
                         (r2, d3) = sys os (PTRACE_POKEDATA (target_pid d2) address
                                              (patch_trap a word)) d2
                     in if \<not> a_ok r2 then
                          (-1, resume_threads os (threads_to_resume stopped_threads already_stopped) d3)
                        else
                          let d4 = resume_threads os
                                     (threads_to_resume stopped_threads already_stopped) d3
                          in (0, d4\<lparr>software_breakpoint_used :=
                                      (software_breakpoint_used d4)[nat index := True],
                                    software_breakpoint_addresses :=
                                      (software_breakpoint_addresses d4)[nat index := address],
                                    software_breakpoint_original_bytes :=
                                      store_bytes (nat index * 4) original_bytes
                                        (software_breakpoint_original_bytes d4)\<rparr>))"

definition set_breakpoint_internal ::
  "arch \<Rightarrow> os \<Rightarrow> u64 \<Rightarrow> int \<Rightarrow> BreakpointType \<Rightarrow> Debugger \<Rightarrow> int \<times> Debugger" where
  "set_breakpoint_internal a os address hit_count bp_type d =
     (if bp_type = SOFTWARE then set_software_breakpoint_internal a os address hit_count d
      else set_hardware_breakpoint_internal a os address hit_count d)"

text \<open>
  The loop over \<open>thread_states\<close> at the end of a removal: a thread parked at the removed
  software breakpoint forgets it.
\<close>

definition clear_disabled_index :: "int \<Rightarrow> (pid_t \<times> ThreadState) list \<Rightarrow> (pid_t \<times> ThreadState) list" where
  "clear_disabled_index full_bp_index m =
     map (\<lambda>(tid, st). (tid, if disabled_watchpoint_index st = full_bp_index
                              then st\<lparr>disabled_watchpoint_index := -1\<rparr> else st)) m"

definition remove_software_breakpoint_internal :: "arch \<Rightarrow> os \<Rightarrow> u64 \<Rightarrow> Debugger \<Rightarrow> int \<times> Debugger" where
  "remove_software_breakpoint_internal a os address d =
     (let index = first_index
                    (\<lambda>i. software_breakpoint_used d ! i \<and> software_breakpoint_addresses d ! i = address)
                    0 MAX_SOFTWARE_BREAKPOINTS;
          original_bytes = take 4 (drop (nat index * 4) (software_breakpoint_original_bytes d))
      in if index = -1 then (-1, d)
         else
           let ((stopped_threads, already_stopped), d1) = stop_all_threads os 0 d
           in if stopped_threads = [] then (-1, d1)
              else
                let (r, d2) = sys os (PTRACE_PEEKDATA (target_pid d1) address) d1
                in if \<not> a_ok r then
                     (-1, resume_threads os (threads_to_resume stopped_threads already_stopped) d2)
                   else
                     let (r2, d3) = sys os (PTRACE_POKEDATA (target_pid d2) address
                                              (restore_original a (a_word r) original_bytes)) d2
                     in if \<not> a_ok r2 then
                          (-1, resume_threads os (threads_to_resume stopped_threads already_stopped) d3)
                        else
                          let d4 = resume_threads os
                                     (threads_to_resume stopped_threads already_stopped) d3;
                              d5 = d4\<lparr>thread_states :=
                                        clear_disabled_index (index + 1000) (thread_states d4)\<rparr>
                          in (0, d5\<lparr>software_breakpoint_used :=
                                      (software_breakpoint_used d5)[nat index := False],
                                    software_breakpoint_addresses :=
                                      (software_breakpoint_addresses d5)[nat index := 0],
                                    software_breakpoint_original_bytes :=
                                      store_bytes (nat index * 4) (replicate 4 0)
                                        (software_breakpoint_original_bytes d5)\<rparr>))"

definition remove_breakpoint_internal :: "arch \<Rightarrow> os \<Rightarrow> u64 \<Rightarrow> Debugger \<Rightarrow> int \<times> Debugger" where
  "remove_breakpoint_internal a os address d =
     (let index = find_breakpoint_index a d address
      in if index = -1 then (-1, d)
         else if index \<ge> 1000 then remove_software_breakpoint_internal a os address d
         else
           let d0 = d\<lparr>breakpoint_sync :=
                       (breakpoint_sync d)[nat index :=
                          (breakpoint_sync d ! nat index)\<lparr>BreakpointSync.removing := True\<rparr>]\<rparr>;
               ((stopped_threads, already_stopped), d1) = stop_all_threads os 0 d0;
               unmark = (\<lambda>d. d\<lparr>breakpoint_sync :=
                       (breakpoint_sync d)[nat index :=
                          (breakpoint_sync d ! nat index)\<lparr>BreakpointSync.removing := False\<rparr>]\<rparr>)
           in if stopped_threads = [] then (-1, unmark d1)
              else
                let (success, d2) = clear_breakpoint_from_threads a os stopped_threads index d1;
                    d3 = resume_threads os (threads_to_resume stopped_threads already_stopped) d2
                in if success then
                     (0, unmark
                           (d3\<lparr>breakpoint_used := (breakpoint_used d3)[nat index := False],
                               breakpoint_addresses := (breakpoint_addresses d3)[nat index := 0],
                               breakpoint_target_counts :=
                                 (breakpoint_target_counts d3)[nat index := 0],
                               breakpoint_hit_counts := (breakpoint_hit_counts d3)[nat index := 0]\<rparr>))
                   else (-1, unmark d3))"

section \<open>Memory (\<^verbatim>\<open>debugger_memory.cpp\<close>)\<close>

text \<open>\<^verbatim>\<open>find_stopped_thread\<close>: the first attached thread that \<^verbatim>\<open>/proc\<close> reports stopped.\<close>

fun find_stopped_thread_from :: "os \<Rightarrow> pid_t list \<Rightarrow> Debugger \<Rightarrow> pid_t \<times> Debugger" where
  "find_stopped_thread_from os [] d = (0, d)"
| "find_stopped_thread_from os (tid # tids) d =
     (let (r, d1) = sys os (IS_THREAD_STOPPED (target_pid d) tid) d
      in if a_ok r then (tid, d1) else find_stopped_thread_from os tids d1)"

definition find_stopped_thread :: "os \<Rightarrow> Debugger \<Rightarrow> pid_t \<times> Debugger" where
  "find_stopped_thread os d = find_stopped_thread_from os (attached_threads d) d"

text \<open>
  The word loop of \<^verbatim>\<open>read_memory_internal\<close>. \<open>sz\<close> is the requested size, \<open>buffer\<close>
  the content of the caller's buffer; a successful word is copied with \<^verbatim>\<open>memcpy\<close>
  (\<open>store_bytes\<close>), a failed one is stepped over.
\<close>

function read_loop ::
  "os \<Rightarrow> pid_t \<Rightarrow> u64 \<Rightarrow> nat \<Rightarrow> nat \<Rightarrow> nat \<Rightarrow> u8 list \<Rightarrow> Debugger \<Rightarrow> nat \<times> u8 list \<times> Debugger" where
  "read_loop os read_thread address sz bytes_read consecutive_failures buffer d =
     (if bytes_read < sz \<and> consecutive_failures < 3 then
        (let aligned_addr = (address + of_nat bytes_read) AND NOT 7;
             offset = unat ((address + of_nat bytes_read) - aligned_addr);
             (r, d1) = sys os (PTRACE_PEEKDATA read_thread aligned_addr) d
         in if \<not> a_ok r then
              (if a_errno r = EIO \<or> a_errno r = EFAULT then
                 (let skip_bytes = 8 - offset
                  in if bytes_read + skip_bytes \<ge> sz then (bytes_read, buffer, d1)
                     else read_loop os read_thread address sz (bytes_read + skip_bytes)
                            (consecutive_failures + 1) buffer d1)
               else if a_errno r = ESRCH then (bytes_read, buffer, d1)
               else read_loop os read_thread address sz (bytes_read + 1)
                      (consecutive_failures + 1) buffer d1)
            else
              (let bytes_to_copy = min (sz - bytes_read) (8 - offset)
               in read_loop os read_thread address sz (bytes_read + bytes_to_copy) 0
                    (store_bytes bytes_read (take bytes_to_copy (drop offset (word_bytes (a_word r))))
                       buffer)
                    d1))
      else (bytes_read, buffer, d))"
  by pat_completeness auto

text \<open>The offset in its word is below 8, so every round of the loop moves on.\<close>

lemma offset_and: "(x :: u64) - (x AND NOT 7) = x AND 7"
proof -
  have "x - (x AND NOT 7) = x AND NOT (x AND NOT 7)"
    by (rule disjunctive_diff) (simp add: bit_simps)
  also have "\<dots> = x AND 7"
    by (rule bit_eqI) (auto simp: bit_simps)
  finally show ?thesis .
qed

lemma offset_less_8: "unat ((x :: u64) - (x AND NOT 7)) < 8"
proof -
  have "unat (x AND 7) \<le> unat (7 :: u64)"
    by (rule word_and_le1 [THEN word_le_nat_alt [THEN iffD1]])
  then show ?thesis unfolding offset_and by simp
qed

lemma read_loop_skip_progress:
  "\<not> sz \<le> bytes_read + (8 - unat ((x :: u64) - (x AND - 8))) \<Longrightarrow>
     sz - (bytes_read + (8 - unat (x - (x AND - 8)))) < sz - bytes_read"
  using offset_less_8 [of x] by simp

lemma read_loop_copy_progress:
  "bytes_read < sz \<Longrightarrow>
     sz - (bytes_read + min (sz - bytes_read) (8 - unat ((x :: u64) - (x AND - 8)))) < sz - bytes_read"
  using offset_less_8 [of x] by simp

termination read_loop
  by (relation "measure (\<lambda>(os, read_thread, address, sz, bytes_read, cf, buffer, d). sz - bytes_read)")
    (auto simp: read_loop_skip_progress read_loop_copy_progress)

declare read_loop.simps [simp del]

text \<open>
  \<^verbatim>\<open>read_memory_internal\<close> returns the byte count or -1 and leaves the bytes in the
  caller's buffer.
\<close>

definition read_memory_internal ::
  "os \<Rightarrow> u64 \<Rightarrow> nat \<Rightarrow> u8 list \<Rightarrow> Debugger \<Rightarrow> (int \<times> u8 list) \<times> Debugger" where
  "read_memory_internal os address sz buffer d =
     (let (found, d1) = find_stopped_thread os d;
          (stopped_threads, d2) =
             (if found = 0 then (let ((st, al), d') = stop_all_threads os 0 d1 in (st, d'))
              else ([], d1))
      in if found = 0 \<and> stopped_threads = [] then ((-1, buffer), d2)
         else
           let need_resume = (found = 0);
               read_thread = (if found = 0 then hd stopped_threads else found)
           in if read_thread = 0 then ((-1, buffer), d2)
              else
                let (bytes_read, buffer', d3) = read_loop os read_thread address sz 0 0 buffer d2;
                    d4 = (if need_resume then resume_threads os stopped_threads d3 else d3)
                in ((if bytes_read > 0 then int bytes_read else -1, buffer'), d4))"

section \<open>Debug events (\<^verbatim>\<open>debugger_exception.cpp\<close>)\<close>

text \<open>
  \<^verbatim>\<open>populate_exception_info\<close> (\<^verbatim>\<open>debugger_core.cpp\<close>) copies the register file after
  \<^verbatim>\<open>memset\<close>; on x86_64 every member but \<^verbatim>\<open>orig_rax\<close>.
\<close>

definition populate_exception_info ::
  "arch \<Rightarrow> user_regs \<Rightarrow> ExceptionType \<Rightarrow> pid_t \<Rightarrow> u64 \<Rightarrow> SingleStepMode \<Rightarrow> bool \<Rightarrow> NativeExceptionInfo" where
  "populate_exception_info a rgs exc_type tid mem_address step_mode trace =
     \<lparr>architecture = a,
      info_regs = (case rgs of PtRegs r \<Rightarrow> PtRegs r | RegsStruct r \<Rightarrow> RegsStruct (r\<lparr>orig_rax := 0\<rparr>)),
      exception_type = exc_type, info_thread_id = tid, memory_address = mem_address,
      singlestep_mode = step_mode, is_trace = trace\<rparr>"

text \<open>The program counter of a register file (\<^verbatim>\<open>regs.pc\<close>, \<^verbatim>\<open>regs.rip\<close>).\<close>

fun regs_pc :: "user_regs \<Rightarrow> u64" where
  "regs_pc (PtRegs r) = pc r"
| "regs_pc (RegsStruct r) = rip r"

text \<open>\<^verbatim>\<open>watchpoint_sync_[index].active_handlers.fetch_add(delta)\<close>.\<close>

definition add_active_handlers :: "int \<Rightarrow> int \<Rightarrow> Debugger \<Rightarrow> Debugger" where
  "add_active_handlers index delta d =
     d\<lparr>watchpoint_sync :=
         (watchpoint_sync d)[nat index :=
            (watchpoint_sync d ! nat index)
              \<lparr>WatchpointSync.active_handlers :=
                 wrap_int (WatchpointSync.active_handlers (watchpoint_sync d ! nat index) + delta)\<rparr>]\<rparr>"

definition handle_watchpoint_hit :: "arch \<Rightarrow> os \<Rightarrow> pid_t \<Rightarrow> int \<Rightarrow> Debugger \<Rightarrow> int \<times> Debugger" where
  "handle_watchpoint_hit a os thread watchpoint_index d =
     (if removing_mask d AND push_bit (nat watchpoint_index) 1 \<noteq> 0 then
        (0, snd (sys os (PTRACE_CONT thread 0) d))
      else
        let d0 = add_active_handlers watchpoint_index 1 d
        in case a of
             AARCH64 \<Rightarrow>
               (let (r1, d1) = sys os (PTRACE_GETREGSET thread NT_ARM_HW_WATCH) d0
                in if \<not> a_ok r1 then (-1, add_active_handlers watchpoint_index (-1) d1)
                   else
                     let wp_state = getregset_hw MAX_WATCHPOINTS r1;
                         d2 = ts_update a thread
                                (\<lambda>t. t\<lparr>original_wcr := ctrl (wp_state ! nat watchpoint_index),
                                        disabled_watchpoint_index := watchpoint_index\<rparr>) d1;
                         wp_state' = wp_state[nat watchpoint_index :=
                                       (wp_state ! nat watchpoint_index)\<lparr>ctrl := 0\<rparr>];
                         d3 = snd (sys os (PTRACE_SETREGSET thread NT_ARM_HW_WATCH
                                             (take MAX_WATCHPOINTS wp_state')) d2);
                         d4 = ts_update a thread
                                (\<lambda>t. t\<lparr>single_step_mode := Watchpoint, single_step_count := 0,
                                        current_breakpoint_index := -1, is_stopped := False\<rparr>) d3;
                         (r5, d5) = sys os (PTRACE_SINGLESTEP thread 0) d4
                     in if \<not> a_ok r5 then (-1, add_active_handlers watchpoint_index (-1) d5)
                        else (0, d5))
           | X86_64 \<Rightarrow>
               (let (r1, d1) = sys os (PTRACE_PEEKUSER thread X86_DR7_OFFSET) d0;
                    dr7 = a_word r1;
                    d2 = ts_update a thread
                           (\<lambda>t. t\<lparr>original_wcr := ucast (dr7 AND 0xFFFFFFFF),
                                   disabled_watchpoint_index := watchpoint_index\<rparr>) d1;
                    d3 = snd (sys os (PTRACE_POKEUSER thread X86_DR7_OFFSET
                                        (dr7 AND NOT (push_bit (nat (watchpoint_index * 2)) 1))) d2);
                    d4 = ts_update a thread
                           (\<lambda>t. t\<lparr>single_step_mode := Watchpoint, single_step_count := 0,
                                   current_breakpoint_index := -1, is_stopped := False\<rparr>) d3;
                    (r5, d5) = sys os (PTRACE_SINGLESTEP thread 0) d4
                in if \<not> a_ok r5 then (-1, add_active_handlers watchpoint_index (-1) d5)
                   else (0, d5)))"

text \<open>
  Disabling hardware breakpoint \<open>index\<close> on one thread before a single step (the ARM64
  branch reads the register set and writes it back only if the read succeeded); \<open>wipe\<close>
  also zeroes the address, as the end of a trace does.
\<close>

definition disable_breakpoint_on_thread :: "arch \<Rightarrow> os \<Rightarrow> pid_t \<Rightarrow> int \<Rightarrow> bool \<Rightarrow> Debugger \<Rightarrow> Debugger" where
  "disable_breakpoint_on_thread a os thread index wipe d =
     (case a of
        AARCH64 \<Rightarrow>
          (let (r1, d1) = sys os (PTRACE_GETREGSET thread NT_ARM_HW_BREAK) d
           in if a_ok r1 then
                (let bp_state = getregset_hw MAX_BREAKPOINTS r1;
                     bp_state' = bp_state[nat index :=
                        (if wipe then \<lparr>addr = 0, ctrl = 0\<rparr> else (bp_state ! nat index)\<lparr>ctrl := 0\<rparr>)]
                 in snd (sys os (PTRACE_SETREGSET thread NT_ARM_HW_BREAK
                                   (take MAX_BREAKPOINTS bp_state')) d1))
              else d1)
      | X86_64 \<Rightarrow>
          (let (r1, d1) = sys os (PTRACE_PEEKUSER thread X86_DR7_OFFSET) d;
               d2 = snd (sys os (PTRACE_POKEUSER thread X86_DR7_OFFSET
                                   (a_word r1 AND NOT (push_bit (nat (index * 2)) 1))) d1)
           in if wipe then snd (sys os (PTRACE_POKEUSER thread (x86_dr_offset index) 0) d2) else d2))"

definition handle_breakpoint_hit :: "arch \<Rightarrow> os \<Rightarrow> pid_t \<Rightarrow> int \<Rightarrow> Debugger \<Rightarrow> int \<times> Debugger" where
  "handle_breakpoint_hit a os thread breakpoint_index d =
     (let is_software_bp = (breakpoint_index \<ge> 1000);
          actual_index = (if is_software_bp then breakpoint_index - 1000 else breakpoint_index);
          (g, d1) = sys os (getregs_call a thread) d
      in if \<not> a_ok g then (-1, d1)
         else
           let in_table = (\<not> is_software_bp \<and> actual_index \<ge> 0 \<and> actual_index < int MAX_BREAKPOINTS);
               target_count = (if in_table then breakpoint_target_counts d1 ! nat actual_index else 0);
               current_hit_count = (if in_table then breakpoint_hit_counts d1 ! nat actual_index else 0);
               d2 = d1\<lparr>thread_states := map_set thread
                         \<lparr>single_step_mode = Breakpoint, single_step_count = 0,
                          current_breakpoint_index = (if is_software_bp then -1 else actual_index),
                          regs = answer_regs a g, is_attached = True, is_stopped = True,
                          stopped_by_user = False, original_wcr = 0,
                          disabled_watchpoint_index = (if is_software_bp then breakpoint_index else -1),
                          pending_signal = 0\<rparr>
                         (thread_states d1)\<rparr>
           in if is_software_bp then (0, d2)
              else if target_count > 0 \<and> current_hit_count < target_count then
                (let d3 = disable_breakpoint_on_thread a os thread actual_index False d2;
                     d4 = ts_update a thread (\<lambda>t. t\<lparr>is_stopped := False\<rparr>)
                            (d3\<lparr>debug_state := SingleStepping\<rparr>);
                     (r5, d5) = sys os (PTRACE_SINGLESTEP thread 0) d4
                 in if \<not> a_ok r5 then (-1, d5) else (0, d5))
              else (0, ts_update a thread (\<lambda>t. t\<lparr>is_stopped := True\<rparr>) d2))"

definition handle_software_breakpoint_continue :: "arch \<Rightarrow> os \<Rightarrow> pid_t \<Rightarrow> int \<Rightarrow> Debugger \<Rightarrow> int \<times> Debugger" where
  "handle_software_breakpoint_continue a os thread breakpoint_index d =
     (let actual_index = breakpoint_index - 1000
      in if actual_index < 0 \<or> actual_index \<ge> int MAX_SOFTWARE_BREAKPOINTS then (-1, d)
         else if \<not> software_breakpoint_used d ! nat actual_index then (-1, d)
         else
           let bp_addr = software_breakpoint_addresses d ! nat actual_index;
               original_bytes = take 4 (drop (nat actual_index * 4)
                                          (software_breakpoint_original_bytes d));
               (r1, d1) = sys os (PTRACE_PEEKDATA thread bp_addr) d
           in if \<not> a_ok r1 then (-1, d1)
              else
                let (r2, d2) = sys os (PTRACE_POKEDATA thread bp_addr
                                         (restore_original a (a_word r1) original_bytes)) d1
                in if \<not> a_ok r2 then (-1, d2)
                   else
                     let d3 = ts_update a thread
                                (\<lambda>t. t\<lparr>single_step_mode := SoftwareBreakpointContinue,
                                        disabled_watchpoint_index := breakpoint_index,
                                        is_stopped := False\<rparr>) d2;
                         (r4, d4) = sys os (PTRACE_SINGLESTEP thread 0) d3
                     in if \<not> a_ok r4 then (-1, d4) else (0, d4))"

text \<open>
  Putting the trap back after a step over a software breakpoint, as both branches of
  \<^verbatim>\<open>continue_breakpoint_single_step\<close> do when \<open>disabled_watchpoint_index\<close> names a
  software breakpoint.
\<close>

definition reinsert_software_breakpoint :: "arch \<Rightarrow> os \<Rightarrow> pid_t \<Rightarrow> Debugger \<Rightarrow> Debugger" where
  "reinsert_software_breakpoint a os thread d =
     (let t = ts_at a d thread
      in if disabled_watchpoint_index t \<ge> 1000 then
           (let sw_bp_index = disabled_watchpoint_index t - 1000;
                d1 = (if sw_bp_index \<ge> 0 \<and> sw_bp_index < int MAX_SOFTWARE_BREAKPOINTS \<and>
                         software_breakpoint_used d ! nat sw_bp_index then
                        (let bp_addr = software_breakpoint_addresses d ! nat sw_bp_index;
                             (r1, d') = sys os (PTRACE_PEEKDATA (target_pid d) bp_addr) d
                         in if a_ok r1
                            then snd (sys os (PTRACE_POKEDATA (target_pid d') bp_addr
                                                (patch_trap a (a_word r1))) d')
                            else d')
                      else d)
            in ts_update a thread (\<lambda>t. t\<lparr>disabled_watchpoint_index := -1\<rparr>) d1)
         else d)"

text \<open>Arming hardware breakpoint \<open>index\<close> again on one thread after a step in wait mode.\<close>

definition reenable_breakpoint_on_thread :: "arch \<Rightarrow> os \<Rightarrow> pid_t \<Rightarrow> int \<Rightarrow> Debugger \<Rightarrow> Debugger" where
  "reenable_breakpoint_on_thread a os thread index d =
     (case a of
        AARCH64 \<Rightarrow>
          (let (r1, d1) = sys os (PTRACE_GETREGSET thread NT_ARM_HW_BREAK) d
           in if a_ok r1 then
                (let bp_state = (getregset_hw MAX_BREAKPOINTS r1)[nat index :=
                        \<lparr>addr = breakpoint_addresses d1 ! nat index, ctrl = exec_ctrl\<rparr>]
                 in snd (sys os (PTRACE_SETREGSET thread NT_ARM_HW_BREAK
                                   (take MAX_BREAKPOINTS bp_state)) d1))
              else d1)
      | X86_64 \<Rightarrow>
          (let (r1, d1) = sys os (PTRACE_PEEKUSER thread X86_DR7_OFFSET) d
           in snd (sys os (PTRACE_POKEUSER thread X86_DR7_OFFSET (exec_dr7 (a_word r1) index)) d1)))"

definition continue_breakpoint_single_step :: "arch \<Rightarrow> os \<Rightarrow> pid_t \<Rightarrow> Debugger \<Rightarrow> int \<times> Debugger" where
  "continue_breakpoint_single_step a os thread d =
     (case map_of (thread_states d) thread of
        None \<Rightarrow> (-1, d)
      | Some st \<Rightarrow>
          (let bp_index = current_breakpoint_index st;
               step_mode = single_step_mode st
           in if bp_index < 0 \<or> bp_index \<ge> int MAX_BREAKPOINTS then
                (let d1 = reinsert_software_breakpoint a os thread d;
                     d2 = ts_update a thread
                            (\<lambda>t. t\<lparr>single_step_mode := None_mode, current_breakpoint_index := -1\<rparr>) d1
                 in if step_mode = SoftwareBreakpointContinue then
                      (let d3 = (ts_update a thread (\<lambda>t. t\<lparr>is_stopped := False\<rparr>) d2)
                                  \<lparr>debug_state := Running\<rparr>;
                           (r4, d4) = sys os (PTRACE_CONT thread 0) d3
                       in if \<not> a_ok r4 then (-1, d4) else (0, d4))
                    else
                      (0, (ts_update a thread (\<lambda>t. t\<lparr>is_stopped := True\<rparr>) d2)
                            \<lparr>debug_state := BreakpointHit\<rparr>))
              else
                (let target_count = breakpoint_target_counts d ! nat bp_index;
                     d1 = d\<lparr>breakpoint_hit_counts :=
                              (breakpoint_hit_counts d)[nat bp_index :=
                                 wrap_int (breakpoint_hit_counts d ! nat bp_index + 1)]\<rparr>;
                     current_hit_count = breakpoint_hit_counts d1 ! nat bp_index
                 in if target_count > 0 \<and> current_hit_count \<ge> target_count then
                      (let d2 = disable_breakpoint_on_thread a os thread bp_index True d1;
                           d3 = ts_update a thread
                                  (\<lambda>t. t\<lparr>single_step_mode := None_mode, single_step_count := 0,
                                          is_stopped := False\<rparr>) d2;
                           d4 = d3\<lparr>breakpoint_used := (breakpoint_used d3)[nat bp_index := False],
                                   breakpoint_addresses := (breakpoint_addresses d3)[nat bp_index := 0],
                                   breakpoint_hit_counts := (breakpoint_hit_counts d3)[nat bp_index := 0],
                                   breakpoint_target_counts :=
                                     (breakpoint_target_counts d3)[nat bp_index := 0],
                                   debug_state := Running, current_thread := 0\<rparr>;
                           (r5, d5) = sys os (PTRACE_CONT thread 0) d4
                       in if \<not> a_ok r5 then (-1, d5) else (0, d5))
                    else if target_count > 0 \<and> current_hit_count < target_count then
                      (let (r2, d2) = sys os (PTRACE_SINGLESTEP thread 0)
                                        (d1\<lparr>debug_state := SingleStepping\<rparr>)
                       in if \<not> a_ok r2 then (-1, d2) else (0, d2))
                    else
                      (let d2 = reenable_breakpoint_on_thread a os thread bp_index d1;
                           d3 = reinsert_software_breakpoint a os thread d2;
                           d4 = ts_update a thread
                                  (\<lambda>t. t\<lparr>single_step_mode := None_mode, single_step_count := 0,
                                          is_stopped := True\<rparr>) d3
                       in (0, d4\<lparr>debug_state := BreakpointHit\<rparr>)))))"

text \<open>\<^verbatim>\<open>enqueue_command\<close> (\<^verbatim>\<open>debugger_core.cpp\<close>).\<close>

definition enqueue_command :: "DebugRequest \<Rightarrow> Debugger \<Rightarrow> Debugger" where
  "enqueue_command request d = d\<lparr>debug_command_queue := debug_command_queue d @ [request]\<rparr>"

definition complete_watchpoint_single_step :: "arch \<Rightarrow> pid_t \<Rightarrow> Debugger \<Rightarrow> int \<times> Debugger" where
  "complete_watchpoint_single_step a thread d =
     (case map_of (thread_states d) thread of
        None \<Rightarrow> (-1, d)
      | Some st \<Rightarrow>
          (let wp_index = disabled_watchpoint_index st;
               d1 = (if wp_index \<ge> 0 \<and> wp_index < int MAX_WATCHPOINTS
                     then add_active_handlers wp_index (-1) d else d);
               d2 = ts_update a thread
                      (\<lambda>t. t\<lparr>single_step_mode := None_mode, original_wcr := 0,
                              disabled_watchpoint_index := -1, is_stopped := False\<rparr>) d1
           in (0, enqueue_command ((new_DebugRequest ReapplyWatchpoints)\<lparr>rq_thread_id := thread\<rparr>) d2)))"

definition handle_single_step :: "arch \<Rightarrow> os \<Rightarrow> pid_t \<Rightarrow> Debugger \<Rightarrow> int \<times> Debugger" where
  "handle_single_step a os thread d =
     (case map_of (thread_states d) thread of
        None \<Rightarrow> (-1, d)
      | Some st \<Rightarrow>
          (case single_step_mode st of
             Watchpoint \<Rightarrow> complete_watchpoint_single_step a thread d
           | Breakpoint \<Rightarrow> continue_breakpoint_single_step a os thread d
           | SoftwareBreakpointContinue \<Rightarrow> continue_breakpoint_single_step a os thread d
           | _ \<Rightarrow> (-1, d)))"

subsection \<open>\<^verbatim>\<open>handle_exception\<close>\<close>

text \<open>\<^verbatim>\<open>get_signal_config\<close> (\<^verbatim>\<open>debugger_core.cpp\<close>): an absent signal gives \<open>{false, false}\<close>.\<close>

definition get_signal_config :: "Debugger \<Rightarrow> int \<Rightarrow> SignalConfig" where
  "get_signal_config d signal =
     (case map_of (signal_config d) signal of
        Some config \<Rightarrow> config
      | None \<Rightarrow> \<lparr>catch_signal = False, pass_signal = False\<rparr>)"

text \<open>
  The upcall \<^verbatim>\<open>SEND_EXCEPTION_INFO\<close> (\<^verbatim>\<open>send_exception_info\<close> of the host); its answer
  \<open>a_ok\<close> is the returned \<^verbatim>\<open>bool\<close>.
\<close>

definition send_exception_info :: "os \<Rightarrow> NativeExceptionInfo \<Rightarrow> Debugger \<Rightarrow> bool \<times> Debugger" where
  "send_exception_info os info d =
     (let (r, d') = sys os (SEND_EXCEPTION_INFO info (target_pid d)) d in (a_ok r, d'))"

text \<open>
  The watchpoint the stop belongs to, \<open>(wp_index, d')\<close> with \<open>wp_index = -1\<close> for none: by
  \<^verbatim>\<open>DR6\<close> on x86_64 (cleared after a hit), by the fault address on ARM64 (the range first,
  then the 8-byte aligned address).
\<close>

definition detect_watchpoint :: "arch \<Rightarrow> os \<Rightarrow> pid_t \<Rightarrow> bool \<Rightarrow> u64 \<Rightarrow> Debugger \<Rightarrow> int \<times> Debugger" where
  "detect_watchpoint a os pid has_fault_address fault_address d =
     (case a of
        X86_64 \<Rightarrow>
          (let (r, d1) = sys os (PTRACE_PEEKUSER pid X86_DR6_OFFSET) d
           in if a_ok r then
                (let wp_index = first_index (\<lambda>i. bit (a_word r) i \<and> watchpoint_used d1 ! i)
                                  0 MAX_WATCHPOINTS
                 in if wp_index \<noteq> -1
                    then (wp_index, snd (sys os (PTRACE_POKEUSER pid X86_DR6_OFFSET 0) d1))
                    else (wp_index, d1))
              else (-1, d1))
      | AARCH64 \<Rightarrow>
          (if has_fault_address \<and> fault_address \<noteq> 0 then
             (let in_range = first_index
                    (\<lambda>i. watchpoint_used d ! i \<and>
                         fault_address \<ge> watchpoint_addresses d ! i \<and>
                         fault_address < watchpoint_addresses d ! i + word_of_int (watchpoint_sizes d ! i))
                    0 MAX_WATCHPOINTS
              in if in_range \<noteq> -1 then (in_range, d)
                 else (first_index
                         (\<lambda>i. watchpoint_used d ! i \<and>
                              fault_address AND NOT 7 = watchpoint_addresses d ! i AND NOT 7)
                         0 MAX_WATCHPOINTS, d))
           else (-1, d)))"

text \<open>\<^verbatim>\<open>regs.rip = bp_addr\<close>; there is no such member on ARM64.\<close>

fun set_rip :: "user_regs \<Rightarrow> u64 \<Rightarrow> user_regs" where
  "set_rip (RegsStruct r) v = RegsStruct (r\<lparr>rip := v\<rparr>)"
| "set_rip (PtRegs r) v = PtRegs r"

fun setregs_effect :: "pid_t \<Rightarrow> user_regs \<Rightarrow> effect" where
  "setregs_effect tid (PtRegs r) = PTRACE_SETREGSET_PRSTATUS tid r"
| "setregs_effect tid (RegsStruct r) = PTRACE_SETREGS tid r"

text \<open>
  The x86_64 adjustment of \<^verbatim>\<open>RIP\<close> after \<^verbatim>\<open>INT3\<close>: the register file of the handler and
  the call that stores it.
\<close>

definition adjust_rip :: "arch \<Rightarrow> os \<Rightarrow> pid_t \<Rightarrow> int \<Rightarrow> user_regs \<Rightarrow> Debugger \<Rightarrow> user_regs \<times> Debugger" where
  "adjust_rip a os pid bp_index rgs d =
     (let actual_index = bp_index - 1000
      in if a = X86_64 \<and> bp_index \<ge> 1000 \<and>
            actual_index \<ge> 0 \<and> actual_index < int MAX_SOFTWARE_BREAKPOINTS \<and>
            software_breakpoint_used d ! nat actual_index \<and>
            regs_pc rgs \<noteq> software_breakpoint_addresses d ! nat actual_index
         then
           (let rgs' = set_rip rgs (software_breakpoint_addresses d ! nat actual_index)
            in (rgs', snd (sys os (setregs_effect pid rgs') d)))
         else (rgs, d))"

text \<open>The part of the \<^verbatim>\<open>SIGTRAP\<close> case that runs once \<^verbatim>\<open>find_breakpoint_index\<close> found \<open>bp_index\<close>.\<close>

definition breakpoint_stop :: "arch \<Rightarrow> os \<Rightarrow> pid_t \<Rightarrow> int \<Rightarrow> user_regs \<Rightarrow> Debugger \<Rightarrow> int \<times> Debugger" where
  "breakpoint_stop a os pid bp_index rgs0 d0 =
     (let is_software_bp = (bp_index \<ge> 1000);
          actual_index = (if is_software_bp then bp_index - 1000 else bp_index);
          (rgs, d1) = adjust_rip a os pid bp_index rgs0 d0;
          counted = (\<not> is_software_bp \<and> actual_index \<ge> 0 \<and> actual_index < int MAX_BREAKPOINTS);
          target_count = (if counted then breakpoint_target_counts d1 ! nat actual_index else 0);
          d2 = (if counted
                then d1\<lparr>breakpoint_hit_counts :=
                          (breakpoint_hit_counts d1)[nat actual_index :=
                             wrap_int (breakpoint_hit_counts d1 ! nat actual_index + 1)]\<rparr>
                else d1);
          d3 = d2\<lparr>debug_state := BreakpointHit, current_thread := pid\<rparr>;
          d4 = ts_update a pid
                 (\<lambda>t. t\<lparr>regs := rgs,
                         current_breakpoint_index := (if is_software_bp then -1 else actual_index),
                         is_stopped := True\<rparr>) d3;
          d5 = (if is_software_bp
                then ts_update a pid (\<lambda>t. t\<lparr>disabled_watchpoint_index := bp_index\<rparr>) d4
                else d4);
          exception_info = populate_exception_info a rgs EXCEPTION_BREAKPOINT pid 0 None_mode
                             (target_count > 0);
          (should_break, d6) = send_exception_info os exception_info d5
      in if \<not> should_break then
           (let d7 = ts_update a pid (\<lambda>t. t\<lparr>is_stopped := False\<rparr>) d6
            in if is_software_bp then handle_software_breakpoint_continue a os pid bp_index d7
               else
                 (let (r8, d8) = sys os (PTRACE_CONT pid 0) d7
                  in if \<not> a_ok r8 then (-1, d8) else (0, d8)))
         else handle_breakpoint_hit a os pid bp_index d6)"

text \<open>The part of the \<^verbatim>\<open>SIGTRAP\<close> case that runs once a watchpoint \<open>wp_index\<close> was found.\<close>

definition watchpoint_stop :: "arch \<Rightarrow> os \<Rightarrow> pid_t \<Rightarrow> int \<Rightarrow> user_regs \<Rightarrow> Debugger \<Rightarrow> int \<times> Debugger" where
  "watchpoint_stop a os pid wp_index rgs d =
     (let d1 = d\<lparr>debug_state := WatchpointHit, current_thread := pid\<rparr>;
          d2 = ts_update a pid
                 (\<lambda>t. t\<lparr>regs := rgs, current_breakpoint_index := -1, is_stopped := True\<rparr>) d1;
          exception_info = populate_exception_info a rgs EXCEPTION_WATCHPOINT pid
                             (watchpoint_addresses d2 ! nat wp_index) None_mode False;
          (sent, d3) = send_exception_info os exception_info d2
      in handle_watchpoint_hit a os pid wp_index d3)"

definition handle_sigtrap :: "arch \<Rightarrow> os \<Rightarrow> pid_t \<Rightarrow> Debugger \<Rightarrow> int \<times> Debugger" where
  "handle_sigtrap a os pid d =
     (let (g, d1) = sys os (getregs_call a pid) d
      in if \<not> a_ok g then
           (0, (case a of
                  AARCH64 \<Rightarrow> snd (sys os (PTRACE_GETREGSET pid NT_ARM_HW_BREAK) d1)
                | X86_64 \<Rightarrow> d1))
         else
           let rgs = answer_regs a g;
               stepping = (case map_of (thread_states d1) pid of
                             Some st \<Rightarrow> single_step_mode st \<noteq> None_mode
                           | None \<Rightarrow> False)
           in if stepping then
                (let st = ts_at a d1 pid;
                     bp_index = current_breakpoint_index st;
                     trace = (bp_index \<ge> 0 \<and> bp_index < int MAX_BREAKPOINTS \<and>
                              breakpoint_target_counts d1 ! nat bp_index > 0);
                     exception_info = populate_exception_info a rgs EXCEPTION_SINGLESTEP pid 0
                                        (single_step_mode st) trace;
                     (sent, d2) = send_exception_info os exception_info d1
                 in handle_single_step a os pid d2)
              else
                (let (si, d2) = sys os (PTRACE_GETSIGINFO pid) d1;
                     has_fault_address = a_ok si;
                     fault_address = (if a_ok si then a_word si else 0);
                     (wp_index, d3) = detect_watchpoint a os pid has_fault_address fault_address d2
                 in if wp_index \<noteq> -1 then watchpoint_stop a os pid wp_index rgs d3
                    else
                      (let bp_index = find_breakpoint_index a d3 (regs_pc rgs)
                       in if bp_index \<noteq> -1 then breakpoint_stop a os pid bp_index rgs d3
                          else (0, d3))))"

definition handle_stop_signal :: "arch \<Rightarrow> os \<Rightarrow> pid_t \<Rightarrow> Debugger \<Rightarrow> int \<times> Debugger" where
  "handle_stop_signal a os pid d =
     (if user_suspend_pending d then
        (let d1 = ts_update a pid (\<lambda>t. t\<lparr>is_stopped := True, stopped_by_user := True\<rparr>) d
         in (0, snd (sys os (KILL pid SIGSTOP) d1)))
      else (0, ts_update a pid (\<lambda>t. t\<lparr>is_stopped := True\<rparr>) d))"

definition handle_sigcont :: "arch \<Rightarrow> os \<Rightarrow> pid_t \<Rightarrow> Debugger \<Rightarrow> int \<times> Debugger" where
  "handle_sigcont a os pid d =
     (let d1 = (case map_of (thread_states d) pid of
                  Some st \<Rightarrow>
                    if stopped_by_user st
                    then ts_update a pid (\<lambda>t. t\<lparr>stopped_by_user := False, is_stopped := False\<rparr>) d
                    else d
                | None \<Rightarrow> d);
          (r, d2) = sys os (KILL pid SIGCONT) d1
      in if \<not> a_ok r then (-1, d2) else (0, d2))"

definition signal_exception_type :: "int \<Rightarrow> ExceptionType" where
  "signal_exception_type signal =
     (if signal = SIGSEGV then EXCEPTION_SIGSEGV
      else if signal = SIGBUS then EXCEPTION_SIGBUS
      else if signal = SIGFPE then EXCEPTION_SIGFPE
      else if signal = SIGILL then EXCEPTION_SIGILL
      else if signal = SIGABRT then EXCEPTION_SIGABRT
      else EXCEPTION_SIGNAL)"

text \<open>
  The end of the \<^verbatim>\<open>default\<close> case: the thread goes on at once, with the signal or without.
\<close>

definition continue_with_signal :: "arch \<Rightarrow> os \<Rightarrow> pid_t \<Rightarrow> int \<Rightarrow> SignalConfig \<Rightarrow> Debugger \<Rightarrow> int \<times> Debugger" where
  "continue_with_signal a os pid signal config d =
     (let signal_to_pass = (if pass_signal config \<or> signal = 30 \<or> signal = 24 then signal else 0);
          known = (map_of (thread_states d) pid \<noteq> None);
          d1 = (if known then ts_update a pid (\<lambda>t. t\<lparr>is_stopped := False\<rparr>) d else d);
          use_single_step = (known \<and> single_step_mode (ts_at a d1 pid) \<noteq> None_mode);
          (r, d2) = sys os (if use_single_step then PTRACE_SINGLESTEP pid signal_to_pass
                            else PTRACE_CONT pid signal_to_pass) d1
      in if \<not> a_ok r then
           (-1, if known then ts_update a pid (\<lambda>t. t\<lparr>is_stopped := True\<rparr>) d2 else d2)
         else (0, d2))"

definition handle_other_signal :: "arch \<Rightarrow> os \<Rightarrow> pid_t \<Rightarrow> int \<Rightarrow> Debugger \<Rightarrow> int \<times> Debugger" where
  "handle_other_signal a os pid signal d =
     (let config = get_signal_config d signal
      in if catch_signal config then
           (let (g, d1) = sys os (getregs_call a pid) d
            in if a_ok g then
                 (let sig_regs = answer_regs a g;
                      (si, d2) = sys os (PTRACE_GETSIGINFO pid) d1;
                      fault_addr = (if a_ok si then a_word si else 0);
                      d3 = d2\<lparr>debug_state := Paused, current_thread := pid\<rparr>;
                      d4 = ts_update a pid
                             (\<lambda>t. t\<lparr>regs := sig_regs, current_breakpoint_index := -1,
                                     is_stopped := True,
                                     pending_signal := (if pass_signal config then signal else 0)\<rparr>) d3;
                      exception_info = populate_exception_info a sig_regs
                                         (signal_exception_type signal) pid fault_addr None_mode False;
                      (sent, d5) = send_exception_info os exception_info d4
                  in (0, d5))
               else continue_with_signal a os pid signal config d1)
         else continue_with_signal a os pid signal config d)"

definition handle_exception :: "arch \<Rightarrow> os \<Rightarrow> pid_t \<Rightarrow> int \<Rightarrow> Debugger \<Rightarrow> int \<times> Debugger" where
  "handle_exception a os pid status d =
     (if WIFSTOPPED status then
        (if drop_bit 16 status = PTRACE_EVENT_CLONE then
           (let (m, d1) = sys os (PTRACE_GETEVENTMSG pid) d;
                d2 = (if a_ok m \<and> a_word m > 0 then
                        (let new_thread = sint (ucast (a_word m) :: 32 word)
                         in ts_update a new_thread (\<lambda>t. t\<lparr>is_attached := True\<rparr>)
                              (d1\<lparr>attached_threads := set_insert new_thread (attached_threads d1)\<rparr>))
                      else d1)
            in (0, snd (sys os (PTRACE_CONT pid 0) d2)))
         else if drop_bit 16 status = PTRACE_EVENT_STOP then
           (0, snd (sys os (PTRACE_CONT pid 0) d))
         else
           (let signal = WSTOPSIG status
            in if signal = SIGTRAP then handle_sigtrap a os pid d
               else if signal = SIGSTOP \<or> signal = SIGTSTP then handle_stop_signal a os pid d
               else if signal = SIGCONT then handle_sigcont a os pid d
               else handle_other_signal a os pid signal d))
      else if WIFEXITED status then
        (0, d\<lparr>attached_threads := set_erase pid (attached_threads d),
              thread_states := map_erase pid (thread_states d)\<rparr>)
      else (0, d))"

section \<open>Execution control (\<^verbatim>\<open>debugger_exception.cpp\<close>, \<^verbatim>\<open>debugger_register.cpp\<close>)\<close>

text \<open>
  \<^verbatim>\<open>original_bytes[4] = {0}\<close> filled with the \<^verbatim>\<open>bp_size\<close> stored bytes of software
  breakpoint \<open>index\<close>.
\<close>

definition stored_original_bytes :: "arch \<Rightarrow> Debugger \<Rightarrow> nat \<Rightarrow> u8 list" where
  "stored_original_bytes a d index =
     take (bp_size a) (drop (index * 4) (software_breakpoint_original_bytes d))
       @ replicate (4 - bp_size a) 0"

definition continue_execution_internal :: "arch \<Rightarrow> os \<Rightarrow> pid_t \<Rightarrow> Debugger \<Rightarrow> int \<times> Debugger" where
  "continue_execution_internal a os thread_id d =
     (case map_of (thread_states d) thread_id of
        None \<Rightarrow> (if debug_state d = Running then (0, d) else (-1, d))
      | Some st \<Rightarrow>
          if \<not> is_stopped st then (-1, d)
          else if thread_id \<notin> set (attached_threads d) then (-1, d)
          else
            let sw_bp_index = disabled_watchpoint_index st
            in if sw_bp_index \<ge> 1000 then
                 (let actual_sw_index = sw_bp_index - 1000;
                      current_pc = regs_pc (regs st);
                      d1 = (if actual_sw_index \<ge> 0 \<and> actual_sw_index < int MAX_SOFTWARE_BREAKPOINTS \<and>
                               software_breakpoint_used d ! nat actual_sw_index \<and>
                               software_breakpoint_addresses d ! nat actual_sw_index = current_pc
                            then
                              (let (r, d') = sys os (PTRACE_PEEKDATA (target_pid d) current_pc) d
                               in if a_ok r then
                                    snd (sys os (PTRACE_POKEDATA (target_pid d') current_pc
                                                   (restore_original a (a_word r)
                                                      (stored_original_bytes a d' (nat actual_sw_index)))) d')
                                  else d')
                            else d);
                      signal_to_pass = pending_signal st;
                      d2 = ts_update a thread_id
                             (\<lambda>t. t\<lparr>single_step_mode := SoftwareBreakpointContinue,
                                     single_step_count := 0, is_stopped := False,
                                     stopped_by_user := False, pending_signal := 0\<rparr>) d1;
                      (r3, d3) = sys os (PTRACE_SINGLESTEP thread_id signal_to_pass)
                                   (d2\<lparr>debug_state := SingleStepping\<rparr>)
                  in if \<not> a_ok r3 then (-1, d3) else (0, d3))
               else
                 (let signal_to_pass = pending_signal st;
                      d1 = ts_update a thread_id (\<lambda>t. t\<lparr>pending_signal := 0\<rparr>) d;
                      (r2, d2) = sys os (PTRACE_CONT thread_id signal_to_pass) d1
                  in if \<not> a_ok r2 then (-1, d2)
                     else
                       let d3 = ts_update a thread_id
                                  (\<lambda>t. t\<lparr>is_stopped := False, stopped_by_user := False\<rparr>) d2
                       in if current_thread d3 = thread_id \<and>
                             \<not> (\<exists>kv \<in> set (thread_states d3). is_stopped (snd kv))
                          then (0, d3\<lparr>debug_state := Running, current_thread := 0\<rparr>)
                          else (0, d3)))"

definition single_step_internal :: "arch \<Rightarrow> os \<Rightarrow> pid_t \<Rightarrow> Debugger \<Rightarrow> int \<times> Debugger" where
  "single_step_internal a os thread_id d =
     (case map_of (thread_states d) thread_id of
        None \<Rightarrow> (-1, d)
      | Some st \<Rightarrow>
          if thread_id \<notin> set (attached_threads d) then (-1, d)
          else if \<not> is_stopped st then (-1, d)
          else
            let (g, d1) = sys os (getregs_call a thread_id) d;
                current_pc = (if a_ok g then regs_pc (answer_regs a g) else 0);
                software_bp_index =
                  (if current_pc \<noteq> 0
                   then first_index (\<lambda>i. software_breakpoint_used d1 ! i \<and>
                                          software_breakpoint_addresses d1 ! i = current_pc)
                          0 MAX_SOFTWARE_BREAKPOINTS
                   else -1);
                d2 = (if software_bp_index \<noteq> -1 then
                        (let (r, d') = sys os (PTRACE_PEEKDATA (target_pid d1) current_pc) d1
                         in if \<not> a_ok r then d'
                            else
                              let (r', d'') = sys os (PTRACE_POKEDATA (target_pid d') current_pc
                                                       (restore_original a (a_word r)
                                                          (stored_original_bytes a d' (nat software_bp_index)))) d'
                              in if \<not> a_ok r' then d''
                                 else ts_update a thread_id
                                        (\<lambda>t. t\<lparr>disabled_watchpoint_index := software_bp_index + 1000\<rparr>) d'')
                      else d1);
                bp_index = current_breakpoint_index st;
                d3 = (if bp_index \<ge> 0 \<and> bp_index < int MAX_BREAKPOINTS
                      then disable_breakpoint_on_thread a os thread_id bp_index False d2
                      else d2);
                d4 = (if current_thread d3 = thread_id then d3\<lparr>debug_state := SingleStepping\<rparr> else d3);
                signal_to_pass = pending_signal st;
                d5 = ts_update a thread_id
                       (\<lambda>t. t\<lparr>single_step_mode :=
                                 (if single_step_mode t = None_mode then Breakpoint else single_step_mode t),
                               single_step_count := 0, is_stopped := False, pending_signal := 0\<rparr>) d4;
                (r6, d6) = sys os (PTRACE_SINGLESTEP thread_id signal_to_pass) d5
            in if \<not> a_ok r6 then (-1, d6) else (0, d6))"

text \<open>
  The loop of \<^verbatim>\<open>resume_all_user_stopped_threads_internal\<close> over the entries of
  \<open>thread_states\<close> in key order; the entries are updated in place.
\<close>

fun resume_user_stopped ::
  "os \<Rightarrow> (pid_t \<times> ThreadState) list \<Rightarrow> Debugger \<Rightarrow> int \<times> (pid_t \<times> ThreadState) list \<times> Debugger" where
  "resume_user_stopped os [] d = (0, [], d)"
| "resume_user_stopped os ((tid, state) # rest) d =
     (if stopped_by_user state then
        (let (r, d1) = sys os (PTRACE_CONT tid 0) d;
             (resumed_count, rest', d2) = resume_user_stopped os rest d1
         in if \<not> a_ok r then (resumed_count, (tid, state) # rest', d2)
            else (resumed_count + 1,
                  (tid, state\<lparr>stopped_by_user := False, is_stopped := False\<rparr>) # rest', d2))
      else
        (let (resumed_count, rest', d2) = resume_user_stopped os rest d
         in (resumed_count, (tid, state) # rest', d2)))"

definition resume_all_user_stopped_threads_internal :: "os \<Rightarrow> Debugger \<Rightarrow> int \<times> Debugger" where
  "resume_all_user_stopped_threads_internal os d =
     (let (resumed_count, states, d1) = resume_user_stopped os (thread_states d) d
      in (resumed_count, d1\<lparr>thread_states := states\<rparr>))"

section \<open>The command queue (\<^verbatim>\<open>debugger_core.cpp\<close>)\<close>

text \<open>
  The \<^verbatim>\<open>process_*_command\<close> functions. A request is shared with the caller, so the
  functions that write through it return it updated.
\<close>

definition process_set_watchpoint_command :: "arch \<Rightarrow> os \<Rightarrow> DebugRequest \<Rightarrow> Debugger \<Rightarrow> int \<times> Debugger" where
  "process_set_watchpoint_command a os request d =
     set_watchpoint_internal a os (rq_address request) (rq_size request) (rq_watchpoint_type request) d"

definition process_remove_watchpoint_command :: "arch \<Rightarrow> os \<Rightarrow> DebugRequest \<Rightarrow> Debugger \<Rightarrow> int \<times> Debugger" where
  "process_remove_watchpoint_command a os request d =
     remove_watchpoint_internal a os (rq_address request) d"

definition process_set_breakpoint_command :: "arch \<Rightarrow> os \<Rightarrow> DebugRequest \<Rightarrow> Debugger \<Rightarrow> int \<times> Debugger" where
  "process_set_breakpoint_command a os request d =
     set_breakpoint_internal a os (rq_address request) (rq_hit_count request)
       (rq_breakpoint_type request) d"

definition process_remove_breakpoint_command :: "arch \<Rightarrow> os \<Rightarrow> DebugRequest \<Rightarrow> Debugger \<Rightarrow> int \<times> Debugger" where
  "process_remove_breakpoint_command a os request d =
     remove_breakpoint_internal a os (rq_address request) d"

definition process_continue_execution_command :: "arch \<Rightarrow> os \<Rightarrow> DebugRequest \<Rightarrow> Debugger \<Rightarrow> int \<times> Debugger" where
  "process_continue_execution_command a os request d =
     continue_execution_internal a os (rq_thread_id request) d"

definition process_single_step_command :: "arch \<Rightarrow> os \<Rightarrow> DebugRequest \<Rightarrow> Debugger \<Rightarrow> int \<times> Debugger" where
  "process_single_step_command a os request d =
     single_step_internal a os (rq_thread_id request) d"

definition process_reapply_watchpoints_command :: "arch \<Rightarrow> os \<Rightarrow> DebugRequest \<Rightarrow> Debugger \<Rightarrow> int \<times> Debugger" where
  "process_reapply_watchpoints_command a os request d =
     reapply_all_watchpoints_internal a os (rq_thread_id request) d"

definition process_read_register_command ::
  "arch \<Rightarrow> os \<Rightarrow> DebugRequest \<Rightarrow> Debugger \<Rightarrow> int \<times> DebugRequest \<times> Debugger" where
  "process_read_register_command a os request d =
     (let ((r, val), d1) = read_register_internal a os (rq_thread_id request) (rq_reg_name request)
                             (rq_reg_value_ptr request) d
      in (r, request\<lparr>rq_reg_value_ptr := val\<rparr>, d1))"

definition process_write_register_command :: "arch \<Rightarrow> os \<Rightarrow> DebugRequest \<Rightarrow> Debugger \<Rightarrow> int \<times> Debugger" where
  "process_write_register_command a os request d =
     write_register_internal a os (rq_thread_id request) (rq_reg_name request)
       (rq_reg_value request) d"

definition process_read_memory_command ::
  "os \<Rightarrow> DebugRequest \<Rightarrow> Debugger \<Rightarrow> int \<times> DebugRequest \<times> Debugger" where
  "process_read_memory_command os request d =
     (let ((n, buffer), d1) = read_memory_internal os (rq_address request) (rq_memory_size request)
                                (rq_memory_buffer request) d;
          request' = request\<lparr>rq_memory_buffer := buffer, rq_memory_bytes_read := n\<rparr>
      in (if rq_memory_bytes_read request' > 0 then 0 else -1, request', d1))"

definition process_spawn_command ::
  "arch \<Rightarrow> os \<Rightarrow> DebugRequest \<Rightarrow> Debugger \<Rightarrow> outcome \<times> DebugRequest \<times> Debugger" where
  "process_spawn_command a os request d = spawn_process_internal a os request d"

definition process_spawn_with_pty_command ::
  "arch \<Rightarrow> os \<Rightarrow> DebugRequest \<Rightarrow> Debugger \<Rightarrow> outcome \<times> DebugRequest \<times> Debugger" where
  "process_spawn_with_pty_command a os request d = spawn_process_with_pty_internal a os request d"

text \<open>
  The \<^verbatim>\<open>switch\<close> of \<^verbatim>\<open>process_command_queue\<close>: the value assigned to \<^verbatim>\<open>result\<close>, or the
  way the process ended inside a spawn (the forked child never comes back to the queue).
\<close>

definition returned :: "int \<times> Debugger \<Rightarrow> DebugRequest \<Rightarrow> outcome \<times> DebugRequest \<times> Debugger" where
  "returned rd request = (Returned (fst rd), request, snd rd)"

definition process_command ::
  "arch \<Rightarrow> os \<Rightarrow> DebugRequest \<Rightarrow> Debugger \<Rightarrow> outcome \<times> DebugRequest \<times> Debugger" where
  "process_command a os request d =
     (case command request of
        SetWatchpoint \<Rightarrow> returned (process_set_watchpoint_command a os request d) request
      | RemoveWatchpoint \<Rightarrow> returned (process_remove_watchpoint_command a os request d) request
      | SetBreakpoint \<Rightarrow> returned (process_set_breakpoint_command a os request d) request
      | RemoveBreakpoint \<Rightarrow> returned (process_remove_breakpoint_command a os request d) request
      | ContinueExecution \<Rightarrow> returned (process_continue_execution_command a os request d) request
      | SingleStep \<Rightarrow> returned (process_single_step_command a os request d) request
      | ReapplyWatchpoints \<Rightarrow> returned (process_reapply_watchpoints_command a os request d) request
      | ReadRegister \<Rightarrow>
          (let (r, request', d1) = process_read_register_command a os request d
           in (Returned r, request', d1))
      | WriteRegister \<Rightarrow> returned (process_write_register_command a os request d) request
      | ReadMemory \<Rightarrow>
          (let (r, request', d1) = process_read_memory_command os request d
           in (Returned r, request', d1))
      | SpawnProcess \<Rightarrow> process_spawn_command a os request d
      | SpawnProcessWithPty \<Rightarrow> process_spawn_with_pty_command a os request d
      | ResumeUserStoppedThreads \<Rightarrow> returned (resume_all_user_stopped_threads_internal os d) request
      | AttachToThreads \<Rightarrow> (Returned (-1), request, d))"

section \<open>The queue while a command runs\<close>

text \<open>
  No command puts a request into the queue: every function that \<^verbatim>\<open>process_command_queue\<close>
  dispatches to leaves \<open>debug_command_queue\<close> as it is. (Only the event handler enqueues,
  in \<^verbatim>\<open>complete_watchpoint_single_step\<close>.)
\<close>

lemma sys_queue [simp]: "debug_command_queue (snd (sys os e d)) = debug_command_queue d"
  by (simp add: sys_def)

lemma ts_update_queue [simp]:
  "debug_command_queue (ts_update a tid upd d) = debug_command_queue d"
  by (simp add: ts_update_def)

lemma stop_all_threads_queue [simp]:
  "debug_command_queue (snd (stop_all_threads os x d)) = debug_command_queue d"
  by (simp add: stop_all_threads_def sys_def)

lemma resume_threads_queue [simp]:
  "debug_command_queue (resume_threads os threads d) = debug_command_queue d"
  by (induction threads arbitrary: d) (simp_all add: Let_def split_beta split: option.splits)

lemma apply_watchpoint_to_threads_queue [simp]:
  "debug_command_queue (snd (apply_watchpoint_to_threads a os threads index address sz wtype d)) =
     debug_command_queue d"
  by (induction threads arbitrary: d; cases a) (simp_all add: Let_def split_beta)

lemma clear_watchpoint_from_threads_queue [simp]:
  "debug_command_queue (snd (clear_watchpoint_from_threads a os threads index d)) =
     debug_command_queue d"
  by (induction threads arbitrary: d; cases a) (simp_all add: Let_def split_beta)

lemma set_removing_queue [simp]:
  "debug_command_queue (set_removing index b d) = debug_command_queue d"
  by (simp add: set_removing_def)

lemma reapply_slots_queue [simp]:
  "debug_command_queue (snd (reapply_slots a os stopped_threads i n success d)) =
     debug_command_queue d"
  by (induction n arbitrary: i success d) (simp_all add: split_beta)

lemma set_watchpoint_internal_queue:
  "debug_command_queue (snd (set_watchpoint_internal a os address sz wtype d)) = debug_command_queue d"
  "fst (set_watchpoint_internal a os address sz wtype d) = 0 \<or>
   fst (set_watchpoint_internal a os address sz wtype d) = -1"
  by (simp_all add: set_watchpoint_internal_def Let_def split_beta)

lemma remove_watchpoint_internal_queue:
  "debug_command_queue (snd (remove_watchpoint_internal a os address d)) = debug_command_queue d"
  "fst (remove_watchpoint_internal a os address d) = 0 \<or>
   fst (remove_watchpoint_internal a os address d) = -1"
  by (simp_all add: remove_watchpoint_internal_def Let_def split_beta)

lemma reapply_all_watchpoints_internal_queue:
  "debug_command_queue (snd (reapply_all_watchpoints_internal a os tid d)) = debug_command_queue d"
  "fst (reapply_all_watchpoints_internal a os tid d) = 0 \<or>
   fst (reapply_all_watchpoints_internal a os tid d) = -1"
  by (simp_all add: reapply_all_watchpoints_internal_def Let_def split_beta)

lemma apply_breakpoint_to_threads_queue [simp]:
  "debug_command_queue (snd (apply_breakpoint_to_threads a os threads index address d)) =
     debug_command_queue d"
  by (induction threads arbitrary: d; cases a) (simp_all add: Let_def split_beta)

lemma clear_breakpoint_from_threads_queue [simp]:
  "debug_command_queue (snd (clear_breakpoint_from_threads a os threads index d)) =
     debug_command_queue d"
  by (induction threads arbitrary: d; cases a) (simp_all add: Let_def split_beta)

lemma set_breakpoint_internal_queue:
  "debug_command_queue (snd (set_breakpoint_internal a os address hit_count bp_type d)) =
     debug_command_queue d"
  "fst (set_breakpoint_internal a os address hit_count bp_type d) = 0 \<or>
   fst (set_breakpoint_internal a os address hit_count bp_type d) = -1"
  by (simp_all add: set_breakpoint_internal_def set_hardware_breakpoint_internal_def
      set_software_breakpoint_internal_def Let_def split_beta)

lemma remove_breakpoint_internal_queue:
  "debug_command_queue (snd (remove_breakpoint_internal a os address d)) = debug_command_queue d"
  "fst (remove_breakpoint_internal a os address d) = 0 \<or>
   fst (remove_breakpoint_internal a os address d) = -1"
  by (simp_all add: remove_breakpoint_internal_def remove_software_breakpoint_internal_def
      Let_def split_beta)

lemma disable_breakpoint_on_thread_queue [simp]:
  "debug_command_queue (disable_breakpoint_on_thread a os tid index wipe d) = debug_command_queue d"
  by (cases a) (simp_all add: disable_breakpoint_on_thread_def Let_def split_beta)

lemma continue_execution_internal_queue:
  "debug_command_queue (snd (continue_execution_internal a os tid d)) = debug_command_queue d"
  "fst (continue_execution_internal a os tid d) = 0 \<or>
   fst (continue_execution_internal a os tid d) = -1"
  by (simp_all add: continue_execution_internal_def Let_def split_beta split: option.splits)

lemma single_step_internal_queue:
  "debug_command_queue (snd (single_step_internal a os tid d)) = debug_command_queue d"
  "fst (single_step_internal a os tid d) = 0 \<or>
   fst (single_step_internal a os tid d) = -1"
  by (simp_all add: single_step_internal_def Let_def split_beta split: option.splits)

lemma read_register_internal_queue:
  "debug_command_queue (snd (read_register_internal a os tid reg_name val d)) = debug_command_queue d"
  "fst (fst (read_register_internal a os tid reg_name val d)) = 0 \<or>
   fst (fst (read_register_internal a os tid reg_name val d)) = -1"
  by (cases a; simp add: read_register_internal_def Let_def split_beta split: option.splits)+

lemma write_register_internal_queue:
  "debug_command_queue (snd (write_register_internal a os tid reg_name v d)) = debug_command_queue d"
  "fst (write_register_internal a os tid reg_name v d) = 0 \<or>
   fst (write_register_internal a os tid reg_name v d) = -1"
  by (cases a; simp add: write_register_internal_def Let_def split_beta split: option.splits)+

lemma find_stopped_thread_from_queue [simp]:
  "debug_command_queue (snd (find_stopped_thread_from os tids d)) = debug_command_queue d"
  by (induction tids arbitrary: d) (simp_all add: split_beta)

lemma read_loop_queue [simp]:
  "debug_command_queue (snd (snd (read_loop os t address sz br cf buffer d))) = debug_command_queue d"
proof (induction "sz - br" arbitrary: br cf buffer d rule: less_induct)
  case less
  have step: "br < sz \<Longrightarrow> sz - Suc br < sz - br" by arith
  show ?case
    by (subst read_loop.simps)
      (simp add: Let_def split_beta less read_loop_skip_progress read_loop_copy_progress step)
qed

lemma read_memory_internal_queue [simp]:
  "debug_command_queue (snd (read_memory_internal os address sz buffer d)) = debug_command_queue d"
  by (simp add: read_memory_internal_def find_stopped_thread_def Let_def split_beta)

lemma spawn_parent_queue:
  assumes "\<And>d. debug_command_queue (cleanup d) = debug_command_queue d"
  shows "debug_command_queue (snd (snd (spawn_parent a os pid cleanup request d))) =
           debug_command_queue d"
    and "fst (spawn_parent a os pid cleanup request d) = 0 \<or>
         fst (spawn_parent a os pid cleanup request d) = -1"
  by (simp_all add: spawn_parent_def Let_def split_beta assms)

lemma spawn_child_queue [simp]:
  "debug_command_queue (snd (spawn_child os request d)) = debug_command_queue d"
  "fst (spawn_child os request d) \<noteq> Returned r"
  by (simp_all add: spawn_child_def Let_def split_beta)

lemma spawn_process_internal_queue:
  "debug_command_queue (snd (snd (spawn_process_internal a os request d))) = debug_command_queue d"
  "fst (spawn_process_internal a os request d) = Returned r \<Longrightarrow> r = 0 \<or> r = -1"
proof -
  have q: "debug_command_queue (snd (snd (spawn_parent a os pid (\<lambda>d. d) request d0))) =
             debug_command_queue d0" for pid d0
    by (rule spawn_parent_queue) simp
  have p: "fst (spawn_parent a os pid (\<lambda>d. d) request d0) = 0 \<or>
           fst (spawn_parent a os pid (\<lambda>d. d) request d0) = -1" for pid d0
    by (rule spawn_parent_queue) simp
  show "debug_command_queue (snd (snd (spawn_process_internal a os request d))) = debug_command_queue d"
    by (simp add: spawn_process_internal_def Let_def split_beta q)
  show "fst (spawn_process_internal a os request d) = Returned r \<Longrightarrow> r = 0 \<or> r = -1"
    using p [of "a_int (fst (sys os FORK d))" "snd (sys os FORK d)"]
    by (auto simp: spawn_process_internal_def Let_def split_beta split: if_splits)
qed

lemma spawn_process_with_pty_internal_queue:
  "debug_command_queue (snd (snd (spawn_process_with_pty_internal a os request d))) =
     debug_command_queue d"
  "fst (spawn_process_with_pty_internal a os request d) = Returned r \<Longrightarrow> r = 0 \<or> r = -1"
proof -
  have q: "debug_command_queue
             (snd (snd (spawn_parent a os pid (\<lambda>d. snd (sys os (CLOSE fd) d)) request d0))) =
             debug_command_queue d0" for pid fd d0
    by (rule spawn_parent_queue) simp
  have p: "fst (spawn_parent a os pid (\<lambda>d. snd (sys os (CLOSE fd) d)) request d0) = 0 \<or>
           fst (spawn_parent a os pid (\<lambda>d. snd (sys os (CLOSE fd) d)) request d0) = -1" for pid fd d0
    by (rule spawn_parent_queue) simp
  show "debug_command_queue (snd (snd (spawn_process_with_pty_internal a os request d))) =
          debug_command_queue d"
    by (simp add: spawn_process_with_pty_internal_def Let_def split_beta q)
  show "fst (spawn_process_with_pty_internal a os request d) = Returned r \<Longrightarrow> r = 0 \<or> r = -1"
    using p
    by (auto simp: spawn_process_with_pty_internal_def Let_def split_beta split: if_splits)
qed

lemma resume_user_stopped_queue [simp]:
  "debug_command_queue (snd (snd (resume_user_stopped os states d))) = debug_command_queue d"
  by (induction states arbitrary: d) (auto simp: split_beta)

lemma resume_user_stopped_count:
  "0 \<le> fst (resume_user_stopped os states d) \<and>
   fst (resume_user_stopped os states d) \<le> int (length (filter (\<lambda>kv. stopped_by_user (snd kv)) states))"
proof (induction states arbitrary: d)
  case Nil
  show ?case by simp
next
  case (Cons kv states)
  obtain tid state where kv: "kv = (tid, state)" by (cases kv)
  from Cons [of d] Cons [of "snd (sys os (PTRACE_CONT tid 0) d)"]
  show ?case by (simp add: kv split_beta)
qed

lemma resume_all_user_stopped_threads_internal_queue:
  "debug_command_queue (snd (resume_all_user_stopped_threads_internal os d)) = debug_command_queue d"
  "0 \<le> fst (resume_all_user_stopped_threads_internal os d)"
  using resume_user_stopped_count [of os "thread_states d" d]
  by (simp_all add: resume_all_user_stopped_threads_internal_def split_beta)


lemma process_command_queue_kept:
  "debug_command_queue (snd (snd (process_command a os request d))) = debug_command_queue d"
  by (cases "command request")
    (simp_all add: process_command_def returned_def split_beta
      process_set_watchpoint_command_def set_watchpoint_internal_queue
      process_remove_watchpoint_command_def remove_watchpoint_internal_queue
      process_set_breakpoint_command_def set_breakpoint_internal_queue
      process_remove_breakpoint_command_def remove_breakpoint_internal_queue
      process_continue_execution_command_def continue_execution_internal_queue
      process_single_step_command_def single_step_internal_queue
      process_reapply_watchpoints_command_def reapply_all_watchpoints_internal_queue
      process_read_register_command_def read_register_internal_queue
      process_write_register_command_def write_register_internal_queue
      process_read_memory_command_def
      process_spawn_command_def spawn_process_internal_queue
      process_spawn_with_pty_command_def spawn_process_with_pty_internal_queue
      resume_all_user_stopped_threads_internal_queue)

text \<open>
  \<^verbatim>\<open>process_command_queue\<close>. The requests belong to their callers, who wait for
  \<open>completed\<close>; \<open>finished\<close> collects them in the order in which the loop completes them.
  The first component is \<open>None\<close> when the loop returns with the queue empty, and the way
  the process ended when a spawn command continued in the forked child.
\<close>

function process_command_queue ::
  "arch \<Rightarrow> os \<Rightarrow> DebugRequest list \<Rightarrow> Debugger \<Rightarrow> outcome option \<times> DebugRequest list \<times> Debugger" where
  "process_command_queue a os finished d =
     (case debug_command_queue d of
        [] \<Rightarrow> (None, finished, d)
      | request # rest \<Rightarrow>
          (case process_command a os request (d\<lparr>debug_command_queue := rest\<rparr>) of
             (Returned res, request', d') \<Rightarrow>
               process_command_queue a os
                 (finished @ [request'\<lparr>result := res, completed := True\<rparr>]) d'
           | (Exited code, request', d') \<Rightarrow> (Some (Exited code), finished, d')
           | (Replaced, request', d') \<Rightarrow> (Some Replaced, finished, d')))"
  by pat_completeness auto

lemma process_command_queue_shrinks:
  assumes "(y, request', d') = process_command a os request (d\<lparr>debug_command_queue := rest\<rparr>)"
  shows "debug_command_queue d' = rest"
proof -
  from assms have "d' = snd (snd (process_command a os request (d\<lparr>debug_command_queue := rest\<rparr>)))"
    by (metis snd_conv)
  then show ?thesis by (simp add: process_command_queue_kept)
qed

termination process_command_queue
  by (relation "measure (\<lambda>(a, os, finished, d). length (debug_command_queue d))")
    (auto dest: process_command_queue_shrinks)

declare process_command_queue.simps [simp del]

section \<open>Reading the effects of an operation\<close>

text \<open>
  The length field of an ARM64 watchpoint control word (bits 5 to 12, \<^verbatim>\<open>BAS/LEN\<close> in
  \<^verbatim>\<open>arch_defs.h\<close>) and of DR7 on x86_64 (two bits from bit \<open>18 + 4 * index\<close>).
\<close>

definition ctrl_len :: "u32 \<Rightarrow> u32" where
  "ctrl_len c = drop_bit 5 c AND 0xff"

definition dr7_len :: "u64 \<Rightarrow> int \<Rightarrow> u64" where
  "dr7_len dr7 index = drop_bit (nat (18 + index * 4)) dr7 AND 3"

text \<open>The length code a call writes into watchpoint slot \<open>index\<close>, if it writes one.\<close>

fun programmed_length :: "arch \<Rightarrow> int \<Rightarrow> effect \<Rightarrow> u64 option" where
  "programmed_length AARCH64 index (PTRACE_SETREGSET tid rs ws) =
     (if rs = NT_ARM_HW_WATCH then Some (ucast (ctrl_len (ctrl (ws ! nat index)))) else None)"
| "programmed_length X86_64 index (PTRACE_POKEUSER tid slot v) =
     (if slot = X86_DR7_OFFSET then Some (dr7_len v index) else None)"
| "programmed_length a index e = None"

text \<open>The code of each architecture for a watched length of 1, 2, 4 or 8 bytes.\<close>

definition length_encoding :: "arch \<Rightarrow> nat \<Rightarrow> u64" where
  "length_encoding a n =
     (case a of
        AARCH64 \<Rightarrow> ucast (if n = 1 then ARM_BREAKPOINT_LEN_1 else if n = 2 then ARM_BREAKPOINT_LEN_2
                         else if n = 4 then ARM_BREAKPOINT_LEN_4 else ARM_BREAKPOINT_LEN_8)
      | X86_64 \<Rightarrow> ucast (if n = 1 then X86_DR7_LEN_1 else if n = 2 then X86_DR7_LEN_2
                        else if n = 4 then X86_DR7_LEN_4 else X86_DR7_LEN_8))"

text \<open>
  \<open>extends P ev ev'\<close>: the log \<open>ev'\<close> is \<open>ev\<close> followed by calls that all satisfy
  \<open>P\<close>.
\<close>

definition extends :: "(effect \<Rightarrow> bool) \<Rightarrow> effect list \<Rightarrow> effect list \<Rightarrow> bool" where
  "extends P ev ev' = (\<exists>xs. ev' = ev @ xs \<and> list_all P xs)"

definition rounded_length :: "arch \<Rightarrow> int \<Rightarrow> u64" where
  "rounded_length a sz = length_encoding a (if sz \<le> 1 then 1 else if sz \<le> 2 then 2 else if sz \<le> 4 then 4 else 8)"

section \<open>Example environments and states\<close>

text \<open>
  A target with the single thread 100 in which every kernel call succeeds: reads give
  zero, stop-the-world reports thread 100 stopped and not stopped before.
\<close>

definition ok_answer :: answer where
  "ok_answer =
     \<lparr>a_ok = True, a_errno = EOTHER, a_word = 0, a_int = 0, a_status = 0,
      a_pt_regs = zero_pt_regs, a_regs_struct = zero_regs_struct,
      a_hwdebug = (\<lambda>i. zero_dbg_reg), a_pids = [100], a_pids2 = [], a_attached = [100],
      a_states = []\<rparr>"

definition os_ok :: os where
  "os_ok n e = ok_answer"

text \<open>The debugger of target 100 after one successful \<^verbatim>\<open>set_watchpoint\<close>.\<close>

definition dbg_watch_full :: Debugger where
  "dbg_watch_full = snd (set_watchpoint_internal X86_64 os_ok 0x1000 4 WRITE (Debugger_new 100))"

section \<open>Reading register files\<close>


fun write_reg :: "string \<Rightarrow> u64 \<Rightarrow> user_regs \<Rightarrow> user_regs option" where
  "write_reg reg_name v (PtRegs rgs) = map_option PtRegs (write_reg_arm64 reg_name v rgs)"
| "write_reg reg_name v (RegsStruct rgs) = map_option RegsStruct (write_reg_x86_64 reg_name v rgs)"


text \<open>
  The debugger of target 100 attached to its thread 100, and a kernel that holds an
  all-zero register file for the thread and, at the third call, the register file that
  a write of \<open>0x246\<close> to \<^verbatim>\<open>rflags\<close> (x86_64) or of 7 to \<^verbatim>\<open>x5\<close> (ARM64) leaves there.
\<close>

definition dbg_attached :: Debugger where
  "dbg_attached = (Debugger_new 100)\<lparr>attached_threads := [100]\<rparr>"

definition os_kept :: os where
  "os_kept n e =
     (if n = 2
      then ok_answer\<lparr>a_regs_struct := zero_regs_struct\<lparr>eflags := 0x246\<rparr>,
                     a_pt_regs := zero_pt_regs\<lparr>user_pt_regs.regs :=
                                                (user_pt_regs.regs zero_pt_regs)(5 := 7)\<rparr>\<rparr>
      else ok_answer)"

text \<open>
  An environment in which the third call fails and all others succeed and answer 0: the
  \<^verbatim>\<open>fork\<close> continues in the child, whose \<^verbatim>\<open>execvp\<close> fails. The request spawns a file
  that does not exist.
\<close>

definition os_exec_fails :: os where
  "os_exec_fails n e = (if n = 2 then ok_answer\<lparr>a_ok := False\<rparr> else ok_answer)"

definition rq_spawn_missing :: DebugRequest where
  "rq_spawn_missing = (new_DebugRequest SpawnProcess)\<lparr>rq_executable_path := ''/nonexistent''\<rparr>"

section \<open>Reading target memory\<close>

text \<open>
  With \<open>peek\<close> the answer of the kernel for each aligned word, whether the word of an
  address can be read and what the target holds at the address.
\<close>

definition word_readable :: "(u64 \<Rightarrow> answer) \<Rightarrow> u64 \<Rightarrow> bool" where
  "word_readable peek x = a_ok (peek (x AND NOT 7))"

definition target_byte :: "(u64 \<Rightarrow> answer) \<Rightarrow> u64 \<Rightarrow> u8" where
  "target_byte peek x = word_bytes (a_word (peek (x AND NOT 7))) ! unat (x - (x AND NOT 7))"

text \<open>
  Three failures in a row: the bytes \<open>i\<close>, \<open>i + 8\<close> and \<open>i + 16\<close> of the request lie in
  three consecutive words, none of which can be read.
\<close>

definition three_failures :: "(u64 \<Rightarrow> answer) \<Rightarrow> u64 \<Rightarrow> nat \<Rightarrow> bool" where
  "three_failures peek address i =
     (\<not> word_readable peek (address + of_nat i) \<and>
      \<not> word_readable peek (address + of_nat (i + 8)) \<and>
      \<not> word_readable peek (address + of_nat (i + 16)))"

text \<open>
  There is a thread to read with: an attached thread that is already stopped, or else the
  first of the threads that \<^verbatim>\<open>stop_all_threads\<close> stopped.
\<close>

definition read_thread_available :: "os \<Rightarrow> Debugger \<Rightarrow> bool" where
  "read_thread_available os d =
     (let (found, d1) = find_stopped_thread os d
      in found \<noteq> 0 \<or>
         (let ((stopped_threads, already_stopped), d2) = stop_all_threads os 0 d1
          in stopped_threads \<noteq> [] \<and> hd stopped_threads \<noteq> 0))"

text \<open>
  A target whose word at \<open>0x1000\<close> is unmapped (\<^verbatim>\<open>EIO\<close>) and whose other words hold
  \<open>0x11\<close> in every byte, and the debugger of target 100 attached to its stopped thread 100.
\<close>

definition peek_hole :: "u64 \<Rightarrow> answer" where
  "peek_hole x =
     (if x = 0x1000 then ok_answer\<lparr>a_ok := False, a_errno := EIO\<rparr>
      else ok_answer\<lparr>a_word := 0x1111111111111111\<rparr>)"

fun os_hole :: os where
  "os_hole n (PTRACE_PEEKDATA tid x) = peek_hole x"
| "os_hole n e = ok_answer"

definition dbg_stopped :: Debugger where
  "dbg_stopped = (Debugger_new 100)\<lparr>attached_threads := [100]\<rparr>"

text \<open>
  A target whose three words from \<open>0x1000\<close> to \<open>0x1017\<close> are unmapped (\<^verbatim>\<open>EFAULT\<close>) and
  whose other words hold \<open>0x22\<close> in every byte.
\<close>

definition peek_gap :: "u64 \<Rightarrow> answer" where
  "peek_gap x =
     (if x = 0x1000 \<or> x = 0x1008 \<or> x = 0x1010 then ok_answer\<lparr>a_ok := False, a_errno := EFAULT\<rparr>
      else ok_answer\<lparr>a_word := 0x2222222222222222\<rparr>)"

fun os_gap :: os where
  "os_gap n (PTRACE_PEEKDATA tid x) = peek_gap x"
| "os_gap n e = ok_answer"

section \<open>The software breakpoint table\<close>

text \<open>At most one entry in use per address.\<close>

definition sw_breakpoint_invariant :: "Debugger \<Rightarrow> bool" where
  "sw_breakpoint_invariant d =
     (\<forall>i<MAX_SOFTWARE_BREAKPOINTS. \<forall>j<MAX_SOFTWARE_BREAKPOINTS.
        software_breakpoint_used d ! i \<and> software_breakpoint_used d ! j \<and>
        software_breakpoint_addresses d ! i = software_breakpoint_addresses d ! j \<longrightarrow> i = j)"

text \<open>
  A target whose word at every address is \<open>0x90\<close> (\<^verbatim>\<open>NOP\<close>) before the first patch and
  \<open>0xCC\<close> (\<^verbatim>\<open>INT3\<close>) after it, and the debugger of target 100 after one successful
  software \<^verbatim>\<open>set_breakpoint\<close> at \<open>0x4000\<close>.
\<close>

fun os_nop :: os where
  "os_nop n (PTRACE_PEEKDATA tid x) = ok_answer\<lparr>a_word := 0x90\<rparr>"
| "os_nop n e = ok_answer"

fun os_int3 :: os where
  "os_int3 n (PTRACE_PEEKDATA tid x) = ok_answer\<lparr>a_word := 0xCC\<rparr>"
| "os_int3 n e = ok_answer"

definition dbg_sw_set :: Debugger where
  "dbg_sw_set = snd (set_software_breakpoint_internal X86_64 os_nop 0x4000 0 (Debugger_new 100))"

section \<open>Watchpoint events and the removal of a watchpoint\<close>

text \<open>
  The notifications of a watchpoint hit among the calls, those in the log of a debugger,
  and the debugger after a sequence of debug events \<open>(pid, status)\<close>, handled one after
  the other.
\<close>

fun is_watchpoint_event :: "effect \<Rightarrow> bool" where
  "is_watchpoint_event (SEND_EXCEPTION_INFO info p) = (exception_type info = EXCEPTION_WATCHPOINT)"
| "is_watchpoint_event e = False"

definition watchpoint_events :: "Debugger \<Rightarrow> effect list" where
  "watchpoint_events d = filter is_watchpoint_event (effects d)"




section \<open>The verdict of the client on a breakpoint hit\<close>

text \<open>
  The upcall among the calls, the calls that set a thread running, and the calls the
  stop of a thread at a breakpoint added to the log.
\<close>

fun is_upcall :: "effect \<Rightarrow> bool" where
  "is_upcall (SEND_EXCEPTION_INFO info p) = True"
| "is_upcall e = False"

fun is_resume :: "effect \<Rightarrow> bool" where
  "is_resume (PTRACE_CONT tid s) = True"
| "is_resume (PTRACE_SINGLESTEP tid s) = True"
| "is_resume e = False"

definition new_effects :: "Debugger \<Rightarrow> Debugger \<Rightarrow> effect list" where
  "new_effects d d' = drop (length (effects d)) (effects d')"

text \<open>
  A hardware breakpoint in trace mode: \<open>target_count\<close> is positive and the hit just counted
  is below it.
\<close>

definition trace_mode :: "Debugger \<Rightarrow> int \<Rightarrow> bool" where
  "trace_mode d bp_index =
     (bp_index < 1000 \<and> breakpoint_target_counts d ! nat bp_index > 0 \<and>
      wrap_int (breakpoint_hit_counts d ! nat bp_index + 1) < breakpoint_target_counts d ! nat bp_index)"

text \<open>
  The debugger of target 100 with a hardware breakpoint at \<open>0x4000\<close> in slot 0, a client
  that answers every notification with \<^verbatim>\<open>false\<close>, and a thread stopped at \<open>0x4000\<close>.
\<close>

definition dbg_hw_bp :: Debugger where
  "dbg_hw_bp =
     (Debugger_new 100)
       \<lparr>attached_threads := [100],
        breakpoint_used := [True, False, False, False],
        breakpoint_addresses := [0x4000, 0, 0, 0]\<rparr>"

fun os_silent :: os where
  "os_silent n (SEND_EXCEPTION_INFO info p) = ok_answer\<lparr>a_ok := False\<rparr>"
| "os_silent n (PTRACE_GETREGS tid) = ok_answer\<lparr>a_regs_struct := zero_regs_struct\<lparr>rip := 0x4000\<rparr>\<rparr>"
| "os_silent n e = ok_answer"

text \<open>
  The same debugger with the breakpoint in trace mode (five hits to record), and the
  register file of a thread stopped at \<open>0x4000\<close>.
\<close>

definition dbg_hw_trace :: Debugger where
  "dbg_hw_trace = dbg_hw_bp\<lparr>breakpoint_target_counts := [5, 0, 0, 0]\<rparr>"

definition regs_at_4000 :: user_regs where
  "regs_at_4000 = RegsStruct (zero_regs_struct\<lparr>rip := 0x4000\<rparr>)"

text \<open>
  The register file of a thread that has just run the trap instruction at \<open>0x4000\<close>
  (x86_64: \<^verbatim>\<open>RIP\<close> is one byte past it).
\<close>

definition regs_at_4001 :: user_regs where
  "regs_at_4001 = RegsStruct (zero_regs_struct\<lparr>rip := 0x4001\<rparr>)"

section \<open>The results of the requests\<close>

text \<open>
  The entries of the thread map that are marked as stopped by the user, and the number of
  the calls of a list, made from position \<open>n\<close> of the log on, that the environment accepts.
\<close>

definition user_stopped :: "Debugger \<Rightarrow> (pid_t \<times> ThreadState) list" where
  "user_stopped d = filter (\<lambda>kv. stopped_by_user (snd kv)) (thread_states d)"

fun accepted :: "os \<Rightarrow> nat \<Rightarrow> effect list \<Rightarrow> nat" where
  "accepted os n [] = 0"
| "accepted os n (e # calls) = (if a_ok (os n e) then 1 else 0) + accepted os (Suc n) calls"

text \<open>
  What the result \<open>r\<close> of a request with command \<open>c\<close> is, when the debugger was in state
  \<open>d0\<close> before the request and is in state \<open>d1\<close> after it. For
  \<open>ResumeUserStoppedThreads\<close> the engine calls \<^verbatim>\<open>PTRACE_CONT\<close> once for each thread stopped
  by the user and nothing else, and \<open>r\<close> is the number of threads resumed: the number of
  these calls that the kernel accepted, which is the number of threads that were marked as
  stopped by the user before and are not after. For \<open>AttachToThreads\<close>, which has no case
  in the \<^verbatim>\<open>switch\<close>, \<open>r\<close> is -1. For every other command \<open>r\<close> is 0 or -1.
\<close>

definition request_result :: "os \<Rightarrow> DebugCommand \<Rightarrow> Debugger \<Rightarrow> int \<Rightarrow> Debugger \<Rightarrow> bool" where
  "request_result os c d0 r d1 =
     (if c = ResumeUserStoppedThreads then
        drop (length (effects d0)) (effects d1) =
          map (\<lambda>kv. PTRACE_CONT (fst kv) 0) (user_stopped d0) \<and>
        r = int (accepted os (length (effects d0)) (drop (length (effects d0)) (effects d1))) \<and>
        r = int (length (user_stopped d0)) - int (length (user_stopped d1))
      else if c = AttachToThreads then r = -1
      else r = 0 \<or> r = -1)"

text \<open>
  The states of the debugger along the queue \<open>requests\<close>: before each request, and after
  the last one.
\<close>

fun queue_states :: "arch \<Rightarrow> os \<Rightarrow> DebugRequest list \<Rightarrow> Debugger \<Rightarrow> Debugger list" where
  "queue_states a os [] d = [d]"
| "queue_states a os (request # rest) d =
     d # queue_states a os rest
           (snd (snd (process_command a os request (d\<lparr>debug_command_queue := rest\<rparr>))))"

text \<open>
  The debugger of target 100 whose thread 100 was stopped by the user, with two requests
  in the queue: a register read on a thread that is not attached, and the resumption of
  the user-stopped threads.
\<close>

definition dbg_user_stopped :: Debugger where
  "dbg_user_stopped =
     (Debugger_new 100)
       \<lparr>attached_threads := [100],
        thread_states := [(100, (new_ThreadState X86_64)
                                  \<lparr>is_attached := True, is_stopped := True, stopped_by_user := True\<rparr>)],
        debug_command_queue :=
          [(new_DebugRequest ReadRegister)
             \<lparr>rq_thread_id := 999, rq_reg_name := ''rax'', rq_reg_value_ptr := Some 0\<rparr>,
           new_DebugRequest ResumeUserStoppedThreads]\<rparr>"

section \<open>Properties\<close>

subsection \<open>The fields of a new debugger\<close>

lemma Debugger_new_fields [simp]:
  "effects (Debugger_new p) = []"
  "watchpoint_used (Debugger_new p) = [False]"
  "thread_states (Debugger_new p) = []"
  "target_pid (Debugger_new p) = p"
  "attached_threads (Debugger_new p) = []"
  "debug_state (Debugger_new p) = Running"
  "current_thread (Debugger_new p) = 0"
  "removing_mask (Debugger_new p) = 0"
  "user_suspend_pending (Debugger_new p) = False"
  "debug_command_queue (Debugger_new p) = []"
  "signal_config (Debugger_new p) = []"
  "breakpoint_used (Debugger_new p) = [False, False, False, False]"
  "breakpoint_addresses (Debugger_new p) = [0, 0, 0, 0]"
  "breakpoint_hit_counts (Debugger_new p) = [0, 0, 0, 0]"
  "breakpoint_target_counts (Debugger_new p) = [0, 0, 0, 0]"
  "watchpoint_addresses (Debugger_new p) = [0]"
  "watchpoint_sizes (Debugger_new p) = [0]"
  "software_breakpoint_used (Debugger_new p) = replicate MAX_SOFTWARE_BREAKPOINTS False"
  "software_breakpoint_addresses (Debugger_new p) = replicate MAX_SOFTWARE_BREAKPOINTS 0"
  "software_breakpoint_original_bytes (Debugger_new p) = replicate (MAX_SOFTWARE_BREAKPOINTS * 4) 0"
  by (simp_all add: Debugger_new_def MAX_WATCHPOINTS_def MAX_BREAKPOINTS_def numeral_eq_Suc)

subsection \<open>The thread map\<close>

lemma map_of_map_set [simp]: "map_of (map_set k v m) = (map_of m)(k \<mapsto> v)"
  by (induction m) auto

lemma ts_at_ts_update [simp]:
  "ts_at a (ts_update a tid upd d) tid' = (if tid' = tid then upd (ts_at a d tid) else ts_at a d tid')"
  by (simp add: ts_at_def ts_update_def)

lemma ts_update_fields [simp]:
  "effects (ts_update a tid upd d) = effects d"
  "debug_state (ts_update a tid upd d) = debug_state d"
  "current_thread (ts_update a tid upd d) = current_thread d"
  "target_pid (ts_update a tid upd d) = target_pid d"
  "attached_threads (ts_update a tid upd d) = attached_threads d"
  "debug_command_queue (ts_update a tid upd d) = debug_command_queue d"
  "removing_mask (ts_update a tid upd d) = removing_mask d"
  "watchpoint_sync (ts_update a tid upd d) = watchpoint_sync d"
  "watchpoint_used (ts_update a tid upd d) = watchpoint_used d"
  "watchpoint_addresses (ts_update a tid upd d) = watchpoint_addresses d"
  "breakpoint_used (ts_update a tid upd d) = breakpoint_used d"
  "breakpoint_addresses (ts_update a tid upd d) = breakpoint_addresses d"
  "breakpoint_hit_counts (ts_update a tid upd d) = breakpoint_hit_counts d"
  "breakpoint_target_counts (ts_update a tid upd d) = breakpoint_target_counts d"
  "software_breakpoint_used (ts_update a tid upd d) = software_breakpoint_used d"
  "software_breakpoint_addresses (ts_update a tid upd d) = software_breakpoint_addresses d"
  "software_breakpoint_original_bytes (ts_update a tid upd d) = software_breakpoint_original_bytes d"
  "map_of (thread_states (ts_update a tid upd d)) = (map_of (thread_states d))(tid \<mapsto> upd (ts_at a d tid))"
  by (simp_all add: ts_update_def)

lemma ts_at_effects [simp]: "ts_at a (d\<lparr>effects := ev\<rparr>) tid = ts_at a d tid"
  by (simp add: ts_at_def)

subsection \<open>Copying bytes\<close>

lemma store_bytes_length [simp]: "length (store_bytes off bs xs) = length xs"
  by (induction bs arbitrary: off xs) simp_all

lemma store_bytes_nth:
  "i < length xs \<Longrightarrow>
     store_bytes off bs xs ! i = (if off \<le> i \<and> i < off + length bs then bs ! (i - off) else xs ! i)"
proof (induction bs arbitrary: off xs)
  case Nil
  then show ?case by auto
next
  case (Cons b bs)
  have "store_bytes (Suc off) bs (xs[off := b]) ! i =
          (if Suc off \<le> i \<and> i < Suc off + length bs then bs ! (i - Suc off) else xs[off := b] ! i)"
    using Cons.prems by (intro Cons.IH) simp
  then show ?case using Cons.prems
    by (auto simp: nth_list_update nth_Cons')
qed


subsection \<open>The slot search\<close>

lemma first_index_range: "first_index P lo n = -1 \<or> (\<exists>i. first_index P lo n = int i \<and> lo \<le> i \<and> i < lo + n)"
proof (induction n arbitrary: lo)
  case 0
  show ?case by simp
next
  case (Suc n)
  show ?case
  proof (cases "P lo")
    case True
    then show ?thesis by force
  next
    case False
    from Suc [of "Suc lo"] consider "first_index P (Suc lo) n = -1"
      | i where "first_index P (Suc lo) n = int i" "Suc lo \<le> i" "i < Suc lo + n"
      by blast
    then show ?thesis
    proof cases
      case 1
      with False show ?thesis by simp
    next
      case 2
      with False have "first_index P lo (Suc n) = int i \<and> lo \<le> i \<and> i < lo + Suc n"
        by simp
      then show ?thesis by blast
    qed
  qed
qed

lemma first_index_none_iff:
  "(first_index P lo n = -1) = (\<forall>i. lo \<le> i \<and> i < lo + n \<longrightarrow> \<not> P i)"
proof (induction n arbitrary: lo)
  case 0
  show ?case by auto
next
  case (Suc n)
  show ?case
  proof (cases "P lo")
    case True
    then show ?thesis by force
  next
    case False
    have "(\<forall>i. Suc lo \<le> i \<and> i < Suc lo + n \<longrightarrow> \<not> P i) = (\<forall>i. lo \<le> i \<and> i < lo + Suc n \<longrightarrow> \<not> P i)"
      using False by (metis Suc_leD Suc_leI add_Suc_shift le_neq_implies_less add_Suc_right)
    with False Suc [of "Suc lo"] show ?thesis by simp
  qed
qed

lemma first_index_least:
  "lo \<le> i \<Longrightarrow> i < lo + n \<Longrightarrow> P i \<Longrightarrow> (\<forall>j. lo \<le> j \<and> j < i \<longrightarrow> \<not> P j) \<Longrightarrow> first_index P lo n = int i"
proof (induction n arbitrary: lo)
  case 0
  then show ?case by simp
next
  case (Suc n)
  show ?case
  proof (cases "lo = i")
    case True
    with Suc.prems show ?thesis by simp
  next
    case False
    with Suc.prems have "\<not> P lo" "Suc lo \<le> i" "i < Suc lo + n" by auto
    moreover have "\<forall>j. Suc lo \<le> j \<and> j < i \<longrightarrow> \<not> P j"
      using Suc.prems(4) by auto
    ultimately show ?thesis
      using Suc.IH [of "Suc lo"] Suc.prems(3) by simp
  qed
qed

lemma first_index_sat:
  "first_index P lo n = int j \<Longrightarrow> P j \<and> lo \<le> j \<and> j < lo + n"
proof (induction n arbitrary: lo)
  case 0
  then show ?case by simp
next
  case (Suc n)
  show ?case
  proof (cases "P lo")
    case True
    with Suc.prems show ?thesis by simp
  next
    case False
    with Suc.prems have "first_index P (Suc lo) n = int j" by simp
    from Suc.IH [OF this] show ?thesis by simp
  qed
qed

lemma first_index_nat:
  "first_index P lo n \<noteq> -1 \<Longrightarrow> first_index P lo n = int (nat (first_index P lo n))"
  using first_index_range [of P lo n] by auto

lemma first_index_here: "0 < n \<Longrightarrow> P lo \<Longrightarrow> first_index P lo n = int lo"
  by (cases n) simp_all


subsection \<open>What stopping and resuming the threads leave alone\<close>

lemma sys_frame [simp]:
  "software_breakpoint_used (snd (sys os e d)) = software_breakpoint_used d"
  "software_breakpoint_addresses (snd (sys os e d)) = software_breakpoint_addresses d"
  "software_breakpoint_original_bytes (snd (sys os e d)) = software_breakpoint_original_bytes d"
  "debug_command_queue (snd (sys os e d)) = debug_command_queue d"
  "target_pid (snd (sys os e d)) = target_pid d"
  by (simp_all add: sys_def)

lemma stop_all_threads_frame [simp]:
  "software_breakpoint_used (snd (stop_all_threads os x d)) = software_breakpoint_used d"
  "software_breakpoint_addresses (snd (stop_all_threads os x d)) = software_breakpoint_addresses d"
  "software_breakpoint_original_bytes (snd (stop_all_threads os x d)) = software_breakpoint_original_bytes d"
  "debug_command_queue (snd (stop_all_threads os x d)) = debug_command_queue d"
  "target_pid (snd (stop_all_threads os x d)) = target_pid d"
  by (simp_all add: stop_all_threads_def sys_def)

lemma resume_threads_frame [simp]:
  "software_breakpoint_used (resume_threads os threads d) = software_breakpoint_used d"
  "software_breakpoint_addresses (resume_threads os threads d) = software_breakpoint_addresses d"
  "software_breakpoint_original_bytes (resume_threads os threads d) = software_breakpoint_original_bytes d"
  "debug_command_queue (resume_threads os threads d) = debug_command_queue d"
  "target_pid (resume_threads os threads d) = target_pid d"
  by (induction threads arbitrary: d; simp add: sys_def Let_def split: option.splits)+


subsection \<open>Effect logs\<close>

lemma extends_refl [simp]: "extends P ev ev"
  by (simp add: extends_def)

lemma extends_trans: "extends P ev ev1 \<Longrightarrow> extends P ev1 ev2 \<Longrightarrow> extends P ev ev2"
  by (auto simp: extends_def)

lemma extends_snoc: "extends P ev ev1 \<Longrightarrow> P e \<Longrightarrow> extends P ev (ev1 @ [e])"
  by (auto simp: extends_def)

lemma extends_step: "P e \<Longrightarrow> extends P (ev @ [e]) ev2 \<Longrightarrow> extends P ev ev2"
  by (auto simp: extends_def)

lemma sys_effects [simp]: "effects (snd (sys os e d)) = effects d @ [e]"
  by (simp add: sys_def)

lemma sys_fst [simp]: "fst (sys os e d) = os (length (effects d)) e"
  by (simp add: sys_def)

lemma ctrl_len_encode:
  "ctrl_len (encode_ctrl_reg 0 (arm_length sz) (arm_btype wtype) 2 1) = arm_length sz"
  by (cases wtype) (auto simp: ctrl_len_def encode_ctrl_reg_def arm_btype_def arm_length_def
      ARM_BREAKPOINT_LEN_1_def ARM_BREAKPOINT_LEN_2_def ARM_BREAKPOINT_LEN_4_def ARM_BREAKPOINT_LEN_8_def
      ARM_BREAKPOINT_LOAD_def ARM_BREAKPOINT_STORE_def)

lemma dr7_len_watch:
  "index \<in> {0,1,2,3} \<Longrightarrow> dr7_len (watch_dr7 dr7 index (x86_cond wtype) (x86_len sz)) index = ucast (x86_len sz)"
  unfolding dr7_len_def watch_dr7_def Let_def x86_cond_def x86_len_def
    X86_DR7_LEN_1_def X86_DR7_LEN_2_def X86_DR7_LEN_4_def X86_DR7_LEN_8_def
    X86_DR7_BREAK_ON_WRITE_def X86_DR7_BREAK_ON_RW_def
  by (cases wtype; elim insertE emptyE; simp add: word_ao_dist and.assoc)

lemma arm_length_rounded: "ucast (arm_length sz) = rounded_length AARCH64 sz"
  by (simp add: arm_length_def rounded_length_def length_encoding_def)

lemma x86_len_rounded: "ucast (x86_len sz) = rounded_length X86_64 sz"
  by (simp add: x86_len_def rounded_length_def length_encoding_def)

lemma wp_slot0:
  "(take MAX_WATCHPOINTS ((reenable_watchpoints MAX_WATCHPOINTS (getregset_hw MAX_WATCHPOINTS r))[0 := w])) ! 0 = w"
  by (simp add: MAX_WATCHPOINTS_def reenable_watchpoints_def getregset_hw_def)

lemma extends_sysI: "P e \<Longrightarrow> extends P (effects d) (effects (snd (sys os e d)))"
  by (simp add: extends_def)

lemma apply_watchpoint_extends:
  "extends (\<lambda>e. \<forall>l. programmed_length a 0 e = Some l \<longrightarrow> l = rounded_length a sz)
     (effects d) (effects (snd (apply_watchpoint_to_threads a os threads 0 address sz wtype d)))"
  (is "extends ?P _ _")
proof (induction threads arbitrary: d)
  case Nil
  show ?case by simp
next
  case (Cons tid threads)
  note IH = Cons.IH
  show ?case
  proof (cases a)
    case AARCH64
    define e1 where "e1 = PTRACE_GETREGSET tid NT_ARM_HW_WATCH"
    define d1 where "d1 = snd (sys os e1 d)"
    define ws where "ws = take MAX_WATCHPOINTS
      ((reenable_watchpoints MAX_WATCHPOINTS (getregset_hw MAX_WATCHPOINTS (fst (sys os e1 d))))
         [nat 0 := \<lparr>addr = address, ctrl = encode_ctrl_reg 0 (arm_length sz) (arm_btype wtype) 2 1\<rparr>])"
    define e2 where "e2 = PTRACE_SETREGSET tid NT_ARM_HW_WATCH ws"
    define d2 where "d2 = snd (sys os e2 d1)"
    have s1: "extends ?P (effects d) (effects d1)"
      unfolding d1_def by (rule extends_sysI) (simp add: e1_def AARCH64)
    have "ws ! 0 = \<lparr>addr = address, ctrl = encode_ctrl_reg 0 (arm_length sz) (arm_btype wtype) 2 1\<rparr>"
      unfolding ws_def by (simp add: wp_slot0)
    then have s2: "extends ?P (effects d1) (effects d2)"
      unfolding d2_def
      by (intro extends_sysI) (simp add: e2_def AARCH64 ctrl_len_encode arm_length_rounded)
    have s12: "extends ?P (effects d) (effects d2)"
      using s1 s2 by (rule extends_trans)
    have r: "snd (apply_watchpoint_to_threads a os (tid # threads) 0 address sz wtype d) \<in>
        {snd (apply_watchpoint_to_threads a os threads 0 address sz wtype d1),
         snd (apply_watchpoint_to_threads a os threads 0 address sz wtype d2), d2}"
      by (simp add: AARCH64 Let_def split_beta e1_def d1_def e2_def d2_def ws_def)
    show ?thesis
      using r s1 s12 extends_trans [OF s1 IH [of d1]] extends_trans [OF s12 IH [of d2]]
      by auto
  next
    case X86_64
    define e1 where "e1 = PTRACE_POKEUSER tid (x86_dr_offset 0) address"
    define d1 where "d1 = snd (sys os e1 d)"
    define e2 where "e2 = PTRACE_PEEKUSER tid X86_DR7_OFFSET"
    define d2 where "d2 = snd (sys os e2 d1)"
    define e3 where "e3 = PTRACE_POKEUSER tid X86_DR7_OFFSET
       (watch_dr7 (a_word (fst (sys os e2 d1))) 0 (x86_cond wtype) (x86_len sz))"
    define d3 where "d3 = snd (sys os e3 d2)"
    have s1: "extends ?P (effects d) (effects d1)"
      unfolding d1_def
      by (rule extends_sysI) (simp add: e1_def X86_64 x86_dr_offset_def X86_DR7_OFFSET_def)
    have s2: "extends ?P (effects d1) (effects d2)"
      unfolding d2_def by (rule extends_sysI) (simp add: e2_def X86_64)
    have s3: "extends ?P (effects d2) (effects d3)"
      unfolding d3_def
      by (rule extends_sysI) (simp add: e3_def X86_64 dr7_len_watch x86_len_rounded)
    have s13: "extends ?P (effects d) (effects d3)"
      using s1 s2 s3 by (blast intro: extends_trans)
    have r: "snd (apply_watchpoint_to_threads a os (tid # threads) 0 address sz wtype d) \<in>
        {snd (apply_watchpoint_to_threads a os threads 0 address sz wtype d1), d1,
         snd (apply_watchpoint_to_threads a os threads 0 address sz wtype d3), d3}"
      by (simp add: X86_64 Let_def split_beta e1_def d1_def e2_def d2_def e3_def d3_def)
    show ?thesis
      using r s1 s13 extends_trans [OF s1 IH [of d1]] extends_trans [OF s13 IH [of d3]]
      by auto
  qed
qed

lemma extends_mono: "extends P ev ev' \<Longrightarrow> (\<And>e. P e \<Longrightarrow> Q e) \<Longrightarrow> extends Q ev ev'"
  by (auto simp: extends_def list_all_iff)

lemma extends_set: "extends P ev ev' \<Longrightarrow> e \<in> set (drop (length ev) ev') \<Longrightarrow> P e"
  by (auto simp: extends_def list_all_iff)

lemma resume_threads_extends:
  "extends (\<lambda>e. \<exists>t s. e = PTRACE_CONT t s) (effects d) (effects (resume_threads os threads d))"
  (is "extends ?P _ _")
proof (induction threads arbitrary: d)
  case Nil
  show ?case by simp
next
  case (Cons tid threads)
  note IH = Cons.IH
  define d0 where "d0 = (case map_of (thread_states d) tid of
                  Some st \<Rightarrow> d\<lparr>thread_states :=
                               map_set tid (st\<lparr>pending_signal := 0\<rparr>) (thread_states d)\<rparr>
                | None \<Rightarrow> d)"
  define sg where "sg = (case map_of (thread_states d) tid of Some st \<Rightarrow> pending_signal st | None \<Rightarrow> 0)"
  define d1 where "d1 = snd (sys os (PTRACE_CONT tid sg) d0)"
  have e0: "effects d0 = effects d"
    by (simp add: d0_def split: option.splits)
  have s1: "extends ?P (effects d) (effects d1)"
    unfolding d1_def e0 [symmetric] by (rule extends_sysI) simp
  define dE where "dE = d1\<lparr>attached_threads := set_erase tid (attached_threads d1),
                    thread_states := map_erase tid (thread_states d1)\<rparr>"
  define dS where "dS = (case map_of (thread_states d) tid of
                Some st \<Rightarrow> d1\<lparr>thread_states :=
                             map_set tid (st\<lparr>pending_signal := 0, is_stopped := False\<rparr>)
                               (thread_states d1)\<rparr>
              | None \<Rightarrow> d1)"
  have eE: "effects dE = effects d1" and eS: "effects dS = effects d1"
    by (simp_all add: dE_def dS_def split: option.splits)
  have r: "resume_threads os (tid # threads) d \<in>
      {resume_threads os threads dE, resume_threads os threads d1, resume_threads os threads dS}"
    by (auto simp add: Let_def split_beta d0_def d1_def sg_def dE_def dS_def split: option.splits)
  show ?case
    using r extends_trans [OF s1 IH [of dE, unfolded eE]] extends_trans [OF s1 IH [of d1]]
      extends_trans [OF s1 IH [of dS, unfolded eS]]
    by auto
qed

lemma stop_all_threads_effects:
  "effects (snd (stop_all_threads os x d)) = effects d @ [STOP_ALL_THREADS x]"
  by (simp add: stop_all_threads_def split_beta sys_def)

lemma find_free_watchpoint_cases: "find_free_watchpoint d = -1 \<or> find_free_watchpoint d = 0"
  using first_index_range [of "\<lambda>i. \<not> watchpoint_used d ! i" 0 MAX_WATCHPOINTS]
  by (auto simp: find_free_watchpoint_def MAX_WATCHPOINTS_def)

lemma set_watchpoint_internal_extends:
  "extends (\<lambda>e. \<forall>l. programmed_length a 0 e = Some l \<longrightarrow> l = rounded_length a sz)
     (effects d) (effects (snd (set_watchpoint_internal a os address sz wtype d)))"
  (is "extends ?P _ _")
proof (cases "find_free_watchpoint d = -1")
  case True
  then show ?thesis by (simp add: set_watchpoint_internal_def)
next
  case False
  then have i0: "find_free_watchpoint d = 0"
    using find_free_watchpoint_cases [of d] by simp
  define d1 where "d1 = snd (stop_all_threads os 0 d)"
  define st where "st = fst (fst (stop_all_threads os 0 d))"
  define al where "al = snd (fst (stop_all_threads os 0 d))"
  define d2 where "d2 = snd (apply_watchpoint_to_threads a os st 0 address sz wtype d1)"
  define d3 where "d3 = resume_threads os (threads_to_resume st al) d2"
  have s1: "extends ?P (effects d) (effects d1)"
    unfolding d1_def stop_all_threads_effects by (simp add: extends_def)
  have s2: "extends ?P (effects d1) (effects d2)"
    unfolding d2_def by (rule apply_watchpoint_extends)
  have s3: "extends ?P (effects d2) (effects d3)"
    unfolding d3_def by (rule extends_mono [OF resume_threads_extends]) auto
  have s13: "extends ?P (effects d) (effects d3)"
    using s1 s2 s3 by (blast intro: extends_trans)
  have "effects (snd (set_watchpoint_internal a os address sz wtype d)) \<in> {effects d1, effects d3}"
    by (simp add: set_watchpoint_internal_def i0 Let_def split_beta d1_def d2_def d3_def st_def al_def)
  then show ?thesis
    using s1 s13 by auto
qed

lemma find_free_new [simp]: "find_free_watchpoint (Debugger_new p) = 0"
  by (simp add: find_free_watchpoint_def MAX_WATCHPOINTS_def)

lemma wp_take0:
  "take MAX_WATCHPOINTS ((reenable_watchpoints MAX_WATCHPOINTS (getregset_hw MAX_WATCHPOINTS r))[0 := w]) = [w]"
  by (rule nth_equalityI) (simp_all add: MAX_WATCHPOINTS_def reenable_watchpoints_def getregset_hw_def)

lemma ex_arm:
  "effects (snd (set_watchpoint_internal AARCH64 os_ok 0x1000 5 WRITE (Debugger_new 100))) =
     [STOP_ALL_THREADS 0, PTRACE_GETREGSET 100 NT_ARM_HW_WATCH,
      PTRACE_SETREGSET 100 NT_ARM_HW_WATCH [\<lparr>addr = 0x1000, ctrl = 0x1FF5\<rparr>],
      PTRACE_CONT 100 0]"
  by (simp add: set_watchpoint_internal_def stop_all_threads_def sys_def os_ok_def ok_answer_def
      threads_to_resume_def Let_def wp_take0 encode_ctrl_reg_def arm_length_def arm_btype_def ARM_BREAKPOINT_LEN_8_def
      ARM_BREAKPOINT_STORE_def)

lemma ex_x86:
  "effects (snd (set_watchpoint_internal X86_64 os_ok 0x1000 5 WRITE (Debugger_new 100))) =
     [STOP_ALL_THREADS 0, PTRACE_POKEUSER 100 (DR 0) 0x1000, PTRACE_PEEKUSER 100 (DR 7),
      PTRACE_POKEUSER 100 (DR 7) 0x90001, PTRACE_CONT 100 0]"
  by (simp add: set_watchpoint_internal_def stop_all_threads_def sys_def os_ok_def ok_answer_def
      threads_to_resume_def Let_def x86_dr_offset_def X86_DR7_OFFSET_def watch_dr7_def
      x86_cond_def x86_len_def X86_DR7_LEN_8_def X86_DR7_BREAK_ON_WRITE_def)

subsection \<open>Watchpoint length encoding\<close>

text \<open>
  Claim C7 as stated (every size outside 1, 2, 4, 8 programs the 4-byte length) fails:
  \<^verbatim>\<open>set_watchpoint\<close> with size 5 programs the 8-byte encoding on ARM64 (\<open>0xff\<close>, not
  \<open>0xf\<close>) and on x86_64 (\<open>2\<close>, not \<open>3\<close>).
\<close>

theorem set_watchpoint_size_clamp_counterexample:
  "(5::int) \<notin> {1, 2, 4, 8} \<and>
   effects (snd (set_watchpoint_internal AARCH64 os_ok 0x1000 5 WRITE (Debugger_new 100))) =
     [STOP_ALL_THREADS 0, PTRACE_GETREGSET 100 NT_ARM_HW_WATCH,
      PTRACE_SETREGSET 100 NT_ARM_HW_WATCH [\<lparr>addr = 0x1000, ctrl = 0x1FF5\<rparr>],
      PTRACE_CONT 100 0] \<and>
   ctrl_len 0x1FF5 = ARM_BREAKPOINT_LEN_8 \<and>
   ctrl_len 0x1FF5 \<noteq> ARM_BREAKPOINT_LEN_4 \<and>
   effects (snd (set_watchpoint_internal X86_64 os_ok 0x1000 5 WRITE (Debugger_new 100))) =
     [STOP_ALL_THREADS 0, PTRACE_POKEUSER 100 (DR 0) 0x1000, PTRACE_PEEKUSER 100 (DR 7),
      PTRACE_POKEUSER 100 (DR 7) 0x90001, PTRACE_CONT 100 0] \<and>
   dr7_len 0x90001 0 = ucast X86_DR7_LEN_8 \<and>
   dr7_len 0x90001 0 \<noteq> ucast X86_DR7_LEN_4"
  by (simp add: ex_arm ex_x86 ctrl_len_def dr7_len_def ARM_BREAKPOINT_LEN_8_def
      ARM_BREAKPOINT_LEN_4_def X86_DR7_LEN_8_def X86_DR7_LEN_4_def)

text \<open>
  Claim C7, amended. A size outside 1, 2, 4, 8 is rounded up to the next supported
  length, not clamped to 4: every length code that \<^verbatim>\<open>set_watchpoint\<close> writes into the
  watchpoint slot is the 1-byte code for a size of 0 or less, the 4-byte code for size 3
  and the 8-byte code for a size of 5 or more, on ARM64 and on x86_64.
\<close>

theorem set_watchpoint_out_of_range_size:
  assumes "sz \<notin> {1, 2, 4, 8}"
    and "e \<in> set (drop (length (effects d))
                 (effects (snd (set_watchpoint_internal a os address sz wtype d))))"
    and "programmed_length a 0 e = Some l"
  shows "l = length_encoding a (if sz \<le> 0 then 1 else if sz = 3 then 4 else 8)"
proof -
  from extends_set [OF set_watchpoint_internal_extends assms(2)] assms(3)
  have "l = rounded_length a sz" by blast
  moreover from assms(1) have "sz \<le> 0 \<or> sz = 3 \<or> 5 \<le> sz"
    by auto
  ultimately show ?thesis
    by (auto simp: rounded_length_def)
qed

theorem set_watchpoint_out_of_range_size_witness:
  "(5::int) \<notin> {1, 2, 4, 8} \<and>
   PTRACE_SETREGSET 100 NT_ARM_HW_WATCH [\<lparr>addr = 0x1000, ctrl = 0x1FF5\<rparr>]
     \<in> set (drop (length (effects (Debugger_new 100)))
          (effects (snd (set_watchpoint_internal AARCH64 os_ok 0x1000 5 WRITE (Debugger_new 100))))) \<and>
   programmed_length AARCH64 0
     (PTRACE_SETREGSET 100 NT_ARM_HW_WATCH [\<lparr>addr = 0x1000, ctrl = 0x1FF5\<rparr>]) = Some 0xff \<and>
   (0xff :: u64) = length_encoding AARCH64 8"
proof -
  have h1: "(5::int) \<notin> {1, 2, 4, 8}" by simp
  have h2: "PTRACE_SETREGSET 100 NT_ARM_HW_WATCH [\<lparr>addr = 0x1000, ctrl = 0x1FF5\<rparr>]
     \<in> set (drop (length (effects (Debugger_new 100)))
          (effects (snd (set_watchpoint_internal AARCH64 os_ok 0x1000 5 WRITE (Debugger_new 100)))))"
    by (simp add: ex_arm)
  have h3: "programmed_length AARCH64 0
     (PTRACE_SETREGSET 100 NT_ARM_HW_WATCH [\<lparr>addr = 0x1000, ctrl = 0x1FF5\<rparr>]) = Some 0xff"
    by (simp add: ctrl_len_def)
  from set_watchpoint_out_of_range_size [OF h1 h2 h3] h1 h2 h3 show ?thesis
    by simp
qed

subsection \<open>Capacity of the watchpoint table\<close>

text \<open>
  Claim C1, amended. The Linux watchpoint table has one slot (\<open>MAX_WATCHPOINTS = 1\<close>),
  not four. \<^verbatim>\<open>find_free_watchpoint\<close> finds no slot exactly when all \<open>MAX_WATCHPOINTS\<close>
  slots are in use, it returns the lowest free index otherwise, and \<^verbatim>\<open>set_watchpoint\<close>
  on a full table fails with -1 and leaves the debugger unchanged.
\<close>

theorem find_free_watchpoint_capacity:
  "MAX_WATCHPOINTS = 1 \<and>
   ((find_free_watchpoint d = -1) = (\<forall>i<MAX_WATCHPOINTS. watchpoint_used d ! i)) \<and>
   (\<forall>i<MAX_WATCHPOINTS. \<not> watchpoint_used d ! i \<and> (\<forall>j<i. watchpoint_used d ! j)
       \<longrightarrow> find_free_watchpoint d = int i) \<and>
   ((\<forall>i<MAX_WATCHPOINTS. watchpoint_used d ! i)
       \<longrightarrow> set_watchpoint_internal a os address sz wtype d = (-1, d))"
proof -
  have none: "(find_free_watchpoint d = -1) = (\<forall>i<MAX_WATCHPOINTS. watchpoint_used d ! i)"
    unfolding find_free_watchpoint_def first_index_none_iff by simp
  have least: "find_free_watchpoint d = int i"
    if "i < MAX_WATCHPOINTS" "\<not> watchpoint_used d ! i" "\<forall>j<i. watchpoint_used d ! j" for i
    unfolding find_free_watchpoint_def using that by (intro first_index_least) auto
  have full: "set_watchpoint_internal a os address sz wtype d = (-1, d)"
    if "\<forall>i<MAX_WATCHPOINTS. watchpoint_used d ! i"
    using that none by (simp add: set_watchpoint_internal_def)
  show ?thesis
    using none least full by (simp add: MAX_WATCHPOINTS_def)
qed

lemma dbg_watch_full_used: "watchpoint_used dbg_watch_full = [True]"
  by (simp add: dbg_watch_full_def set_watchpoint_internal_def stop_all_threads_def sys_def
      os_ok_def ok_answer_def threads_to_resume_def Let_def x86_dr_offset_def)

lemma dbg_watch_full_ok:
  "fst (set_watchpoint_internal X86_64 os_ok 0x1000 4 WRITE (Debugger_new 100)) = 0"
  apply (simp add: set_watchpoint_internal_def)
  apply (simp add: stop_all_threads_def)
  apply (simp add: sys_def os_ok_def ok_answer_def threads_to_resume_def Let_def x86_dr_offset_def)
  done

text \<open>
  Claim C1 as stated fails: after one successful \<^verbatim>\<open>set_watchpoint\<close> one watchpoint is
  in use, fewer than four, and the next \<^verbatim>\<open>set_watchpoint\<close> finds no free slot.
\<close>

theorem watchpoint_capacity_counterexample:
  "fst (set_watchpoint_internal X86_64 os_ok 0x1000 4 WRITE (Debugger_new 100)) = 0 \<and>
   length (filter id (watchpoint_used dbg_watch_full)) = 1 \<and>
   length (filter id (watchpoint_used dbg_watch_full)) < 4 \<and>
   find_free_watchpoint dbg_watch_full = -1 \<and>
   set_watchpoint_internal X86_64 os_ok 0x2000 4 WRITE dbg_watch_full = (-1, dbg_watch_full)"
proof -
  have f: "find_free_watchpoint dbg_watch_full = -1"
    by (simp add: dbg_watch_full_used find_free_watchpoint_def MAX_WATCHPOINTS_def)
  then have "set_watchpoint_internal X86_64 os_ok 0x2000 4 WRITE dbg_watch_full = (-1, dbg_watch_full)"
    by (simp add: set_watchpoint_internal_def)
  with f show ?thesis
    by (simp add: dbg_watch_full_ok dbg_watch_full_used)
qed

theorem find_free_watchpoint_capacity_witness:
  "(0::nat) < MAX_WATCHPOINTS \<and> \<not> watchpoint_used (Debugger_new 100) ! 0 \<and>
   find_free_watchpoint (Debugger_new 100) = 0 \<and>
   watchpoint_used dbg_watch_full ! 0 \<and>
   find_free_watchpoint dbg_watch_full = -1 \<and>
   set_watchpoint_internal AARCH64 os_ok 0x2000 4 WRITE dbg_watch_full = (-1, dbg_watch_full)"
  using find_free_watchpoint_capacity [where d = "Debugger_new 100"]
    find_free_watchpoint_capacity [where d = dbg_watch_full and a = AARCH64 and os = os_ok
      and address = "0x2000" and sz = 4 and wtype = WRITE]
  by (simp add: dbg_watch_full_used MAX_WATCHPOINTS_def)

subsection \<open>Register round trip\<close>




lemma dbg_attached_sel [simp]:
  "effects dbg_attached = []" "attached_threads dbg_attached = [100]"
  by (simp_all add: dbg_attached_def)

lemma os_kept_ok [simp]: "a_ok (os_kept n e)"
  by (simp add: os_kept_def ok_answer_def)




subsection \<open>Exit code of the spawned child\<close>

text \<open>
  Claim C8 at a failing input. The child of \<^verbatim>\<open>spawn_process\<close> and of
  \<^verbatim>\<open>spawn_process_with_pty\<close> whose \<^verbatim>\<open>execvp\<close> fails exits with code 1, not 127; the
  sibling spawn of \<^verbatim>\<open>process_api.cpp\<close> exits with 127 in the same situation.
\<close>

theorem spawn_child_exec_failure_exit_code:
  "fst (spawn_process_internal X86_64 os_exec_fails rq_spawn_missing (Debugger_new 0)) = Exited 1 \<and>
   fst (spawn_process_with_pty_internal X86_64 os_exec_fails rq_spawn_missing (Debugger_new 0)) = Exited 1 \<and>
   effects (snd (snd (spawn_process_internal X86_64 os_exec_fails rq_spawn_missing (Debugger_new 0)))) =
     [FORK, PTRACE_TRACEME, EXECVP ''/nonexistent'' [''/nonexistent''], EXIT 1] \<and>
   fst (process_api_spawn_process_internal os_exec_fails ''/nonexistent'' [''/nonexistent''] None True
          (Debugger_new 0)) = Exited 127"
  by (simp add: spawn_process_internal_def spawn_process_with_pty_internal_def spawn_child_def
      process_api_spawn_process_internal_def sys_def os_exec_fails_def ok_answer_def
      rq_spawn_missing_def new_DebugRequest_def Let_def)

subsection \<open>Two software breakpoints at one address\<close>

lemma set_software_breakpoint_success:
  assumes "fst (set_software_breakpoint_internal a os address hit_count d) = 0"
  shows "\<exists>j<MAX_SOFTWARE_BREAKPOINTS.
           \<not> software_breakpoint_used d ! j \<and>
           software_breakpoint_used (snd (set_software_breakpoint_internal a os address hit_count d)) =
             (software_breakpoint_used d)[j := True] \<and>
           software_breakpoint_addresses (snd (set_software_breakpoint_internal a os address hit_count d)) =
             (software_breakpoint_addresses d)[j := address]"
proof -
  define index where
    "index = first_index (\<lambda>i. \<not> software_breakpoint_used d ! i) 0 MAX_SOFTWARE_BREAKPOINTS"
  have found: "index \<noteq> -1"
    using assms by (auto simp: set_software_breakpoint_internal_def index_def [symmetric])
  from first_index_sat [OF first_index_nat, of "\<lambda>i. \<not> software_breakpoint_used d ! i" 0
      MAX_SOFTWARE_BREAKPOINTS] found
  have j: "nat index < MAX_SOFTWARE_BREAKPOINTS" "\<not> software_breakpoint_used d ! nat index"
    by (simp_all add: index_def)
  have "software_breakpoint_used (snd (set_software_breakpoint_internal a os address hit_count d)) =
             (software_breakpoint_used d)[nat index := True] \<and>
        software_breakpoint_addresses (snd (set_software_breakpoint_internal a os address hit_count d)) =
             (software_breakpoint_addresses d)[nat index := address]"
    using assms found
    by (simp add: set_software_breakpoint_internal_def index_def [symmetric] Let_def split_beta
        split: if_splits)
  with j show ?thesis by blast
qed

lemma MAX_SOFTWARE_BREAKPOINTS_pos [simp]:
  "0 < MAX_SOFTWARE_BREAKPOINTS" "Suc 0 < MAX_SOFTWARE_BREAKPOINTS"
  by (simp_all add: MAX_SOFTWARE_BREAKPOINTS_def)

lemma dbg_sw_set_fields:
  "software_breakpoint_used dbg_sw_set = (replicate MAX_SOFTWARE_BREAKPOINTS False)[0 := True]"
  "software_breakpoint_addresses dbg_sw_set = (replicate MAX_SOFTWARE_BREAKPOINTS 0)[0 := 0x4000]"
  "target_pid dbg_sw_set = 100"
  "thread_states dbg_sw_set = []"
  "length (software_breakpoint_original_bytes dbg_sw_set) = MAX_SOFTWARE_BREAKPOINTS * 4"
proof -
  have f: "first_index (\<lambda>i. \<not> software_breakpoint_used (Debugger_new 100) ! i) 0
             MAX_SOFTWARE_BREAKPOINTS = 0"
    using first_index_here [of MAX_SOFTWARE_BREAKPOINTS
        "\<lambda>i. \<not> software_breakpoint_used (Debugger_new 100) ! i" 0]
    by simp
  have e: "set_software_breakpoint_internal X86_64 os_nop 0x4000 0 (Debugger_new 100) =
             (0, snd (set_software_breakpoint_internal X86_64 os_nop 0x4000 0 (Debugger_new 100)))"
    unfolding set_software_breakpoint_internal_def f
    by (simp add: stop_all_threads_def sys_def ok_answer_def threads_to_resume_def Let_def)
  show "software_breakpoint_used dbg_sw_set = (replicate MAX_SOFTWARE_BREAKPOINTS False)[0 := True]"
    "software_breakpoint_addresses dbg_sw_set = (replicate MAX_SOFTWARE_BREAKPOINTS 0)[0 := 0x4000]"
    "target_pid dbg_sw_set = 100"
    "thread_states dbg_sw_set = []"
    "length (software_breakpoint_original_bytes dbg_sw_set) = MAX_SOFTWARE_BREAKPOINTS * 4"
    unfolding dbg_sw_set_def set_software_breakpoint_internal_def f
    by (simp_all add: stop_all_threads_def sys_def ok_answer_def threads_to_resume_def Let_def)
qed

lemma dbg_sw_set_free:
  "first_index (\<lambda>i. \<not> software_breakpoint_used dbg_sw_set ! i) 0 MAX_SOFTWARE_BREAKPOINTS = 1"
  using first_index_least [of 0 1 MAX_SOFTWARE_BREAKPOINTS
      "\<lambda>i. \<not> software_breakpoint_used dbg_sw_set ! i"]
  by (simp add: dbg_sw_set_fields)

lemma dbg_sw_set_again:
  "fst (set_software_breakpoint_internal X86_64 os_int3 0x4000 0 dbg_sw_set) = 0"
  "software_breakpoint_original_bytes
     (snd (set_software_breakpoint_internal X86_64 os_int3 0x4000 0 dbg_sw_set)) ! 4 = 0xCC"
  unfolding set_software_breakpoint_internal_def dbg_sw_set_free
  by (simp_all add: stop_all_threads_def sys_def ok_answer_def threads_to_resume_def Let_def
      dbg_sw_set_fields store_bytes_nth bp_size_def nth_append word_bytes_def
      MAX_SOFTWARE_BREAKPOINTS_def)

text \<open>
  Claim C3 does not hold of the code: \<^verbatim>\<open>set_software_breakpoint_internal\<close> takes the first
  free slot without looking for the address in the table. Whenever it succeeds at an
  address that an entry in use already has, the table afterwards holds two entries in use
  with that address.
\<close>

theorem software_breakpoint_duplicate_address:
  assumes ok: "fst (set_software_breakpoint_internal a os address hit_count d) = 0"
    and i: "i < MAX_SOFTWARE_BREAKPOINTS" "software_breakpoint_used d ! i"
      "software_breakpoint_addresses d ! i = address"
    and len: "length (software_breakpoint_used d) = MAX_SOFTWARE_BREAKPOINTS"
      "length (software_breakpoint_addresses d) = MAX_SOFTWARE_BREAKPOINTS"
  shows "\<not> sw_breakpoint_invariant (snd (set_software_breakpoint_internal a os address hit_count d))"
proof -
  let ?d' = "snd (set_software_breakpoint_internal a os address hit_count d)"
  from set_software_breakpoint_success [OF ok] obtain j where
    j: "j < MAX_SOFTWARE_BREAKPOINTS" "\<not> software_breakpoint_used d ! j"
    and u: "software_breakpoint_used ?d' = (software_breakpoint_used d)[j := True]"
    and ad: "software_breakpoint_addresses ?d' = (software_breakpoint_addresses d)[j := address]"
    by blast
  from i(2) j(2) have ne: "i \<noteq> j" by auto
  have "software_breakpoint_used ?d' ! i" "software_breakpoint_used ?d' ! j"
    "software_breakpoint_addresses ?d' ! i = software_breakpoint_addresses ?d' ! j"
    using i j len ne by (simp_all add: u ad)
  with ne i(1) j(1) show ?thesis
    unfolding sw_breakpoint_invariant_def by blast
qed

text \<open>
  Claim C3, the failing input: with a software breakpoint installed at \<open>0x4000\<close> in slot
  0, a second software \<^verbatim>\<open>set_breakpoint\<close> at \<open>0x4000\<close> succeeds, the table then
  holds the address twice, and the bytes saved for the second entry are the trap
  instruction \<open>0xCC\<close> that the first one wrote, not the instruction of the target.
\<close>

theorem software_breakpoint_duplicate_address_witness:
  "fst (set_software_breakpoint_internal X86_64 os_int3 0x4000 0 dbg_sw_set) = 0 \<and>
   (0 :: nat) < MAX_SOFTWARE_BREAKPOINTS \<and>
   software_breakpoint_used dbg_sw_set ! 0 \<and>
   software_breakpoint_addresses dbg_sw_set ! 0 = 0x4000 \<and>
   length (software_breakpoint_used dbg_sw_set) = MAX_SOFTWARE_BREAKPOINTS \<and>
   length (software_breakpoint_addresses dbg_sw_set) = MAX_SOFTWARE_BREAKPOINTS \<and>
   \<not> sw_breakpoint_invariant
       (snd (set_software_breakpoint_internal X86_64 os_int3 0x4000 0 dbg_sw_set)) \<and>
   software_breakpoint_original_bytes
     (snd (set_software_breakpoint_internal X86_64 os_int3 0x4000 0 dbg_sw_set)) ! 4 = 0xCC"
proof -
  have h: "fst (set_software_breakpoint_internal X86_64 os_int3 0x4000 0 dbg_sw_set) = 0"
    "(0 :: nat) < MAX_SOFTWARE_BREAKPOINTS"
    "software_breakpoint_used dbg_sw_set ! 0"
    "software_breakpoint_addresses dbg_sw_set ! 0 = 0x4000"
    "length (software_breakpoint_used dbg_sw_set) = MAX_SOFTWARE_BREAKPOINTS"
    "length (software_breakpoint_addresses dbg_sw_set) = MAX_SOFTWARE_BREAKPOINTS"
    by (simp_all add: dbg_sw_set_again dbg_sw_set_fields)
  from software_breakpoint_duplicate_address [OF h] h dbg_sw_set_again(2)
  show ?thesis by simp
qed

subsection \<open>Reading a partially readable region\<close>

lemma and7_mod: "unat ((x :: u64) AND 7) = unat x mod 8"
proof -
  have "(7 :: u64) = mask 3" by (simp add: mask_eq_exp_minus_1)
  then have "x AND 7 = take_bit 3 x" by (simp add: take_bit_eq_mask)
  then have "unat (x AND 7) = unat (take_bit 3 x)" by simp
  also have "\<dots> = take_bit 3 (unat x)" by (rule unsigned_take_bit_eq)
  also have "\<dots> = unat x mod 8" by (simp add: take_bit_eq_mod)
  finally show ?thesis .
qed

lemma same_word_offset:
  assumes "j < 8 - unat ((x :: u64) AND 7)"
  shows "unat ((x + of_nat j) AND 7) = unat (x AND 7) + j"
proof -
  have "unat (x + of_nat j) = (unat x + j) mod 2 ^ 64"
    using assms by (simp add: unat_word_ariths unat_of_nat mod_add_right_eq)
  then have "unat (x + of_nat j) mod 8 = (unat x + j) mod 8"
    by (simp add: mod_mod_cancel)
  also have "\<dots> = (unat x mod 8 + j) mod 8" by (simp add: mod_add_left_eq)
  also have "\<dots> = unat x mod 8 + j" using assms by (simp add: and7_mod)
  finally show ?thesis by (simp add: and7_mod)
qed

lemma same_word_aligned:
  assumes "j < 8 - unat ((x :: u64) AND 7)"
  shows "(x + of_nat j) AND NOT 7 = x AND NOT 7"
proof -
  have e: "\<And>y :: u64. y AND NOT 7 = y - (y AND 7)"
    using offset_and by (simp add: algebra_simps)
  have "unat ((x AND 7) + of_nat j) = (unat (x AND 7) + j) mod 2 ^ 64"
    using assms by (simp add: unat_word_ariths unat_of_nat mod_add_right_eq)
  also have "\<dots> = unat (x AND 7) + j" using assms by simp
  finally have "unat ((x + of_nat j) AND 7) = unat ((x AND 7) + of_nat j)"
    using same_word_offset [OF assms] by simp
  then have "(x + of_nat j) AND 7 = (x AND 7) + of_nat j"
    by (simp only: word_unat_eq_iff)
  then show ?thesis unfolding e by simp
qed

lemma same_word:
  assumes "j < 8 - unat ((x :: u64) - (x AND NOT 7))"
  shows "word_readable peek (x + of_nat j) = a_ok (peek (x AND NOT 7))"
    and "target_byte peek (x + of_nat j) =
           word_bytes (a_word (peek (x AND NOT 7))) ! (unat (x - (x AND NOT 7)) + j)"
proof -
  from assms have j: "j < 8 - unat (x AND 7)" unfolding offset_and .
  show "word_readable peek (x + of_nat j) = a_ok (peek (x AND NOT 7))"
    unfolding word_readable_def same_word_aligned [OF j] ..
  have "target_byte peek (x + of_nat j) =
          word_bytes (a_word (peek ((x + of_nat j) AND NOT 7))) ! unat ((x + of_nat j) AND 7)"
    by (simp only: target_byte_def offset_and)
  then show "target_byte peek (x + of_nat j) =
           word_bytes (a_word (peek (x AND NOT 7))) ! (unat (x - (x AND NOT 7)) + j)"
    by (simp only: offset_and same_word_aligned [OF j] same_word_offset [OF j])
qed

lemma length_word_bytes [simp]: "length (word_bytes w) = 8"
  by (simp add: word_bytes_def)

lemma read_loop_spec:
  "read_loop os t address sz br cf buffer d = (n, buffer', d') \<Longrightarrow>
   \<forall>k x. os k (PTRACE_PEEKDATA t x) = peek x \<Longrightarrow>
   br \<le> sz \<Longrightarrow> sz \<le> length buffer \<Longrightarrow>
     br \<le> n \<and> n \<le> sz \<and> length buffer' = length buffer \<and>
     (\<forall>i<length buffer.
        buffer' ! i =
          (if br \<le> i \<and> i < n \<and> word_readable peek (address + of_nat i)
           then target_byte peek (address + of_nat i) else buffer ! i))"
proof (induction os t address sz br cf buffer d arbitrary: n buffer' d' rule: read_loop.induct)
  case (1 os t address sz br cf buffer d)
  define x where "x = address + of_nat br"
  define al where "al = x AND NOT 7"
  define off where "off = unat (x - al)"
  define r where "r = peek al"
  define d1 where "d1 = d\<lparr>effects := effects d @ [PTRACE_PEEKDATA t al]\<rparr>"
  have s: "sys os (PTRACE_PEEKDATA t al) d = (r, d1)"
    using "1.prems"(2) by (simp add: sys_def r_def d1_def)
  have off8: "off < 8" unfolding off_def al_def by (rule offset_less_8)
  have word: "\<And>j. j < 8 - off \<Longrightarrow>
                word_readable peek (address + of_nat (br + j)) = a_ok r \<and>
                target_byte peek (address + of_nat (br + j)) = word_bytes (a_word r) ! (off + j)"
    using same_word [of _ x peek] unfolding off_def al_def r_def x_def
    by (simp add: add.assoc)
  have al': "al = (address + of_nat br) AND NOT 7" by (simp add: al_def x_def)
  have off': "off = unat (address + of_nat br - al)" by (simp add: off_def x_def)
  have unfold: "read_loop os t address sz br cf buffer d =
     (if br < sz \<and> cf < 3 then
        (if \<not> a_ok r then
           (if a_errno r = EIO \<or> a_errno r = EFAULT then
              (if br + (8 - off) \<ge> sz then (br, buffer, d1)
               else read_loop os t address sz (br + (8 - off)) (cf + 1) buffer d1)
            else if a_errno r = ESRCH then (br, buffer, d1)
            else read_loop os t address sz (br + 1) (cf + 1) buffer d1)
         else read_loop os t address sz (br + min (sz - br) (8 - off)) 0
                (store_bytes br (take (min (sz - br) (8 - off)) (drop off (word_bytes (a_word r))))
                   buffer) d1)
      else (br, buffer, d))"
    by (subst read_loop.simps) (simp only: Let_def al' [symmetric] off' [symmetric] s prod.case)
  show ?case
  proof (cases "br < sz \<and> cf < 3")
    case False
    with "1.prems" unfold show ?thesis by auto
  next
    case run: True
    show ?thesis
    proof (cases "a_ok r")
      case ok: True
      define btc where "btc = min (sz - br) (8 - off)"
      define buffer1 where
        "buffer1 = store_bytes br (take btc (drop off (word_bytes (a_word r)))) buffer"
      have btc: "0 < btc" "br + btc \<le> sz" "btc \<le> 8 - off"
        using run off8 by (auto simp: btc_def)
      have call: "read_loop os t address sz (br + btc) 0 buffer1 d1 = (n, buffer', d')"
        using "1.prems"(1) unfold run ok by (simp add: btc_def buffer1_def)
      have IH: "br + btc \<le> n \<and> n \<le> sz \<and> length buffer' = length buffer1 \<and>
                (\<forall>i<length buffer1.
                   buffer' ! i =
                     (if br + btc \<le> i \<and> i < n \<and> word_readable peek (address + of_nat i)
                      then target_byte peek (address + of_nat i) else buffer1 ! i))"
        unfolding buffer1_def
        by (rule "1.IH"(3) [OF run al' off' refl s [symmetric] _ btc_def])
          (use ok call "1.prems" btc in \<open>simp_all add: buffer1_def\<close>)
      have len1: "length buffer1 = length buffer" by (simp add: buffer1_def)
      have copied: "buffer1 ! i =
                      (if br \<le> i \<and> i < br + btc then word_bytes (a_word r) ! (off + (i - br))
                       else buffer ! i)" if "i < length buffer" for i
      proof -
        have l: "length (take btc (drop off (word_bytes (a_word r)))) = btc"
          using btc off8 by simp
        have t: "take btc (drop off (word_bytes (a_word r))) ! (i - br) =
                   word_bytes (a_word r) ! (off + (i - br))" if "i - br < btc"
          using that off8 by simp
        show ?thesis
          unfolding buffer1_def store_bytes_nth [OF that] l
          using t by auto
      qed
      have inword: "word_readable peek (address + of_nat i) \<and>
                    target_byte peek (address + of_nat i) = word_bytes (a_word r) ! (off + (i - br))"
        if "br \<le> i" "i < br + btc" for i
        using word [of "i - br"] that btc ok by simp
      show ?thesis
      proof (intro conjI allI impI)
        show "br \<le> n" "n \<le> sz" "length buffer' = length buffer"
          using IH len1 by auto
        fix i assume i: "i < length buffer"
        from IH i len1 have b: "buffer' ! i =
              (if br + btc \<le> i \<and> i < n \<and> word_readable peek (address + of_nat i)
               then target_byte peek (address + of_nat i) else buffer1 ! i)" by simp
        show "buffer' ! i =
                (if br \<le> i \<and> i < n \<and> word_readable peek (address + of_nat i)
                 then target_byte peek (address + of_nat i) else buffer ! i)"
        proof (cases "br \<le> i \<and> i < br + btc")
          case True
          with b copied [OF i] inword [of i] IH show ?thesis by simp
        next
          case False
          with b copied [OF i] show ?thesis by auto
        qed
      qed
    next
      case bad: False
      have unreadable: "\<not> word_readable peek (address + of_nat i)"
        if "br \<le> i" "i < br + (8 - off)" for i
        using word [of "i - br"] that bad by simp
      consider
        (stop) "(n, buffer', d') = (br, buffer, d1)"
        | (skip) "a_errno r = EIO \<or> a_errno r = EFAULT" "\<not> br + (8 - off) \<ge> sz"
            "read_loop os t address sz (br + (8 - off)) (cf + 1) buffer d1 = (n, buffer', d')"
        | (other) "\<not> (a_errno r = EIO \<or> a_errno r = EFAULT)" "a_errno r \<noteq> ESRCH"
            "read_loop os t address sz (br + 1) (cf + 1) buffer d1 = (n, buffer', d')"
        using "1.prems"(1) unfold run bad by (auto split: if_splits)
      then show ?thesis
      proof cases
        case stop
        with "1.prems" show ?thesis by auto
      next
        case skip
        have IH: "br + (8 - off) \<le> n \<and> n \<le> sz \<and> length buffer' = length buffer \<and>
                (\<forall>i<length buffer.
                   buffer' ! i =
                     (if br + (8 - off) \<le> i \<and> i < n \<and> word_readable peek (address + of_nat i)
                      then target_byte peek (address + of_nat i) else buffer ! i))"
          by (rule "1.IH"(1) [OF run al' off' refl s [symmetric] bad skip(1) refl])
            (use skip "1.prems" in simp_all)
        show ?thesis
        proof (intro conjI allI impI)
          show "br \<le> n" "n \<le> sz" "length buffer' = length buffer"
            using IH by auto
          fix i assume i: "i < length buffer"
          show "buffer' ! i =
                  (if br \<le> i \<and> i < n \<and> word_readable peek (address + of_nat i)
                   then target_byte peek (address + of_nat i) else buffer ! i)"
            using IH i unreadable [of i] by (cases "br \<le> i \<and> i < br + (8 - off)") auto
        qed
      next
        case other
        have IH: "br + 1 \<le> n \<and> n \<le> sz \<and> length buffer' = length buffer \<and>
                (\<forall>i<length buffer.
                   buffer' ! i =
                     (if br + 1 \<le> i \<and> i < n \<and> word_readable peek (address + of_nat i)
                      then target_byte peek (address + of_nat i) else buffer ! i))"
          by (rule "1.IH"(2) [OF run al' off' refl s [symmetric] bad other(1) other(2)])
            (use other run "1.prems" in simp_all)
        show ?thesis
        proof (intro conjI allI impI)
          show "br \<le> n" "n \<le> sz" "length buffer' = length buffer"
            using IH by auto
          fix i assume i: "i < length buffer"
          show "buffer' ! i =
                  (if br \<le> i \<and> i < n \<and> word_readable peek (address + of_nat i)
                   then target_byte peek (address + of_nat i) else buffer ! i)"
            using IH i unreadable [of i] off8 by (cases "i = br") auto
        qed
      qed
    qed
  qed
qed

lemma aligned_after_skip: "((x :: u64) + of_nat (8 - unat (x AND 7))) AND 7 = 0"
proof -
  have gen: "unat (x + of_nat j) = (unat x + j) mod 2 ^ 64" for j
    by (simp add: unat_word_ariths unat_of_nat mod_add_right_eq)
  have "unat (x + of_nat (8 - unat x mod 8)) mod 8 = (unat x + (8 - unat x mod 8)) mod 8"
    unfolding gen by (simp add: mod_mod_cancel)
  also have "\<dots> = 0" by presburger
  finally have "unat ((x + of_nat (8 - unat (x AND 7))) AND 7) = 0"
    unfolding and7_mod .
  then show ?thesis by (simp only: unat_eq_0)
qed

lemma word_of_byte:
  assumes "j < 8 - unat ((address + of_nat br :: u64) AND 7)"
  shows "word_readable peek (address + of_nat (br + j)) = word_readable peek (address + of_nat br)"
proof -
  have "word_readable peek ((address + of_nat br) + of_nat j) =
          a_ok (peek ((address + of_nat br) AND NOT 7))"
    by (rule same_word(1)) (use assms in \<open>simp only: offset_and\<close>)
  then show ?thesis by (simp add: word_readable_def add.assoc)
qed

lemma read_loop_count_step:
  assumes mem: "\<forall>k x. os k (PTRACE_PEEKDATA t x) = peek x"
    and errs: "\<forall>x. \<not> a_ok (peek x) \<longrightarrow> a_errno (peek x) = EIO \<or> a_errno (peek x) = EFAULT"
  shows "\<exists>buffer1 d1.
     fst (read_loop os t address sz br cf buffer d) =
       (if br < sz \<and> cf < 3 then
          (if word_readable peek (address + of_nat br) then
             fst (read_loop os t address sz
                    (br + min (sz - br) (8 - unat ((address + of_nat br) AND 7))) 0 buffer1 d1)
           else if sz \<le> br + (8 - unat ((address + of_nat br) AND 7)) then br
           else fst (read_loop os t address sz (br + (8 - unat ((address + of_nat br) AND 7)))
                       (cf + 1) buffer d1))
        else br)"
proof -
  define x where "x = address + of_nat br"
  define al where "al = x AND NOT 7"
  define off where "off = unat (x - al)"
  define r where "r = peek al"
  define d1 where "d1 = d\<lparr>effects := effects d @ [PTRACE_PEEKDATA t al]\<rparr>"
  have s: "sys os (PTRACE_PEEKDATA t al) d = (r, d1)"
    using mem by (simp add: sys_def r_def d1_def)
  have al': "al = (address + of_nat br) AND NOT 7" by (simp add: al_def x_def)
  have off': "off = unat (address + of_nat br - al)" by (simp add: off_def x_def)
  have off7: "off = unat ((address + of_nat br) AND 7)"
    unfolding off_def al_def x_def by (simp only: offset_and)
  have rd: "word_readable peek (address + of_nat br) = a_ok r"
    by (simp add: word_readable_def r_def al_def x_def)
  have e: "\<not> a_ok r \<Longrightarrow> a_errno r = EIO \<or> a_errno r = EFAULT"
    using errs by (simp add: r_def)
  have unfold: "read_loop os t address sz br cf buffer d =
     (if br < sz \<and> cf < 3 then
        (if \<not> a_ok r then
           (if a_errno r = EIO \<or> a_errno r = EFAULT then
              (if br + (8 - off) \<ge> sz then (br, buffer, d1)
               else read_loop os t address sz (br + (8 - off)) (cf + 1) buffer d1)
            else if a_errno r = ESRCH then (br, buffer, d1)
            else read_loop os t address sz (br + 1) (cf + 1) buffer d1)
         else read_loop os t address sz (br + min (sz - br) (8 - off)) 0
                (store_bytes br (take (min (sz - br) (8 - off)) (drop off (word_bytes (a_word r))))
                   buffer) d1)
      else (br, buffer, d))"
    by (subst read_loop.simps) (simp only: Let_def al' [symmetric] off' [symmetric] s prod.case)
  have "fst (read_loop os t address sz br cf buffer d) =
       (if br < sz \<and> cf < 3 then
          (if word_readable peek (address + of_nat br) then
             fst (read_loop os t address sz
                    (br + min (sz - br) (8 - unat ((address + of_nat br) AND 7))) 0
                    (store_bytes br (take (min (sz - br) (8 - off)) (drop off (word_bytes (a_word r))))
                       buffer) d1)
           else if sz \<le> br + (8 - unat ((address + of_nat br) AND 7)) then br
           else fst (read_loop os t address sz (br + (8 - unat ((address + of_nat br) AND 7)))
                       (cf + 1) buffer d1))
        else br)"
    unfolding unfold rd off7 [symmetric] using e by auto
  then show ?thesis by blast
qed

lemma read_loop_no_abandon:
  assumes mem: "\<forall>k x. os k (PTRACE_PEEKDATA t x) = peek x"
    and errs: "\<forall>x. \<not> a_ok (peek x) \<longrightarrow> a_errno (peek x) = EIO \<or> a_errno (peek x) = EFAULT"
    and no3: "\<forall>i. i + 16 < sz \<longrightarrow> \<not> three_failures peek address i"
  shows "br \<le> sz \<Longrightarrow> cf < 3 \<Longrightarrow>
         (1 \<le> cf \<longrightarrow> (address + of_nat br) AND 7 = 0 \<and> 1 \<le> br \<and>
                      \<not> word_readable peek (address + of_nat (br - 1))) \<Longrightarrow>
         (2 \<le> cf \<longrightarrow> 9 \<le> br \<and> \<not> word_readable peek (address + of_nat (br - 9))) \<Longrightarrow>
         sz \<le> fst (read_loop os t address sz br cf buffer d) + 8 \<and>
         fst (read_loop os t address sz br cf buffer d) \<le> sz \<and>
         (0 < sz \<and> word_readable peek (address + of_nat (sz - 1)) \<longrightarrow>
            fst (read_loop os t address sz br cf buffer d) = sz)"
proof (induction "sz - br" arbitrary: br cf buffer d rule: less_induct)
  case less
  define off where "off = unat ((address + of_nat br) AND 7)"
  have off8: "off < 8"
    using offset_less_8 [of "address + of_nat br"] unfolding off_def offset_and .
  from read_loop_count_step [OF mem errs, of address sz br cf buffer d]
  obtain buffer1 d1 where step:
    "fst (read_loop os t address sz br cf buffer d) =
       (if br < sz \<and> cf < 3 then
          (if word_readable peek (address + of_nat br) then
             fst (read_loop os t address sz (br + min (sz - br) (8 - off)) 0 buffer1 d1)
           else if sz \<le> br + (8 - off) then br
           else fst (read_loop os t address sz (br + (8 - off)) (cf + 1) buffer d1))
        else br)"
    unfolding off_def by blast
  have inword: "word_readable peek (address + of_nat (br + j)) = word_readable peek (address + of_nat br)"
    if "j < 8 - off" for j
    using word_of_byte [of j address br peek] that unfolding off_def by (simp del: of_nat_diff)
  show ?case
  proof (cases "br < sz \<and> cf < 3")
    case False
    with less.prems step show ?thesis by (simp del: of_nat_diff)
  next
    case run: True
    show ?thesis
    proof (cases "word_readable peek (address + of_nat br)")
      case True
      have m: "sz - (br + min (sz - br) (8 - off)) < sz - br"
        using run off8 by arith
      have p1: "br + min (sz - br) (8 - off) \<le> sz"
        using run by arith
      from less.hyps [OF m p1, of 0 buffer1 d1] run
      show ?thesis unfolding step using True by (simp del: of_nat_diff)
    next
      case bad: False
      show ?thesis
      proof (cases "sz \<le> br + (8 - off)")
        case True
        have j: "sz - 1 - br < 8 - off" using run True by arith
        have e: "br + (sz - 1 - br) = sz - 1" using run by arith
        from inword [OF j] have "word_readable peek (address + of_nat (sz - 1)) =
                                   word_readable peek (address + of_nat br)"
          unfolding e .
        with bad have "\<not> word_readable peek (address + of_nat (sz - 1))"
          by blast
        with run True bad show ?thesis unfolding step by (simp del: of_nat_diff)
      next
        case False
        have cf1: "cf \<le> 1"
        proof (rule ccontr)
          assume "\<not> cf \<le> 1"
          with run have cf2: "cf = 2" by (simp del: of_nat_diff)
          with less.prems have al: "(address + of_nat br) AND 7 = 0" and br9: "9 \<le> br"
            and b1: "\<not> word_readable peek (address + of_nat (br - 1))"
            and b9: "\<not> word_readable peek (address + of_nat (br - 9))"
            by (simp_all del: of_nat_diff)
          from al have o: "off = 0" by (simp add: off_def del: of_nat_diff)
          have "(7 :: nat) < 8 - off" using o by simp
          from inword [OF this] bad
          have b7: "\<not> word_readable peek (address + of_nat (br + 7))"
            by blast
          have e8: "br - 9 + 8 = br - 1" "br - 9 + 16 = br + 7"
            using br9 by arith+
          have "three_failures peek address (br - 9)"
            unfolding three_failures_def e8 using b1 b9 b7 by blast
          moreover have "br - 9 + 16 < sz" using False o br9 by (simp del: of_nat_diff)
          ultimately show False using no3 by blast
        qed
        have m: "sz - (br + (8 - off)) < sz - br" using run off8 by arith
        have p1: "br + (8 - off) \<le> sz" using False by (simp del: of_nat_diff)
        have p2: "cf + 1 < 3" using cf1 by (simp del: of_nat_diff)
        have p3: "1 \<le> cf + 1 \<longrightarrow> (address + of_nat (br + (8 - off))) AND 7 = 0 \<and>
                    1 \<le> br + (8 - off) \<and>
                    \<not> word_readable peek (address + of_nat (br + (8 - off) - 1))"
        proof -
          have "(address + of_nat (br + (8 - off))) AND 7 = 0"
            using aligned_after_skip [of "address + of_nat br"]
            by (simp add: off_def add.assoc del: of_nat_diff)
          moreover have "\<not> word_readable peek (address + of_nat (br + (8 - off) - 1))"
          proof -
            have j: "8 - off - 1 < 8 - off" using off8 by arith
            have e: "br + (8 - off - 1) = br + (8 - off) - 1" using off8 by arith
            from inword [OF j] bad show ?thesis unfolding e by blast
          qed
          moreover have "1 \<le> br + (8 - off)" using off8 by arith
          ultimately show ?thesis by blast
        qed
        have p4: "2 \<le> cf + 1 \<longrightarrow> 9 \<le> br + (8 - off) \<and>
                    \<not> word_readable peek (address + of_nat (br + (8 - off) - 9))"
        proof (intro impI)
          assume "2 \<le> cf + 1"
          with less.prems have al: "(address + of_nat br) AND 7 = 0" and br1: "1 \<le> br"
            and b1: "\<not> word_readable peek (address + of_nat (br - 1))"
            by (simp_all del: of_nat_diff)
          from al have o: "off = 0" by (simp add: off_def del: of_nat_diff)
          have e: "br + (8 - off) - 9 = br - 1" using br1 o by arith
          have "9 \<le> br + (8 - off)" using br1 o by arith
          with b1 show "9 \<le> br + (8 - off) \<and>
                    \<not> word_readable peek (address + of_nat (br + (8 - off) - 9))"
            unfolding e by blast
        qed
        from less.hyps [OF m p1 p2 p3 p4, of buffer d1] run bad False
        show ?thesis unfolding step by (simp del: of_nat_diff)
      qed
    qed
  qed
qed

lemma read_loop_abandon:
  assumes mem: "\<forall>k x. os k (PTRACE_PEEKDATA t x) = peek x"
    and errs: "\<forall>x. \<not> a_ok (peek x) \<longrightarrow> a_errno (peek x) = EIO \<or> a_errno (peek x) = EFAULT"
    and i: "i + 16 < sz"
    and three: "three_failures peek address i"
  shows "br \<le> i \<or>
         (1 \<le> cf \<and> (address + of_nat br) AND 7 = 0 \<and> br \<le> i + 8 \<and> i < br) \<or>
         (2 \<le> cf \<and> (address + of_nat br) AND 7 = 0 \<and> br \<le> i + 16 \<and> i + 8 < br) \<or>
         (3 \<le> cf \<and> br \<le> i + 24) \<Longrightarrow>
         fst (read_loop os t address sz br cf buffer d) \<le> i + 24"
proof (induction "sz - br" arbitrary: br cf buffer d rule: less_induct)
  case less
  define off where "off = unat ((address + of_nat br) AND 7)"
  have off8: "off < 8"
    using offset_less_8 [of "address + of_nat br"] unfolding off_def offset_and .
  from read_loop_count_step [OF mem errs, of address sz br cf buffer d]
  obtain buffer1 d1 where step:
    "fst (read_loop os t address sz br cf buffer d) =
       (if br < sz \<and> cf < 3 then
          (if word_readable peek (address + of_nat br) then
             fst (read_loop os t address sz (br + min (sz - br) (8 - off)) 0 buffer1 d1)
           else if sz \<le> br + (8 - off) then br
           else fst (read_loop os t address sz (br + (8 - off)) (cf + 1) buffer d1))
        else br)"
    unfolding off_def by blast
  have inword: "word_readable peek (address + of_nat (br + j)) = word_readable peek (address + of_nat br)"
    if "j < 8 - off" for j
    using word_of_byte [of j address br peek] that unfolding off_def by (simp del: of_nat_diff)
  have bad: "\<not> word_readable peek (address + of_nat i)"
    "\<not> word_readable peek (address + of_nat (i + 8))"
    "\<not> word_readable peek (address + of_nat (i + 16))"
    using three by (simp_all add: three_failures_def)
  have al_next: "(address + of_nat (br + (8 - off))) AND 7 = 0"
    using aligned_after_skip [of "address + of_nat br"]
    by (simp add: off_def add.assoc del: of_nat_diff)
  show ?case
  proof (cases "br < sz \<and> cf < 3")
    case False
    with less.prems i step show ?thesis by auto
  next
    case run: True
    from less.prems run consider
      (D1) "br \<le> i"
      | (D2) "1 \<le> cf" "(address + of_nat br) AND 7 = 0" "br \<le> i + 8" "i < br"
      | (D3) "2 \<le> cf" "(address + of_nat br) AND 7 = 0" "br \<le> i + 16" "i + 8 < br"
      by auto
    then show ?thesis
    proof cases
      case D1
      show ?thesis
      proof (cases "word_readable peek (address + of_nat br)")
        case True
        have far: "8 - off \<le> i - br"
        proof (rule ccontr)
          assume "\<not> 8 - off \<le> i - br"
          then have j: "i - br < 8 - off" by arith
          have e: "br + (i - br) = i" using D1 by arith
          from inword [OF j] True bad(1) show False unfolding e by blast
        qed
        have m: "sz - (br + min (sz - br) (8 - off)) < sz - br"
          using run off8 by arith
        have "br + min (sz - br) (8 - off) \<le> i" using far D1 i by (simp del: of_nat_diff)
        then have "fst (read_loop os t address sz (br + min (sz - br) (8 - off)) 0 buffer1 d1) \<le> i + 24"
          using less.hyps [OF m, of 0 buffer1 d1] by blast
        with run True show ?thesis unfolding step by (simp del: of_nat_diff)
      next
        case unreadable: False
        show ?thesis
        proof (cases "sz \<le> br + (8 - off)")
          case True
          with run unreadable D1 show ?thesis unfolding step by (simp del: of_nat_diff)
        next
          case False
          have m: "sz - (br + (8 - off)) < sz - br" using run off8 by arith
          have "br + (8 - off) \<le> i \<or>
                (1 \<le> cf + 1 \<and> (address + of_nat (br + (8 - off))) AND 7 = 0 \<and>
                 br + (8 - off) \<le> i + 8 \<and> i < br + (8 - off))"
            using al_next D1 off8 by auto
          then have "fst (read_loop os t address sz (br + (8 - off)) (cf + 1) buffer d1) \<le> i + 24"
            using less.hyps [OF m, of "cf + 1" buffer d1] by blast
          with run unreadable False show ?thesis unfolding step by (simp del: of_nat_diff)
        qed
      qed
    next
      case D2
      from D2(2) have o: "off = 0" by (simp add: off_def del: of_nat_diff)
      have j: "i + 8 - br < 8 - off" using D2 o by arith
      have e: "br + (i + 8 - br) = i + 8" using D2 by arith
      have unreadable: "\<not> word_readable peek (address + of_nat br)"
        using inword [OF j] bad(2) unfolding e by blast
      have nostop: "\<not> sz \<le> br + (8 - off)" using D2 i o by (simp del: of_nat_diff)
      have m: "sz - (br + (8 - off)) < sz - br" using run off8 by arith
      have "2 \<le> cf + 1 \<and> (address + of_nat (br + (8 - off))) AND 7 = 0 \<and>
            br + (8 - off) \<le> i + 16 \<and> i + 8 < br + (8 - off)"
        using al_next D2 o by (simp del: of_nat_diff)
      then have "fst (read_loop os t address sz (br + (8 - off)) (cf + 1) buffer d1) \<le> i + 24"
        using less.hyps [OF m, of "cf + 1" buffer d1] by blast
      with run unreadable nostop show ?thesis unfolding step by (simp del: of_nat_diff)
    next
      case D3
      from D3(2) have o: "off = 0" by (simp add: off_def del: of_nat_diff)
      have j: "i + 16 - br < 8 - off" using D3 o by arith
      have e: "br + (i + 16 - br) = i + 16" using D3 by arith
      have unreadable: "\<not> word_readable peek (address + of_nat br)"
        using inword [OF j] bad(3) unfolding e by blast
      show ?thesis
      proof (cases "sz \<le> br + (8 - off)")
        case True
        with run unreadable D3 show ?thesis unfolding step by (simp del: of_nat_diff)
      next
        case False
        have m: "sz - (br + (8 - off)) < sz - br" using run off8 by arith
        have "3 \<le> cf + 1 \<and> br + (8 - off) \<le> i + 24"
          using D3 o by (simp del: of_nat_diff)
        then have "fst (read_loop os t address sz (br + (8 - off)) (cf + 1) buffer d1) \<le> i + 24"
          using less.hyps [OF m, of "cf + 1" buffer d1] by blast
        with run unreadable False show ?thesis unfolding step by (simp del: of_nat_diff)
      qed
    qed
  qed
qed

lemma read_loop_lower:
  assumes mem: "\<forall>k x. os k (PTRACE_PEEKDATA t x) = peek x"
    and errs: "\<forall>x. \<not> a_ok (peek x) \<longrightarrow> a_errno (peek x) = EIO \<or> a_errno (peek x) = EFAULT"
  shows "br \<le> fst (read_loop os t address sz br cf buffer d)"
proof (induction "sz - br" arbitrary: br cf buffer d rule: less_induct)
  case less
  define off where "off = unat ((address + of_nat br) AND 7)"
  have off8: "off < 8"
    using offset_less_8 [of "address + of_nat br"] unfolding off_def offset_and .
  from read_loop_count_step [OF mem errs, of address sz br cf buffer d]
  obtain buffer1 d1 where step:
    "fst (read_loop os t address sz br cf buffer d) =
       (if br < sz \<and> cf < 3 then
          (if word_readable peek (address + of_nat br) then
             fst (read_loop os t address sz (br + min (sz - br) (8 - off)) 0 buffer1 d1)
           else if sz \<le> br + (8 - off) then br
           else fst (read_loop os t address sz (br + (8 - off)) (cf + 1) buffer d1))
        else br)"
    unfolding off_def by blast
  show ?case
  proof (cases "br < sz \<and> cf < 3")
    case False
    with step show ?thesis by simp
  next
    case run: True
    have m1: "sz - (br + min (sz - br) (8 - off)) < sz - br"
      and m2: "sz - (br + (8 - off)) < sz - br"
      using run off8 by arith+
    from less.hyps [OF m1, of 0 buffer1 d1] less.hyps [OF m2, of "cf + 1" buffer d1] run
    show ?thesis unfolding step by simp
  qed
qed

lemma read_loop_fails:
  assumes mem: "\<forall>k x. os k (PTRACE_PEEKDATA t x) = peek x"
    and errs: "\<forall>x. \<not> a_ok (peek x) \<longrightarrow> a_errno (peek x) = EIO \<or> a_errno (peek x) = EFAULT"
    and zero: "fst (read_loop os t address sz 0 0 buffer d) = 0"
  shows "\<forall>i. i < sz \<longrightarrow> \<not> word_readable peek (address + of_nat i)"
proof (cases "0 < sz")
  case False
  then show ?thesis by simp
next
  case True
  define off where "off = unat ((address + of_nat 0) AND 7)"
  have off8: "off < 8"
    using offset_less_8 [of "address + of_nat 0"] unfolding off_def offset_and .
  from read_loop_count_step [OF mem errs, of address sz 0 0 buffer d]
  obtain buffer1 d1 where step:
    "fst (read_loop os t address sz 0 0 buffer d) =
       (if word_readable peek (address + of_nat 0) then
             fst (read_loop os t address sz (0 + min (sz - 0) (8 - off)) 0 buffer1 d1)
           else if sz \<le> 0 + (8 - off) then 0
           else fst (read_loop os t address sz (0 + (8 - off)) (0 + 1) buffer d1))"
    unfolding off_def using True by auto
  have l1: "0 + min (sz - 0) (8 - off) \<le>
              fst (read_loop os t address sz (0 + min (sz - 0) (8 - off)) 0 buffer1 d1)"
    by (rule read_loop_lower [OF mem errs])
  have l2: "0 + (8 - off) \<le> fst (read_loop os t address sz (0 + (8 - off)) (0 + 1) buffer d1)"
    by (rule read_loop_lower [OF mem errs])
  from zero step l1 l2 True off8
  have bad: "\<not> word_readable peek (address + of_nat 0)" and short: "sz \<le> 8 - off"
    by (auto split: if_splits)
  show ?thesis
  proof (intro allI impI)
    fix i assume "i < sz"
    with short have "i < 8 - unat ((address + of_nat 0) AND 7)" by (simp add: off_def)
    from word_of_byte [OF this, of peek] bad
    show "\<not> word_readable peek (address + of_nat i)"
      unfolding add_0 by blast
  qed
qed

lemma read_memory_count:
  assumes thread: "read_thread_available os d"
  shows "\<exists>t d2. fst (read_memory_internal os address sz buffer d) =
           (if fst (read_loop os t address sz 0 0 buffer d2) > 0
            then int (fst (read_loop os t address sz 0 0 buffer d2)) else -1,
            fst (snd (read_loop os t address sz 0 0 buffer d2)))"
proof -
  obtain found d1 where f: "find_stopped_thread os d = (found, d1)"
    by (cases "find_stopped_thread os d") auto
  obtain st al d2 where s: "stop_all_threads os 0 d1 = ((st, al), d2)"
    by (cases "stop_all_threads os 0 d1") auto
  show ?thesis
  proof (cases "found = 0")
    case False
    then have "fst (read_memory_internal os address sz buffer d) =
           (if fst (read_loop os found address sz 0 0 buffer d1) > 0
            then int (fst (read_loop os found address sz 0 0 buffer d1)) else -1,
            fst (snd (read_loop os found address sz 0 0 buffer d1)))"
      by (simp add: read_memory_internal_def f split_beta Let_def)
    then show ?thesis by blast
  next
    case True
    with thread have "st \<noteq> []" "hd st \<noteq> 0"
      by (simp_all add: read_thread_available_def f s)
    with True have "fst (read_memory_internal os address sz buffer d) =
           (if fst (read_loop os (hd st) address sz 0 0 buffer d2) > 0
            then int (fst (read_loop os (hd st) address sz 0 0 buffer d2)) else -1,
            fst (snd (read_loop os (hd st) address sz 0 0 buffer d2)))"
      by (simp add: read_memory_internal_def f s split_beta Let_def)
    then show ?thesis by blast
  qed
qed

lemma read_memory_bytes:
  assumes mem: "\<forall>k t x. os k (PTRACE_PEEKDATA t x) = peek x"
    and sz: "sz \<le> length buffer"
  shows "case fst (read_memory_internal os address sz buffer d) of
           (n, buffer') \<Rightarrow>
             (n = -1 \<or> 0 < n) \<and> n \<le> int sz \<and> length buffer' = length buffer \<and>
             (\<forall>i<length buffer.
                buffer' ! i =
                  (if int i < n \<and> word_readable peek (address + of_nat i)
                   then target_byte peek (address + of_nat i) else buffer ! i))"
proof -
  define Q where "Q = (\<lambda>(n, buffer').
             (n = -1 \<or> 0 < n) \<and> n \<le> int sz \<and> length buffer' = length buffer \<and>
             (\<forall>i<length buffer.
                buffer' ! i =
                  (if int i < n \<and> word_readable peek (address + of_nat i)
                   then target_byte peek (address + of_nat i) else buffer ! i)))"
  have fail: "Q (-1, buffer)" by (simp add: Q_def)
  have loop: "Q (if br > 0 then int br else -1, buffer')"
    if r: "read_loop os t address sz 0 0 buffer d0 = (br, buffer', d')" for t d0 br buffer' d'
  proof -
    from mem have "\<forall>k x. os k (PTRACE_PEEKDATA t x) = peek x" by simp
    from read_loop_spec [OF r this _ sz] show ?thesis by (auto simp: Q_def)
  qed
  obtain found d1 where f: "find_stopped_thread os d = (found, d1)"
    by (cases "find_stopped_thread os d") auto
  obtain st al d2 where s: "stop_all_threads os 0 d1 = ((st, al), d2)"
    by (cases "stop_all_threads os 0 d1") auto
  have "Q (fst (read_memory_internal os address sz buffer d))"
  proof (cases "found = 0")
    case False
    obtain br buffer' d' where r: "read_loop os found address sz 0 0 buffer d1 = (br, buffer', d')"
      by (cases "read_loop os found address sz 0 0 buffer d1") auto
    from loop [OF r] False show ?thesis
      by (simp add: read_memory_internal_def f r)
  next
    case True
    show ?thesis
    proof (cases "st = [] \<or> hd st = 0")
      case True
      with fail \<open>found = 0\<close> show ?thesis
        by (auto simp: read_memory_internal_def f s)
    next
      case False
      obtain br buffer' d' where r: "read_loop os (hd st) address sz 0 0 buffer d2 = (br, buffer', d')"
        by (cases "read_loop os (hd st) address sz 0 0 buffer d2") auto
      from loop [OF r] False \<open>found = 0\<close> show ?thesis
        by (simp add: read_memory_internal_def f s r)
    qed
  qed
  then show ?thesis by (simp add: Q_def)
qed

text \<open>
  Claim C6, as the code has it. Let the kernel answer every \<^verbatim>\<open>PTRACE_PEEKDATA\<close> of an
  aligned word by \<open>peek\<close>, whatever the time and the thread, and let the buffer hold at
  least \<open>sz\<close> bytes. Then \<^verbatim>\<open>read_memory_internal\<close> returns -1 or a positive count \<open>n\<close> of
  at most \<open>sz\<close>; every byte below the count whose word is readable holds the byte of the
  target, also after a word that faulted; and every other byte of the buffer, the bytes of
  the unreadable words among them, keeps the content the caller passed in: it is not set
  to zero.

  If moreover there is a thread to read with and every word that cannot be read fails
  with \<^verbatim>\<open>EIO\<close> or \<^verbatim>\<open>EFAULT\<close>, then:

  \<^item> the read does not fail outright on a region that is readable in part: it returns -1
    only if no byte of the region can be read;
  \<^item> reading continues after a faulted word and is not abandoned before three failures
    in a row: if no three consecutive words of the region are unreadable, the count
    reaches the last word of the request (\<open>sz \<le> n + 8\<close>), and it is \<open>sz\<close> if the last byte
    is readable (a faulted word at the very end of the request is left out of the count);
  \<^item> the read is abandoned after three failures in a row: if the bytes \<open>i\<close>, \<open>i + 8\<close> and
    \<open>i + 16\<close> lie in unreadable words, the count is at most \<open>i + 24\<close>, so that no byte
    behind the third of these words is read, readable or not.
\<close>

theorem read_memory_partial_region:
  assumes mem: "\<forall>k t x. os k (PTRACE_PEEKDATA t x) = peek x"
    and sz: "sz \<le> length buffer"
  shows "case fst (read_memory_internal os address sz buffer d) of
           (n, buffer') \<Rightarrow>
             (n = -1 \<or> 0 < n) \<and> n \<le> int sz \<and> length buffer' = length buffer \<and>
             (\<forall>i<length buffer.
                buffer' ! i =
                  (if int i < n \<and> word_readable peek (address + of_nat i)
                   then target_byte peek (address + of_nat i) else buffer ! i)) \<and>
             (read_thread_available os d \<and>
              (\<forall>x. \<not> a_ok (peek x) \<longrightarrow> a_errno (peek x) = EIO \<or> a_errno (peek x) = EFAULT) \<longrightarrow>
                (n = -1 \<longrightarrow> (\<forall>i. i < sz \<longrightarrow> \<not> word_readable peek (address + of_nat i))) \<and>
                ((\<forall>i. i + 16 < sz \<longrightarrow> \<not> three_failures peek address i) \<longrightarrow>
                   int sz \<le> max n 0 + 8 \<and>
                   (0 < sz \<and> word_readable peek (address + of_nat (sz - 1)) \<longrightarrow> n = int sz)) \<and>
                (\<forall>i. i + 16 < sz \<and> three_failures peek address i \<longrightarrow> n \<le> int i + 24))"
proof -
  obtain n buffer' where r: "fst (read_memory_internal os address sz buffer d) = (n, buffer')"
    by (cases "fst (read_memory_internal os address sz buffer d)") auto
  from read_memory_bytes [OF mem sz, of address d]
  have bytes: "(n = -1 \<or> 0 < n) \<and> n \<le> int sz \<and> length buffer' = length buffer \<and>
             (\<forall>i<length buffer.
                buffer' ! i =
                  (if int i < n \<and> word_readable peek (address + of_nat i)
                   then target_byte peek (address + of_nat i) else buffer ! i))"
    by (simp add: r)
  have count: "(n = -1 \<longrightarrow> (\<forall>i. i < sz \<longrightarrow> \<not> word_readable peek (address + of_nat i))) \<and>
                ((\<forall>i. i + 16 < sz \<longrightarrow> \<not> three_failures peek address i) \<longrightarrow>
                   int sz \<le> max n 0 + 8 \<and>
                   (0 < sz \<and> word_readable peek (address + of_nat (sz - 1)) \<longrightarrow> n = int sz)) \<and>
                (\<forall>i. i + 16 < sz \<and> three_failures peek address i \<longrightarrow> n \<le> int i + 24)"
    if thread: "read_thread_available os d"
      and errs: "\<forall>x. \<not> a_ok (peek x) \<longrightarrow> a_errno (peek x) = EIO \<or> a_errno (peek x) = EFAULT"
  proof -
    from read_memory_count [OF thread, of address sz buffer] r
    obtain t d2 where n: "n = (if fst (read_loop os t address sz 0 0 buffer d2) > 0
            then int (fst (read_loop os t address sz 0 0 buffer d2)) else -1)"
      by auto
    define c where "c = fst (read_loop os t address sz 0 0 buffer d2)"
    have nc: "n = (if c > 0 then int c else -1)" using n by (simp add: c_def)
    from mem have m: "\<forall>k x. os k (PTRACE_PEEKDATA t x) = peek x" by simp
    have fails: "\<forall>i. i < sz \<longrightarrow> \<not> word_readable peek (address + of_nat i)" if "n = -1"
    proof -
      from that nc have "c = 0" by (simp split: if_splits)
      then show ?thesis
        using read_loop_fails [OF m errs, of address sz buffer d2] by (simp add: c_def)
    qed
    have complete: "int sz \<le> max n 0 + 8 \<and>
                   (0 < sz \<and> word_readable peek (address + of_nat (sz - 1)) \<longrightarrow> n = int sz)"
      if no3: "\<forall>i. i + 16 < sz \<longrightarrow> \<not> three_failures peek address i"
    proof -
      from read_loop_no_abandon [OF m errs no3, of 0 0 buffer d2]
      have "sz \<le> c + 8 \<and> c \<le> sz \<and>
            (0 < sz \<and> word_readable peek (address + of_nat (sz - 1)) \<longrightarrow> c = sz)"
        by (simp add: c_def del: of_nat_diff)
      then show ?thesis unfolding nc by auto
    qed
    have abandoned: "n \<le> int i + 24" if "i + 16 < sz \<and> three_failures peek address i" for i
    proof -
      from that have i: "i + 16 < sz" and three: "three_failures peek address i" by simp_all
      have "c \<le> i + 24"
        unfolding c_def by (rule read_loop_abandon [OF m errs i three]) simp
      then show ?thesis unfolding nc by simp
    qed
    from fails complete abandoned show ?thesis by blast
  qed
  from count have "read_thread_available os d \<and>
              (\<forall>x. \<not> a_ok (peek x) \<longrightarrow> a_errno (peek x) = EIO \<or> a_errno (peek x) = EFAULT) \<longrightarrow>
                (n = -1 \<longrightarrow> (\<forall>i. i < sz \<longrightarrow> \<not> word_readable peek (address + of_nat i))) \<and>
                ((\<forall>i. i + 16 < sz \<longrightarrow> \<not> three_failures peek address i) \<longrightarrow>
                   int sz \<le> max n 0 + 8 \<and>
                   (0 < sz \<and> word_readable peek (address + of_nat (sz - 1)) \<longrightarrow> n = int sz)) \<and>
                (\<forall>i. i + 16 < sz \<and> three_failures peek address i \<longrightarrow> n \<le> int i + 24)"
    by blast
  with bytes show ?thesis unfolding r prod.case by blast
qed

lemma dbg_stopped_sel [simp]:
  "effects dbg_stopped = []" "attached_threads dbg_stopped = [100]" "target_pid dbg_stopped = 100"
  by (simp_all add: dbg_stopped_def)

lemma word_bytes_11 [simp]:
  "word_bytes 0x1111111111111111 = [0x11, 0x11, 0x11, 0x11, 0x11, 0x11, 0x11, 0x11]"
  by (simp add: word_bytes_def upt_conv_Cons)

lemma read_memory_hole:
  "fst (read_memory_internal os_hole 0x1000 16
          [0xAA, 0xAA, 0xAA, 0xAA, 0xAA, 0xAA, 0xAA, 0xAA, 0xAA, 0xAA, 0xAA, 0xAA, 0xAA, 0xAA, 0xAA, 0xAA]
          dbg_stopped) =
     (16, [0xAA, 0xAA, 0xAA, 0xAA, 0xAA, 0xAA, 0xAA, 0xAA, 0x11, 0x11, 0x11, 0x11, 0x11, 0x11, 0x11, 0x11])"
  by (simp add: read_memory_internal_def find_stopped_thread_def sys_def ok_answer_def
      peek_hole_def read_loop.simps Let_def)

text \<open>
  Claim C6 as stated (the bytes of an unreadable word are set to zero) fails: with the
  word at \<open>0x1000\<close> unreadable and a buffer full of \<open>0xAA\<close>, a read of 16 bytes
  returns 16 and the first eight bytes of the buffer are still \<open>0xAA\<close>.
\<close>

theorem read_memory_unreadable_word_counterexample:
  "\<not> word_readable peek_hole 0x1000 \<and>
   fst (read_memory_internal os_hole 0x1000 16
          [0xAA, 0xAA, 0xAA, 0xAA, 0xAA, 0xAA, 0xAA, 0xAA, 0xAA, 0xAA, 0xAA, 0xAA, 0xAA, 0xAA, 0xAA, 0xAA]
          dbg_stopped) =
     (16, [0xAA, 0xAA, 0xAA, 0xAA, 0xAA, 0xAA, 0xAA, 0xAA, 0x11, 0x11, 0x11, 0x11, 0x11, 0x11, 0x11, 0x11])"
  using read_memory_hole by (simp add: word_readable_def peek_hole_def ok_answer_def)

lemma word_bytes_22 [simp]:
  "word_bytes 0x2222222222222222 = [0x22, 0x22, 0x22, 0x22, 0x22, 0x22, 0x22, 0x22]"
  by (simp add: word_bytes_def upt_conv_Cons)

lemma read_memory_gap:
  "fst (fst (read_memory_internal os_gap 0xFF8 48 (replicate 48 0xAA) dbg_stopped)) = 32"
  by (simp add: read_memory_internal_def find_stopped_thread_def sys_def ok_answer_def
      peek_gap_def read_loop.simps Let_def)

lemma read_memory_nothing:
  "fst (fst (read_memory_internal os_hole 0x1000 8 (replicate 8 0xAA) dbg_stopped)) = -1"
  by (simp add: read_memory_internal_def find_stopped_thread_def sys_def ok_answer_def
      peek_hole_def read_loop.simps Let_def)

lemma dbg_stopped_thread: "read_thread_available os_hole dbg_stopped"
  "read_thread_available os_gap dbg_stopped"
  by (simp_all add: read_thread_available_def find_stopped_thread_def sys_def ok_answer_def)

text \<open>
  Claim C6, amended, on three reads. With the word at \<open>0x1000\<close> unreadable, a read of 16
  bytes from \<open>0x1000\<close> is complete: it returns 16, byte 3 (in the unreadable word) keeps
  the caller's \<open>0xAA\<close> and byte 8, behind the faulted word, is the byte of the target; a
  read of the 8 bytes of the unreadable word alone returns -1. With the three words from
  \<open>0x1000\<close> unreadable, a read of 48 bytes from \<open>0xFF8\<close> is abandoned behind the third of
  them: it returns 32, although the last two words could be read.
\<close>

theorem read_memory_partial_region_witness:
  "read_thread_available os_hole dbg_stopped \<and>
   read_thread_available os_gap dbg_stopped \<and>
   word_readable peek_hole (0x1000 + of_nat (16 - 1)) \<and>
   fst (fst (read_memory_internal os_hole 0x1000 16
          [0xAA, 0xAA, 0xAA, 0xAA, 0xAA, 0xAA, 0xAA, 0xAA, 0xAA, 0xAA, 0xAA, 0xAA, 0xAA, 0xAA, 0xAA, 0xAA]
          dbg_stopped)) = 16 \<and>
   snd (fst (read_memory_internal os_hole 0x1000 16
          [0xAA, 0xAA, 0xAA, 0xAA, 0xAA, 0xAA, 0xAA, 0xAA, 0xAA, 0xAA, 0xAA, 0xAA, 0xAA, 0xAA, 0xAA, 0xAA]
          dbg_stopped)) ! 3 = 0xAA \<and>
   snd (fst (read_memory_internal os_hole 0x1000 16
          [0xAA, 0xAA, 0xAA, 0xAA, 0xAA, 0xAA, 0xAA, 0xAA, 0xAA, 0xAA, 0xAA, 0xAA, 0xAA, 0xAA, 0xAA, 0xAA]
          dbg_stopped)) ! 8 = target_byte peek_hole 0x1008 \<and>
   fst (fst (read_memory_internal os_hole 0x1000 8 (replicate 8 0xAA) dbg_stopped)) = -1 \<and>
   \<not> word_readable peek_hole (0x1000 + of_nat 7) \<and>
   three_failures peek_gap 0xFF8 8 \<and>
   word_readable peek_gap (0xFF8 + of_nat 47) \<and>
   fst (fst (read_memory_internal os_gap 0xFF8 48 (replicate 48 0xAA) dbg_stopped)) \<le> 8 + 24 \<and>
   fst (fst (read_memory_internal os_gap 0xFF8 48 (replicate 48 0xAA) dbg_stopped)) = 32"
proof -
  let ?buf = "[0xAA :: u8, 0xAA, 0xAA, 0xAA, 0xAA, 0xAA, 0xAA, 0xAA, 0xAA, 0xAA, 0xAA, 0xAA, 0xAA, 0xAA, 0xAA, 0xAA]"
  let ?r16 = "fst (read_memory_internal os_hole 0x1000 16 ?buf dbg_stopped)"
  let ?r8 = "fst (read_memory_internal os_hole 0x1000 8 (replicate 8 0xAA) dbg_stopped)"
  let ?r48 = "fst (read_memory_internal os_gap 0xFF8 48 (replicate 48 0xAA) dbg_stopped)"
  have h1: "\<forall>k t x. os_hole k (PTRACE_PEEKDATA t x) = peek_hole x"
    and g1: "\<forall>k t x. os_gap k (PTRACE_PEEKDATA t x) = peek_gap x"
    by simp_all
  have e1: "\<forall>x. \<not> a_ok (peek_hole x) \<longrightarrow> a_errno (peek_hole x) = EIO \<or> a_errno (peek_hole x) = EFAULT"
    and e2: "\<forall>x. \<not> a_ok (peek_gap x) \<longrightarrow> a_errno (peek_gap x) = EIO \<or> a_errno (peek_gap x) = EFAULT"
    by (simp_all add: peek_hole_def peek_gap_def ok_answer_def)
  have l16: "(16 :: nat) \<le> length ?buf" and l8: "(8 :: nat) \<le> length (replicate 8 (0xAA :: u8))"
    and l48: "(48 :: nat) \<le> length (replicate 48 (0xAA :: u8))"
    by simp_all
  have last16: "word_readable peek_hole (0x1000 + of_nat (16 - 1))"
    by (simp add: word_readable_def peek_hole_def ok_answer_def)
  have none16: "\<forall>i. i + 16 < (16 :: nat) \<longrightarrow> \<not> three_failures peek_hole 0x1000 i"
    by simp
  have r3: "\<not> word_readable peek_hole (0x1000 + of_nat 3)"
    and r8: "word_readable peek_hole (0x1000 + of_nat 8)"
    by (simp_all add: word_readable_def peek_hole_def ok_answer_def)
  have three: "three_failures peek_gap 0xFF8 8"
    by (simp add: three_failures_def word_readable_def peek_gap_def ok_answer_def)
  have last48: "word_readable peek_gap (0xFF8 + of_nat 47)"
    by (simp add: word_readable_def peek_gap_def ok_answer_def)
  note t16 = read_memory_partial_region [OF h1 l16, of "0x1000" dbg_stopped, unfolded split_beta]
  note t8 = read_memory_partial_region [OF h1 l8, of "0x1000" dbg_stopped, unfolded split_beta]
  note t48 = read_memory_partial_region [OF g1 l48, of "0xFF8" dbg_stopped, unfolded split_beta]
  from t16 dbg_stopped_thread(1) e1 none16 last16
  have n16: "fst ?r16 = 16" by simp
  from t16 have "\<forall>i<length ?buf.
                snd ?r16 ! i =
                  (if int i < fst ?r16 \<and> word_readable peek_hole (0x1000 + of_nat i)
                   then target_byte peek_hole (0x1000 + of_nat i) else ?buf ! i)"
    by blast
  from this [rule_format, of 3] this [rule_format, of 8] r3 r8 n16
  have b16: "snd ?r16 ! 3 = 0xAA" "snd ?r16 ! 8 = target_byte peek_hole 0x1008"
    by simp_all
  from t8 dbg_stopped_thread(1) e1 read_memory_nothing
  have "\<forall>i. i < (8 :: nat) \<longrightarrow> \<not> word_readable peek_hole (0x1000 + of_nat i)"
    by blast
  from this [rule_format, of 7] have b8: "\<not> word_readable peek_hole (0x1000 + of_nat 7)"
    by simp
  from t48 dbg_stopped_thread(2) e2
  have "\<forall>i. i + 16 < (48 :: nat) \<and> three_failures peek_gap 0xFF8 i \<longrightarrow> fst ?r48 \<le> int i + 24"
    by blast
  from this [rule_format, of 8] three
  have n48: "fst ?r48 \<le> 8 + 24" by simp
  from dbg_stopped_thread last16 n16 b16 read_memory_nothing b8 three last48 n48 read_memory_gap
  show ?thesis by (simp del: of_nat_diff)
qed

subsection \<open>Stops on signals without a disposition\<close>

text \<open>
  Claim C10, as the code has it. For a signal with no entry in the disposition map
  \<^verbatim>\<open>get_signal_config\<close> returns \<open>{catch = false, pass = false}\<close>. If the stop is a signal
  stop (not a clone or interrupt event) and the signal is none of \<^verbatim>\<open>SIGTRAP\<close>, \<^verbatim>\<open>SIGSTOP\<close>,
  \<^verbatim>\<open>SIGTSTP\<close> and \<^verbatim>\<open>SIGCONT\<close>, which have handlers of their own, then \<^verbatim>\<open>handle_exception\<close>
  makes exactly one call: it resumes the thread, with \<^verbatim>\<open>PTRACE_SINGLESTEP\<close> if the thread is
  in a single-step mode and with \<^verbatim>\<open>PTRACE_CONT\<close> otherwise, passing signal 0, or the signal
  itself if it is 30 or 24. The client is not notified, and a resumed thread is no longer
  marked stopped.
\<close>

theorem unconfigured_signal_resumes_silently:
  assumes stopped: "WIFSTOPPED status"
    and no_event: "drop_bit 16 status \<noteq> PTRACE_EVENT_CLONE" "drop_bit 16 status \<noteq> PTRACE_EVENT_STOP"
    and signal: "signal = WSTOPSIG status"
    and other: "signal \<notin> {SIGTRAP, SIGSTOP, SIGTSTP, SIGCONT}"
    and absent: "map_of (signal_config d) signal = None"
    and delivered: "delivered = (if signal = 30 \<or> signal = 24 then signal else 0)"
    and resume: "resume = (if map_of (thread_states d) pid \<noteq> None \<and>
                              single_step_mode (ts_at a d pid) \<noteq> None_mode
                           then PTRACE_SINGLESTEP pid delivered else PTRACE_CONT pid delivered)"
  shows "get_signal_config d signal = \<lparr>catch_signal = False, pass_signal = False\<rparr> \<and>
         effects (snd (handle_exception a os pid status d)) = effects d @ [resume] \<and>
         (a_ok (os (length (effects d)) resume) \<longrightarrow>
            fst (handle_exception a os pid status d) = 0 \<and>
            \<not> is_stopped (ts_at a (snd (handle_exception a os pid status d)) pid))"
proof -
  have c: "get_signal_config d signal = \<lparr>catch_signal = False, pass_signal = False\<rparr>"
    using absent by (simp add: get_signal_config_def)
  have h: "handle_exception a os pid status d = handle_other_signal a os pid signal d"
    using stopped no_event signal other by (simp add: handle_exception_def Let_def)
  have o: "handle_other_signal a os pid signal d =
             continue_with_signal a os pid signal \<lparr>catch_signal = False, pass_signal = False\<rparr> d"
    by (simp add: handle_other_signal_def c)
  define known where "known = (map_of (thread_states d) pid \<noteq> None)"
  define d1 where "d1 = (if known then ts_update a pid (\<lambda>t. t\<lparr>is_stopped := False\<rparr>) d else d)"
  have step: "(known \<and> single_step_mode (ts_at a d1 pid) \<noteq> None_mode) =
              (map_of (thread_states d) pid \<noteq> None \<and> single_step_mode (ts_at a d pid) \<noteq> None_mode)"
    by (simp add: d1_def known_def)
  have ev: "effects d1 = effects d" by (simp add: d1_def)
  have k: "continue_with_signal a os pid signal \<lparr>catch_signal = False, pass_signal = False\<rparr> d =
             (let (r, d2) = sys os resume d1
              in if \<not> a_ok r then
                   (-1, if known then ts_update a pid (\<lambda>t. t\<lparr>is_stopped := True\<rparr>) d2 else d2)
                 else (0, d2))"
    unfolding continue_with_signal_def Let_def known_def [symmetric] d1_def [symmetric] step
    by (auto simp: delivered resume known_def)
  have st: "\<not> is_stopped (ts_at a d1 pid)"
    by (auto simp: d1_def known_def ts_at_def new_ThreadState_def split: option.splits)
  show ?thesis
    unfolding h o k using c st
    by (simp add: sys_def ev)
qed

lemma wait_status_simps [simp]:
  "WIFSTOPPED 0x137f" "WSTOPSIG 0x137f = 19" "drop_bit 16 (0x137f :: int) = 0"
  "WIFSTOPPED 0xb7f" "WSTOPSIG 0xb7f = 11" "drop_bit 16 (0xb7f :: int) = 0"
  by (simp_all add: WIFSTOPPED_def WSTOPSIG_def)

text \<open>
  Claim C10 as stated (every signal without a disposition resumes the thread) fails: a
  stop on \<^verbatim>\<open>SIGSTOP\<close> with an empty disposition map makes no call at all and leaves the
  thread marked stopped.
\<close>

theorem unconfigured_sigstop_counterexample:
  "map_of (signal_config (Debugger_new 100)) SIGSTOP = None \<and>
   WIFSTOPPED 0x137f \<and> WSTOPSIG 0x137f = SIGSTOP \<and>
   fst (handle_exception X86_64 os_ok 100 0x137f (Debugger_new 100)) = 0 \<and>
   effects (snd (handle_exception X86_64 os_ok 100 0x137f (Debugger_new 100))) = [] \<and>
   is_stopped (ts_at X86_64 (snd (handle_exception X86_64 os_ok 100 0x137f (Debugger_new 100))) 100)"
  by (simp add: handle_exception_def handle_stop_signal_def Let_def SIGSTOP_def SIGTRAP_def
      PTRACE_EVENT_CLONE_def PTRACE_EVENT_STOP_def)

text \<open>
  Claim C10, amended, on a stop of thread 100 on \<^verbatim>\<open>SIGSEGV\<close> with an empty disposition map:
  the only call is \<^verbatim>\<open>PTRACE_CONT\<close> with signal 0.
\<close>

theorem unconfigured_signal_resumes_silently_witness:
  "WIFSTOPPED 0xb7f \<and>
   drop_bit 16 (0xb7f :: int) \<noteq> PTRACE_EVENT_CLONE \<and>
   drop_bit 16 (0xb7f :: int) \<noteq> PTRACE_EVENT_STOP \<and>
   SIGSEGV = WSTOPSIG 0xb7f \<and>
   SIGSEGV \<notin> {SIGTRAP, SIGSTOP, SIGTSTP, SIGCONT} \<and>
   map_of (signal_config (Debugger_new 100)) SIGSEGV = None \<and>
   get_signal_config (Debugger_new 100) SIGSEGV = \<lparr>catch_signal = False, pass_signal = False\<rparr> \<and>
   effects (snd (handle_exception X86_64 os_ok 100 0xb7f (Debugger_new 100))) = [PTRACE_CONT 100 0] \<and>
   fst (handle_exception X86_64 os_ok 100 0xb7f (Debugger_new 100)) = 0"
proof -
  have h: "WIFSTOPPED 0xb7f"
    "drop_bit 16 (0xb7f :: int) \<noteq> PTRACE_EVENT_CLONE"
    "drop_bit 16 (0xb7f :: int) \<noteq> PTRACE_EVENT_STOP"
    "SIGSEGV = WSTOPSIG 0xb7f"
    "SIGSEGV \<notin> {SIGTRAP, SIGSTOP, SIGTSTP, SIGCONT}"
    "map_of (signal_config (Debugger_new 100)) SIGSEGV = None"
    by (simp_all add: SIGSEGV_def SIGTRAP_def SIGSTOP_def SIGTSTP_def SIGCONT_def
        PTRACE_EVENT_CLONE_def PTRACE_EVENT_STOP_def)
  from unconfigured_signal_resumes_silently [OF h refl refl, where a = X86_64 and pid = 100 and os = os_ok] h
  show ?thesis
    by (simp add: SIGSEGV_def os_ok_def ok_answer_def)
qed

subsection \<open>Watchpoint events after the removal of a watchpoint\<close>

lemma watchpoint_events_sys [simp]:
  "watchpoint_events (snd (sys os e d)) =
     watchpoint_events d @ (if is_watchpoint_event e then [e] else [])"
  "watchpoint_used (snd (sys os e d)) = watchpoint_used d"
  by (simp_all add: watchpoint_events_def sys_def)

lemma watchpoint_events_update [simp]:
  "watchpoint_events (ts_update a tid upd d) = watchpoint_events d"
  "watchpoint_events (d\<lparr>debug_state := x1\<rparr>) = watchpoint_events d"
  "watchpoint_events (d\<lparr>current_thread := x2\<rparr>) = watchpoint_events d"
  "watchpoint_events (d\<lparr>thread_states := x3\<rparr>) = watchpoint_events d"
  "watchpoint_events (d\<lparr>breakpoint_hit_counts := x4\<rparr>) = watchpoint_events d"
  "watchpoint_events (d\<lparr>breakpoint_used := x5\<rparr>) = watchpoint_events d"
  "watchpoint_events (d\<lparr>breakpoint_addresses := x6\<rparr>) = watchpoint_events d"
  "watchpoint_events (d\<lparr>breakpoint_target_counts := x7\<rparr>) = watchpoint_events d"
  "watchpoint_events (d\<lparr>watchpoint_sync := x8\<rparr>) = watchpoint_events d"
  "watchpoint_events (d\<lparr>debug_command_queue := x9\<rparr>) = watchpoint_events d"
  "watchpoint_events (d\<lparr>attached_threads := x10\<rparr>) = watchpoint_events d"
  "watchpoint_events (d\<lparr>watchpoint_used := x11\<rparr>) = watchpoint_events d"
  "watchpoint_events (d\<lparr>watchpoint_addresses := x12\<rparr>) = watchpoint_events d"
  "watchpoint_events (d\<lparr>watchpoint_sizes := x13\<rparr>) = watchpoint_events d"
  "watchpoint_events (d\<lparr>watchpoint_types := x14\<rparr>) = watchpoint_events d"
  by (simp_all add: watchpoint_events_def)

lemma not_watchpoint_event [simp]:
  "\<not> is_watchpoint_event (getregs_call a pid)"
  "\<not> is_watchpoint_event (setregs_effect pid rgs)"
  "exception_type (populate_exception_info a rgs t pid address mode trace) = t"
  "signal_exception_type signal \<noteq> EXCEPTION_WATCHPOINT"
  by (cases a; cases rgs;
      simp add: getregs_call_def populate_exception_info_def signal_exception_type_def)+

lemma reinsert_software_breakpoint_quiet [simp]:
  "watchpoint_events (reinsert_software_breakpoint a os thread d) = watchpoint_events d"
  "watchpoint_used (reinsert_software_breakpoint a os thread d) = watchpoint_used d"
  by (simp_all add: reinsert_software_breakpoint_def Let_def split_beta)

lemma disable_breakpoint_on_thread_quiet [simp]:
  "watchpoint_events (disable_breakpoint_on_thread a os thread index wipe d) = watchpoint_events d"
  "watchpoint_used (disable_breakpoint_on_thread a os thread index wipe d) = watchpoint_used d"
  by (cases a; simp add: disable_breakpoint_on_thread_def Let_def split_beta)+

lemma reenable_breakpoint_on_thread_quiet [simp]:
  "watchpoint_events (reenable_breakpoint_on_thread a os thread index d) = watchpoint_events d"
  "watchpoint_used (reenable_breakpoint_on_thread a os thread index d) = watchpoint_used d"
  by (cases a; simp add: reenable_breakpoint_on_thread_def Let_def split_beta)+

lemma continue_breakpoint_single_step_quiet [simp]:
  "watchpoint_events (snd (continue_breakpoint_single_step a os thread d)) = watchpoint_events d"
  "watchpoint_used (snd (continue_breakpoint_single_step a os thread d)) = watchpoint_used d"
  by (simp_all add: continue_breakpoint_single_step_def Let_def split_beta split: option.splits)

lemma complete_watchpoint_single_step_quiet [simp]:
  "watchpoint_events (snd (complete_watchpoint_single_step a thread d)) = watchpoint_events d"
  "watchpoint_used (snd (complete_watchpoint_single_step a thread d)) = watchpoint_used d"
  by (simp_all add: complete_watchpoint_single_step_def add_active_handlers_def
      enqueue_command_def Let_def split: option.splits)

lemma handle_single_step_quiet [simp]:
  "watchpoint_events (snd (handle_single_step a os thread d)) = watchpoint_events d"
  "watchpoint_used (snd (handle_single_step a os thread d)) = watchpoint_used d"
  by (simp_all add: handle_single_step_def split: option.splits SingleStepMode.splits)

lemma handle_software_breakpoint_continue_quiet [simp]:
  "watchpoint_events (snd (handle_software_breakpoint_continue a os thread index d)) =
     watchpoint_events d"
  "watchpoint_used (snd (handle_software_breakpoint_continue a os thread index d)) =
     watchpoint_used d"
  by (simp_all add: handle_software_breakpoint_continue_def Let_def split_beta)

lemma handle_breakpoint_hit_quiet [simp]:
  "watchpoint_events (snd (handle_breakpoint_hit a os thread index d)) = watchpoint_events d"
  "watchpoint_used (snd (handle_breakpoint_hit a os thread index d)) = watchpoint_used d"
  by (simp_all add: handle_breakpoint_hit_def Let_def split_beta)

lemma adjust_rip_quiet [simp]:
  "watchpoint_events (snd (adjust_rip a os pid index rgs d)) = watchpoint_events d"
  "watchpoint_used (snd (adjust_rip a os pid index rgs d)) = watchpoint_used d"
  by (simp_all add: adjust_rip_def Let_def)

lemma breakpoint_stop_quiet [simp]:
  "watchpoint_events (snd (breakpoint_stop a os pid index rgs d)) = watchpoint_events d"
  "watchpoint_used (snd (breakpoint_stop a os pid index rgs d)) = watchpoint_used d"
  by (simp_all add: breakpoint_stop_def send_exception_info_def Let_def split_beta)

lemma handle_signals_quiet [simp]:
  "watchpoint_events (snd (handle_stop_signal a os pid d)) = watchpoint_events d"
  "watchpoint_used (snd (handle_stop_signal a os pid d)) = watchpoint_used d"
  "watchpoint_events (snd (handle_sigcont a os pid d)) = watchpoint_events d"
  "watchpoint_used (snd (handle_sigcont a os pid d)) = watchpoint_used d"
  "watchpoint_events (snd (continue_with_signal a os pid signal config d)) = watchpoint_events d"
  "watchpoint_used (snd (continue_with_signal a os pid signal config d)) = watchpoint_used d"
  by (simp_all add: handle_stop_signal_def handle_sigcont_def continue_with_signal_def Let_def
      split_beta split: option.splits)

lemma handle_other_signal_quiet [simp]:
  "watchpoint_events (snd (handle_other_signal a os pid signal d)) = watchpoint_events d"
  "watchpoint_used (snd (handle_other_signal a os pid signal d)) = watchpoint_used d"
  by (simp_all add: handle_other_signal_def send_exception_info_def Let_def split_beta)




lemma stop_resume_keep_watchpoints [simp]:
  "removing_mask (snd (sys os e d)) = removing_mask d"
  "watchpoint_sync (snd (sys os e d)) = watchpoint_sync d"
  "watchpoint_addresses (snd (sys os e d)) = watchpoint_addresses d"
  "removing_mask (snd (stop_all_threads os x d)) = removing_mask d"
  "watchpoint_sync (snd (stop_all_threads os x d)) = watchpoint_sync d"
  "watchpoint_used (snd (stop_all_threads os x d)) = watchpoint_used d"
  "watchpoint_addresses (snd (stop_all_threads os x d)) = watchpoint_addresses d"
  "watchpoint_events (snd (stop_all_threads os x d)) = watchpoint_events d"
  by (simp_all add: stop_all_threads_def sys_def watchpoint_events_def split_beta)

lemma resume_threads_keeps_watchpoints [simp]:
  "removing_mask (resume_threads os threads d) = removing_mask d"
  "watchpoint_sync (resume_threads os threads d) = watchpoint_sync d"
  "watchpoint_used (resume_threads os threads d) = watchpoint_used d"
  "watchpoint_addresses (resume_threads os threads d) = watchpoint_addresses d"
  "watchpoint_events (resume_threads os threads d) = watchpoint_events d"
  by (induction threads arbitrary: d;
      simp add: Let_def split_beta watchpoint_events_def sys_def split: option.splits)+

lemma clear_watchpoint_keeps_watchpoints [simp]:
  "removing_mask (snd (clear_watchpoint_from_threads a os threads index d)) = removing_mask d"
  "watchpoint_sync (snd (clear_watchpoint_from_threads a os threads index d)) = watchpoint_sync d"
  "watchpoint_used (snd (clear_watchpoint_from_threads a os threads index d)) = watchpoint_used d"
  "watchpoint_addresses (snd (clear_watchpoint_from_threads a os threads index d)) =
     watchpoint_addresses d"
  "watchpoint_events (snd (clear_watchpoint_from_threads a os threads index d)) =
     watchpoint_events d"
  by (induction threads arbitrary: d; cases a; simp add: Let_def split_beta)+

lemma set_removing_fields [simp]:
  "watchpoint_used (set_removing index b d) = watchpoint_used d"
  "watchpoint_addresses (set_removing index b d) = watchpoint_addresses d"
  "watchpoint_events (set_removing index b d) = watchpoint_events d"
  "removing_mask (set_removing index b d) =
     (if b then removing_mask d OR push_bit (nat index) 1
      else removing_mask d AND NOT (push_bit (nat index) 1))"
  "watchpoint_sync (set_removing index b d) =
     (watchpoint_sync d)[nat index := (watchpoint_sync d ! nat index)\<lparr>WatchpointSync.removing := b\<rparr>]"
  by (simp_all add: set_removing_def watchpoint_events_def)



lemma sigtrap_status [simp]:
  "WIFSTOPPED 0x57f" "WSTOPSIG 0x57f = 5" "drop_bit 16 (0x57f :: int) = 0"
  by (simp_all add: WIFSTOPPED_def WSTOPSIG_def)

lemma apply_watchpoint_to_threads_quiet [simp]:
  "watchpoint_events (snd (apply_watchpoint_to_threads a os threads index address sz wtype d)) =
     watchpoint_events d"
  by (induction threads arbitrary: d; cases a) (simp_all add: Let_def split_beta)








subsection \<open>The verdict of the client on a breakpoint hit\<close>

lemma getregs_call_not_upcall [simp]: "\<not> is_upcall (getregs_call a pid)"
  by (cases a) (simp_all add: getregs_call_def)

lemma sigtrap_stop [simp]:
  "WIFSTOPPED 0x57f" "WSTOPSIG 0x57f = 5" "drop_bit 16 (0x57f :: int) = 0"
  by (simp_all add: WIFSTOPPED_def WSTOPSIG_def)

lemma ts_at_debug_state [simp]:
  "ts_at a (d\<lparr>debug_state := x\<rparr>) tid = ts_at a d tid"
  "ts_at a (d\<lparr>current_thread := y\<rparr>) tid = ts_at a d tid"
  "ts_at a (d\<lparr>breakpoint_hit_counts := z\<rparr>) tid = ts_at a d tid"
  by (simp_all add: ts_at_def)

lemma software_step_completion:
  assumes st: "map_of (thread_states e) pid = Some st"
    and mode: "single_step_mode st = SoftwareBreakpointContinue"
    and cur: "current_breakpoint_index st = -1"
    and dis: "disabled_watchpoint_index st = bp_index"
    and sw: "bp_index \<ge> 1000" "bp_index - 1000 < int MAX_SOFTWARE_BREAKPOINTS"
      "software_breakpoint_used e ! nat (bp_index - 1000)"
    and ok: "\<forall>n x. \<not> is_upcall x \<longrightarrow> a_ok (os n x)"
  shows "fst (handle_exception a os pid 0x57f e) = 0 \<and>
         new_effects e (snd (handle_exception a os pid 0x57f e)) =
           [getregs_call a pid,
            SEND_EXCEPTION_INFO
              (populate_exception_info a
                 (answer_regs a (os (length (effects e)) (getregs_call a pid)))
                 EXCEPTION_SINGLESTEP pid 0 SoftwareBreakpointContinue False) (target_pid e),
            PTRACE_PEEKDATA (target_pid e) (software_breakpoint_addresses e ! nat (bp_index - 1000)),
            PTRACE_POKEDATA (target_pid e) (software_breakpoint_addresses e ! nat (bp_index - 1000))
              (patch_trap a (a_word (os (length (effects e) + 2)
                 (PTRACE_PEEKDATA (target_pid e)
                    (software_breakpoint_addresses e ! nat (bp_index - 1000)))))),
            PTRACE_CONT pid 0] \<and>
         single_step_mode (ts_at a (snd (handle_exception a os pid 0x57f e)) pid) = None_mode \<and>
         debug_state (snd (handle_exception a os pid 0x57f e)) = Running \<and>
         \<not> is_stopped (ts_at a (snd (handle_exception a os pid 0x57f e)) pid)"
proof -
  have g: "a_ok (os n (getregs_call a pid))" for n
    using ok by simp
  have big: "\<not> bp_index - 1000 < 0" "\<not> bp_index < 1000" using sw by simp_all
  show ?thesis
    using st mode cur dis sw ok g big
    by (simp add: handle_exception_def handle_sigtrap_def send_exception_info_def
        handle_single_step_def continue_breakpoint_single_step_def
        reinsert_software_breakpoint_def sys_def Let_def SIGTRAP_def PTRACE_EVENT_CLONE_def
        PTRACE_EVENT_STOP_def new_effects_def ts_at_def [of a "e\<lparr>effects := x\<rparr>" for x]
        ts_at_def [of a e] MAX_BREAKPOINTS_def)
qed

lemma new_effects_last:
  "effects d' = effects d @ xs @ [e] \<Longrightarrow> last (new_effects d d') = e"
  by (simp add: new_effects_def)

lemma breakpoint_stop_hardware:
  assumes hw: "0 \<le> bp_index" "bp_index < int MAX_BREAKPOINTS"
    and up: "\<forall>n info p. a_ok (os n (SEND_EXCEPTION_INFO info p)) = verdict"
    and ok: "\<forall>n e. \<not> is_upcall e \<longrightarrow> a_ok (os n e)"
    and len: "length (breakpoint_hit_counts d) = MAX_BREAKPOINTS"
  shows "fst (breakpoint_stop a os pid bp_index rgs d) = 0"
    and "\<not> verdict \<Longrightarrow>
           new_effects d (snd (breakpoint_stop a os pid bp_index rgs d)) =
             [SEND_EXCEPTION_INFO
                (populate_exception_info a rgs EXCEPTION_BREAKPOINT pid 0 None_mode
                   (breakpoint_target_counts d ! nat bp_index > 0)) (target_pid d),
              PTRACE_CONT pid 0] \<and>
           \<not> is_stopped (ts_at a (snd (breakpoint_stop a os pid bp_index rgs d)) pid)"
    and "verdict \<Longrightarrow> \<not> trace_mode d bp_index \<Longrightarrow>
           (\<forall>e\<in>set (new_effects d (snd (breakpoint_stop a os pid bp_index rgs d))). \<not> is_resume e) \<and>
           debug_state (snd (breakpoint_stop a os pid bp_index rgs d)) = BreakpointHit \<and>
           is_stopped (ts_at a (snd (breakpoint_stop a os pid bp_index rgs d)) pid)"
    and "verdict \<Longrightarrow> trace_mode d bp_index \<Longrightarrow>
           last (new_effects d (snd (breakpoint_stop a os pid bp_index rgs d))) = PTRACE_SINGLESTEP pid 0 \<and>
           debug_state (snd (breakpoint_stop a os pid bp_index rgs d)) = SingleStepping \<and>
           \<not> is_stopped (ts_at a (snd (breakpoint_stop a os pid bp_index rgs d)) pid)"
proof -
  have small: "\<not> bp_index \<ge> 1000" "nat bp_index < length (breakpoint_hit_counts d) \<or> True"
    using hw by (simp_all add: MAX_BREAKPOINTS_def)
  show "fst (breakpoint_stop a os pid bp_index rgs d) = 0"
    using hw up ok small
    by (simp add: breakpoint_stop_def adjust_rip_def send_exception_info_def sys_def Let_def
        handle_breakpoint_hit_def split_beta)
  show "new_effects d (snd (breakpoint_stop a os pid bp_index rgs d)) =
             [SEND_EXCEPTION_INFO
                (populate_exception_info a rgs EXCEPTION_BREAKPOINT pid 0 None_mode
                   (breakpoint_target_counts d ! nat bp_index > 0)) (target_pid d),
              PTRACE_CONT pid 0] \<and>
           \<not> is_stopped (ts_at a (snd (breakpoint_stop a os pid bp_index rgs d)) pid)"
    if "\<not> verdict"
    using hw up ok small that
    by (simp add: breakpoint_stop_def adjust_rip_def send_exception_info_def sys_def Let_def
        new_effects_def)
  have idx: "nat bp_index < length (breakpoint_hit_counts d)"
    using hw len by simp
  show "(\<forall>e\<in>set (new_effects d (snd (breakpoint_stop a os pid bp_index rgs d))). \<not> is_resume e) \<and>
           debug_state (snd (breakpoint_stop a os pid bp_index rgs d)) = BreakpointHit \<and>
           is_stopped (ts_at a (snd (breakpoint_stop a os pid bp_index rgs d)) pid)"
    if "verdict" "\<not> trace_mode d bp_index"
    using hw up ok small that idx
    by (cases a)
      (auto simp: breakpoint_stop_def adjust_rip_def send_exception_info_def sys_def Let_def
        handle_breakpoint_hit_def new_effects_def trace_mode_def getregs_call_def ts_at_def
        ts_update_def)
  show "last (new_effects d (snd (breakpoint_stop a os pid bp_index rgs d))) = PTRACE_SINGLESTEP pid 0 \<and>
           debug_state (snd (breakpoint_stop a os pid bp_index rgs d)) = SingleStepping \<and>
           \<not> is_stopped (ts_at a (snd (breakpoint_stop a os pid bp_index rgs d)) pid)"
    if "verdict" "trace_mode d bp_index"
    using hw up ok small that idx
    by (cases a)
      (auto simp: breakpoint_stop_def adjust_rip_def send_exception_info_def sys_def Let_def
        handle_breakpoint_hit_def new_effects_def trace_mode_def getregs_call_def ts_at_def
        ts_update_def disable_breakpoint_on_thread_def split: prod.splits)
qed

lemma breakpoint_stop_software:
  assumes sw: "bp_index \<ge> 1000" "bp_index - 1000 < int MAX_SOFTWARE_BREAKPOINTS"
      "software_breakpoint_used d ! nat (bp_index - 1000)"
    and up: "\<forall>n info p. a_ok (os n (SEND_EXCEPTION_INFO info p)) = verdict"
    and ok: "\<forall>n e. \<not> is_upcall e \<longrightarrow> a_ok (os n e)"
  shows "fst (breakpoint_stop a os pid bp_index rgs d) = 0"
    and "\<not> verdict \<Longrightarrow>
           last (new_effects d (snd (breakpoint_stop a os pid bp_index rgs d))) = PTRACE_SINGLESTEP pid 0 \<and>
           (\<exists>w. PTRACE_POKEDATA pid (software_breakpoint_addresses d ! nat (bp_index - 1000))
                  (restore_original a w
                     (take 4 (drop (nat (bp_index - 1000) * 4) (software_breakpoint_original_bytes d))))
                \<in> set (new_effects d (snd (breakpoint_stop a os pid bp_index rgs d)))) \<and>
           single_step_mode (ts_at a (snd (breakpoint_stop a os pid bp_index rgs d)) pid) =
             SoftwareBreakpointContinue \<and>
           \<not> is_stopped (ts_at a (snd (breakpoint_stop a os pid bp_index rgs d)) pid) \<and>
           map_of (thread_states (snd (breakpoint_stop a os pid bp_index rgs d))) pid =
             Some (ts_at a (snd (breakpoint_stop a os pid bp_index rgs d)) pid) \<and>
           current_breakpoint_index (ts_at a (snd (breakpoint_stop a os pid bp_index rgs d)) pid) = -1 \<and>
           disabled_watchpoint_index (ts_at a (snd (breakpoint_stop a os pid bp_index rgs d)) pid) =
             bp_index \<and>
           software_breakpoint_used (snd (breakpoint_stop a os pid bp_index rgs d)) =
             software_breakpoint_used d \<and>
           software_breakpoint_addresses (snd (breakpoint_stop a os pid bp_index rgs d)) =
             software_breakpoint_addresses d \<and>
           target_pid (snd (breakpoint_stop a os pid bp_index rgs d)) = target_pid d"
    and "verdict \<Longrightarrow>
           (\<forall>e\<in>set (new_effects d (snd (breakpoint_stop a os pid bp_index rgs d))). \<not> is_resume e) \<and>
           debug_state (snd (breakpoint_stop a os pid bp_index rgs d)) = BreakpointHit \<and>
           is_stopped (ts_at a (snd (breakpoint_stop a os pid bp_index rgs d)) pid)"
proof -
  obtain rgs1 d1 where adj: "adjust_rip a os pid bp_index rgs d = (rgs1, d1)"
    by (cases "adjust_rip a os pid bp_index rgs d") auto
  have d1: "\<exists>xs. d1 = d\<lparr>effects := effects d @ xs\<rparr> \<and> (\<forall>e\<in>set xs. \<not> is_resume e)"
  proof (cases "d1 = d")
    case True
    then have "d1 = d\<lparr>effects := effects d @ []\<rparr> \<and> (\<forall>e\<in>set []. \<not> is_resume e)" by simp
    then show ?thesis by blast
  next
    case False
    with adj have "d1 = d\<lparr>effects := effects d @
                     [setregs_effect pid (set_rip rgs (software_breakpoint_addresses d ! nat (bp_index - 1000)))]\<rparr>"
      by (auto simp: adjust_rip_def sys_def Let_def split: if_splits)
    moreover have "\<not> is_resume (setregs_effect pid rgs')" for rgs'
      by (cases rgs') simp_all
    ultimately show ?thesis by auto
  qed
  then obtain xs where xs: "d1 = d\<lparr>effects := effects d @ xs\<rparr>" "\<forall>e\<in>set xs. \<not> is_resume e"
    by blast
  have big: "\<not> bp_index - 1000 < 0" using sw by simp
  show "fst (breakpoint_stop a os pid bp_index rgs d) = 0"
    using sw up ok big
    by (simp add: breakpoint_stop_def adj xs send_exception_info_def sys_def Let_def
        handle_breakpoint_hit_def handle_software_breakpoint_continue_def split_beta)
  show "last (new_effects d (snd (breakpoint_stop a os pid bp_index rgs d))) = PTRACE_SINGLESTEP pid 0 \<and>
           (\<exists>w. PTRACE_POKEDATA pid (software_breakpoint_addresses d ! nat (bp_index - 1000))
                  (restore_original a w
                     (take 4 (drop (nat (bp_index - 1000) * 4) (software_breakpoint_original_bytes d))))
                \<in> set (new_effects d (snd (breakpoint_stop a os pid bp_index rgs d)))) \<and>
           single_step_mode (ts_at a (snd (breakpoint_stop a os pid bp_index rgs d)) pid) =
             SoftwareBreakpointContinue \<and>
           \<not> is_stopped (ts_at a (snd (breakpoint_stop a os pid bp_index rgs d)) pid) \<and>
           map_of (thread_states (snd (breakpoint_stop a os pid bp_index rgs d))) pid =
             Some (ts_at a (snd (breakpoint_stop a os pid bp_index rgs d)) pid) \<and>
           current_breakpoint_index (ts_at a (snd (breakpoint_stop a os pid bp_index rgs d)) pid) = -1 \<and>
           disabled_watchpoint_index (ts_at a (snd (breakpoint_stop a os pid bp_index rgs d)) pid) =
             bp_index \<and>
           software_breakpoint_used (snd (breakpoint_stop a os pid bp_index rgs d)) =
             software_breakpoint_used d \<and>
           software_breakpoint_addresses (snd (breakpoint_stop a os pid bp_index rgs d)) =
             software_breakpoint_addresses d \<and>
           target_pid (snd (breakpoint_stop a os pid bp_index rgs d)) = target_pid d"
    if "\<not> verdict"
    using sw up ok big that
    by (auto simp: breakpoint_stop_def adj xs send_exception_info_def sys_def Let_def
        handle_software_breakpoint_continue_def new_effects_def ts_at_def ts_update_def)
  show "(\<forall>e\<in>set (new_effects d (snd (breakpoint_stop a os pid bp_index rgs d))). \<not> is_resume e) \<and>
           debug_state (snd (breakpoint_stop a os pid bp_index rgs d)) = BreakpointHit \<and>
           is_stopped (ts_at a (snd (breakpoint_stop a os pid bp_index rgs d)) pid)"
    if "verdict"
    using sw up ok big that xs(2) adj [unfolded xs(1)]
    by (cases a)
      (auto simp: breakpoint_stop_def send_exception_info_def sys_def Let_def
        handle_breakpoint_hit_def new_effects_def getregs_call_def ts_at_def ts_update_def)
qed

lemma find_breakpoint_index_cases:
  assumes "find_breakpoint_index a d address \<noteq> -1"
  shows "(0 \<le> find_breakpoint_index a d address \<and>
          find_breakpoint_index a d address < int MAX_BREAKPOINTS) \<or>
         (find_breakpoint_index a d address \<ge> 1000 \<and>
          find_breakpoint_index a d address - 1000 < int MAX_SOFTWARE_BREAKPOINTS \<and>
          software_breakpoint_used d ! nat (find_breakpoint_index a d address - 1000))"
proof -
  define hw where "hw = first_index (\<lambda>i. breakpoint_used d ! i \<and> breakpoint_addresses d ! i = address)
                          0 MAX_BREAKPOINTS"
  define P where "P = (\<lambda>i. software_breakpoint_used d ! i \<and>
                           (software_breakpoint_addresses d ! i = address \<or>
                            (a = X86_64 \<and> address > 0 \<and>
                             software_breakpoint_addresses d ! i = address - 1)))"
  define sw where "sw = first_index P 0 MAX_SOFTWARE_BREAKPOINTS"
  have f: "find_breakpoint_index a d address =
             (if hw \<noteq> -1 then hw else if sw \<noteq> -1 then sw + 1000 else -1)"
    by (simp add: find_breakpoint_index_def hw_def sw_def P_def Let_def)
  show ?thesis
  proof (cases "hw \<noteq> -1")
    case True
    from first_index_range [of "\<lambda>i. breakpoint_used d ! i \<and> breakpoint_addresses d ! i = address"
        0 MAX_BREAKPOINTS] True
    obtain i where "hw = int i" "i < MAX_BREAKPOINTS"
      unfolding hw_def by auto
    with True show ?thesis
      unfolding f by simp
  next
    case False
    with assms f have s: "sw \<noteq> -1" by auto
    from first_index_sat [OF first_index_nat, of P 0 MAX_SOFTWARE_BREAKPOINTS] s
    have "P (nat sw)" "nat sw < MAX_SOFTWARE_BREAKPOINTS" "sw = int (nat sw)"
      using first_index_nat [of P 0 MAX_SOFTWARE_BREAKPOINTS]
      by (simp_all add: sw_def)
    with False s show ?thesis
      unfolding f by (auto simp: P_def)
  qed
qed

text \<open>
  Claim C4, as the code has it. Let thread \<open>pid\<close> stop at a breakpoint that
  \<^verbatim>\<open>find_breakpoint_index\<close> finds, let every call of the kernel succeed and let the client
  answer the notification with \<open>verdict\<close>.

  On \<^verbatim>\<open>false\<close> at a software breakpoint the thread is stepped over the breakpoint, the
  breakpoint is armed again and the thread resumes: the engine writes the original
  instruction back and single-steps the thread in mode \<open>SoftwareBreakpointContinue\<close>, and
  at the stop that ends the step (the next event of the thread, status \<open>0x57f\<close>: stopped by
  \<^verbatim>\<open>SIGTRAP\<close>) it reports the step, writes the trap instruction back, and resumes the
  thread with \<^verbatim>\<open>PTRACE_CONT\<close>, with no single-step mode left and in state \<open>Running\<close>.

  On \<^verbatim>\<open>false\<close> at a hardware breakpoint the only call after the notification is
  \<^verbatim>\<open>PTRACE_CONT\<close>: the thread is resumed, with no step over the breakpoint and nothing to
  arm again.

  On \<^verbatim>\<open>true\<close> the thread is marked stopped, no call sets it running and the state is
  \<open>BreakpointHit\<close>, unless the breakpoint is a hardware breakpoint in trace mode: then the
  thread is single-stepped and the state is \<open>SingleStepping\<close>.
\<close>

theorem breakpoint_hit_verdict:
  fixes a os pid rgs d verdict
  defines "bp_index \<equiv> find_breakpoint_index a d (regs_pc rgs)"
  defines "d' \<equiv> snd (breakpoint_stop a os pid bp_index rgs d)"
  defines "d'' \<equiv> snd (handle_exception a os pid 0x57f d')"
  defines "bp_addr \<equiv> software_breakpoint_addresses d ! nat (bp_index - 1000)"
  assumes found: "bp_index \<noteq> -1"
    and len: "length (breakpoint_hit_counts d) = MAX_BREAKPOINTS"
    and up: "\<forall>n info p. a_ok (os n (SEND_EXCEPTION_INFO info p)) = verdict"
    and ok: "\<forall>n e. \<not> is_upcall e \<longrightarrow> a_ok (os n e)"
  shows "fst (breakpoint_stop a os pid bp_index rgs d) = 0 \<and>
         (\<not> verdict \<and> bp_index \<ge> 1000 \<longrightarrow>
            last (new_effects d d') = PTRACE_SINGLESTEP pid 0 \<and>
            (\<exists>w. PTRACE_POKEDATA pid bp_addr
                   (restore_original a w
                      (take 4 (drop (nat (bp_index - 1000) * 4) (software_breakpoint_original_bytes d))))
                 \<in> set (new_effects d d')) \<and>
            single_step_mode (ts_at a d' pid) = SoftwareBreakpointContinue \<and>
            \<not> is_stopped (ts_at a d' pid) \<and>
            fst (handle_exception a os pid 0x57f d') = 0 \<and>
            new_effects d' d'' =
              [getregs_call a pid,
               SEND_EXCEPTION_INFO
                 (populate_exception_info a
                    (answer_regs a (os (length (effects d')) (getregs_call a pid)))
                    EXCEPTION_SINGLESTEP pid 0 SoftwareBreakpointContinue False) (target_pid d),
               PTRACE_PEEKDATA (target_pid d) bp_addr,
               PTRACE_POKEDATA (target_pid d) bp_addr
                 (patch_trap a (a_word (os (length (effects d') + 2)
                                          (PTRACE_PEEKDATA (target_pid d) bp_addr)))),
               PTRACE_CONT pid 0] \<and>
            single_step_mode (ts_at a d'' pid) = None_mode \<and>
            debug_state d'' = Running \<and> \<not> is_stopped (ts_at a d'' pid)) \<and>
         (\<not> verdict \<and> bp_index < 1000 \<longrightarrow>
            new_effects d d' =
              [SEND_EXCEPTION_INFO
                 (populate_exception_info a rgs EXCEPTION_BREAKPOINT pid 0 None_mode
                    (breakpoint_target_counts d ! nat bp_index > 0)) (target_pid d),
               PTRACE_CONT pid 0] \<and>
            \<not> is_stopped (ts_at a d' pid)) \<and>
         (verdict \<and> \<not> trace_mode d bp_index \<longrightarrow>
            (\<forall>e\<in>set (new_effects d d'). \<not> is_resume e) \<and>
            debug_state d' = BreakpointHit \<and> is_stopped (ts_at a d' pid)) \<and>
         (verdict \<and> trace_mode d bp_index \<longrightarrow>
            last (new_effects d d') = PTRACE_SINGLESTEP pid 0 \<and>
            debug_state d' = SingleStepping \<and> \<not> is_stopped (ts_at a d' pid))"
proof -
  from find_breakpoint_index_cases [of a d "regs_pc rgs"] found
  consider (hw) "0 \<le> bp_index" "bp_index < int MAX_BREAKPOINTS"
    | (sw) "bp_index \<ge> 1000" "bp_index - 1000 < int MAX_SOFTWARE_BREAKPOINTS"
        "software_breakpoint_used d ! nat (bp_index - 1000)"
    unfolding bp_index_def by blast
  then show ?thesis
  proof cases
    case hw
    then have "bp_index < 1000" by (simp add: MAX_BREAKPOINTS_def)
    with breakpoint_stop_hardware [OF hw up ok len, of a pid rgs] show ?thesis
      unfolding d'_def by auto
  next
    case sw
    then have nt: "\<not> trace_mode d bp_index" by (simp add: trace_mode_def)
    note first = breakpoint_stop_software [OF sw up ok, of a pid rgs, folded d'_def]
    show ?thesis
    proof (cases verdict)
      case True
      with first(1,3) nt sw(1) show ?thesis
        unfolding d'_def by auto
    next
      case False
      note f = first(2) [OF False]
      from f have st: "map_of (thread_states d') pid = Some (ts_at a d' pid)"
        and mode: "single_step_mode (ts_at a d' pid) = SoftwareBreakpointContinue"
        and cur: "current_breakpoint_index (ts_at a d' pid) = -1"
        and dis: "disabled_watchpoint_index (ts_at a d' pid) = bp_index"
        and frame: "software_breakpoint_used d' = software_breakpoint_used d"
          "software_breakpoint_addresses d' = software_breakpoint_addresses d"
          "target_pid d' = target_pid d"
        by simp_all
      from sw(3) frame(1) have used: "software_breakpoint_used d' ! nat (bp_index - 1000)"
        by simp
      note second = software_step_completion [OF st mode cur dis sw(1,2) used ok, of a,
          folded d''_def, unfolded frame]
      from first(1) f second False sw(1) show ?thesis
        unfolding bp_addr_def d'_def [symmetric] by simp
    qed
  qed
qed

lemma dbg_hw_bp_fields [simp]:
  "effects dbg_hw_bp = []" "thread_states dbg_hw_bp = []" "target_pid dbg_hw_bp = 100"
  "watchpoint_used dbg_hw_bp = [False]"
  "breakpoint_used dbg_hw_bp = [True, False, False, False]"
  "breakpoint_addresses dbg_hw_bp = [0x4000, 0, 0, 0]"
  "breakpoint_target_counts dbg_hw_bp = [0, 0, 0, 0]"
  "breakpoint_hit_counts dbg_hw_bp = [0, 0, 0, 0]"
  by (simp_all add: dbg_hw_bp_def)

lemma dbg_hw_trace_fields [simp]:
  "effects dbg_hw_trace = []" "thread_states dbg_hw_trace = []" "target_pid dbg_hw_trace = 100"
  "breakpoint_used dbg_hw_trace = [True, False, False, False]"
  "breakpoint_addresses dbg_hw_trace = [0x4000, 0, 0, 0]"
  "breakpoint_target_counts dbg_hw_trace = [5, 0, 0, 0]"
  "breakpoint_hit_counts dbg_hw_trace = [0, 0, 0, 0]"
  by (simp_all add: dbg_hw_trace_def)

lemma find_breakpoint_index_4000 [simp]:
  "find_breakpoint_index X86_64 dbg_hw_bp 0x4000 = 0"
  "find_breakpoint_index X86_64 dbg_hw_trace 0x4000 = 0"
  by (simp_all add: find_breakpoint_index_def MAX_BREAKPOINTS_def numeral_eq_Suc)

lemma find_breakpoint_index_effects [simp]:
  "find_breakpoint_index a (d\<lparr>effects := ev\<rparr>) x = find_breakpoint_index a d x"
  by (simp add: find_breakpoint_index_def Let_def)

text \<open>
  Claim C4 as stated fails. Thread 100 stops at the hardware breakpoint at \<open>0x4000\<close> and
  the client answers \<^verbatim>\<open>false\<close>: after the notification the only call is \<^verbatim>\<open>PTRACE_CONT\<close>,
  so the thread is not stepped over the breakpoint and nothing is re-armed, and the debugger
  is left in the break state \<open>BreakpointHit\<close>.
\<close>

theorem breakpoint_silent_continue_counterexample:
  "\<not> a_ok (os_silent 3 (SEND_EXCEPTION_INFO
       (populate_exception_info X86_64 regs_at_4000 EXCEPTION_BREAKPOINT 100 0 None_mode False) 100)) \<and>
   fst (handle_exception X86_64 os_silent 100 0x57f dbg_hw_bp) = 0 \<and>
   effects (snd (handle_exception X86_64 os_silent 100 0x57f dbg_hw_bp)) =
     [PTRACE_GETREGS 100, PTRACE_GETSIGINFO 100, PTRACE_PEEKUSER 100 X86_DR6_OFFSET,
      SEND_EXCEPTION_INFO
        (populate_exception_info X86_64 regs_at_4000 EXCEPTION_BREAKPOINT 100 0 None_mode False) 100,
      PTRACE_CONT 100 0] \<and>
   debug_state (snd (handle_exception X86_64 os_silent 100 0x57f dbg_hw_bp)) = BreakpointHit"
  by (simp add: handle_exception_def handle_sigtrap_def detect_watchpoint_def breakpoint_stop_def
      adjust_rip_def send_exception_info_def sys_def Let_def SIGTRAP_def PTRACE_EVENT_CLONE_def
      PTRACE_EVENT_STOP_def getregs_call_def answer_regs_def ok_answer_def MAX_WATCHPOINTS_def
      MAX_BREAKPOINTS_def regs_at_4000_def)

lemma dbg_sw_set_tables:
  "software_breakpoint_used dbg_sw_set = (replicate MAX_SOFTWARE_BREAKPOINTS False)[0 := True]"
  "software_breakpoint_addresses dbg_sw_set = (replicate MAX_SOFTWARE_BREAKPOINTS 0)[0 := 0x4000]"
  "breakpoint_used dbg_sw_set = [False, False, False, False]"
  "breakpoint_hit_counts dbg_sw_set = [0, 0, 0, 0]"
  "target_pid dbg_sw_set = 100"
proof -
  have f: "first_index (\<lambda>i. \<not> software_breakpoint_used (Debugger_new 100) ! i) 0
             MAX_SOFTWARE_BREAKPOINTS = 0"
    using first_index_here [of MAX_SOFTWARE_BREAKPOINTS
        "\<lambda>i. \<not> software_breakpoint_used (Debugger_new 100) ! i" 0]
    by (simp add: MAX_SOFTWARE_BREAKPOINTS_def)
  show "software_breakpoint_used dbg_sw_set = (replicate MAX_SOFTWARE_BREAKPOINTS False)[0 := True]"
    "software_breakpoint_addresses dbg_sw_set = (replicate MAX_SOFTWARE_BREAKPOINTS 0)[0 := 0x4000]"
    "breakpoint_used dbg_sw_set = [False, False, False, False]"
    "breakpoint_hit_counts dbg_sw_set = [0, 0, 0, 0]"
    "target_pid dbg_sw_set = 100"
    unfolding dbg_sw_set_def set_software_breakpoint_internal_def f
    by (simp_all add: stop_all_threads_def sys_def ok_answer_def threads_to_resume_def Let_def)
qed

lemma find_breakpoint_index_4001:
  "find_breakpoint_index X86_64 dbg_sw_set 0x4001 = 1000"
proof -
  have hw: "first_index (\<lambda>i. breakpoint_used dbg_sw_set ! i \<and>
                              breakpoint_addresses dbg_sw_set ! i = 0x4001) 0 MAX_BREAKPOINTS = -1"
    by (simp add: first_index_none_iff dbg_sw_set_tables MAX_BREAKPOINTS_def nth_Cons'
        less_Suc_eq numeral_eq_Suc)
  have sw: "first_index
              (\<lambda>i. software_breakpoint_used dbg_sw_set ! i \<and>
                   (software_breakpoint_addresses dbg_sw_set ! i = 0x4001 \<or>
                    (X86_64 = X86_64 \<and> (0x4001 :: u64) > 0 \<and>
                     software_breakpoint_addresses dbg_sw_set ! i = 0x4001 - 1)))
              0 MAX_SOFTWARE_BREAKPOINTS = 0"
    using first_index_here [of MAX_SOFTWARE_BREAKPOINTS
        "\<lambda>i. software_breakpoint_used dbg_sw_set ! i \<and>
                   (software_breakpoint_addresses dbg_sw_set ! i = 0x4001 \<or>
                    (X86_64 = X86_64 \<and> (0x4001 :: u64) > 0 \<and>
                     software_breakpoint_addresses dbg_sw_set ! i = 0x4001 - 1))" 0]
    by (simp add: dbg_sw_set_tables MAX_SOFTWARE_BREAKPOINTS_def)
  show ?thesis
    unfolding find_breakpoint_index_def hw sw by simp
qed

text \<open>
  Claim C4, amended, on two hits where every call succeeds. A software breakpoint at
  \<open>0x4000\<close> (x86_64, the thread stops at \<open>0x4001\<close>) and a client that answers \<^verbatim>\<open>false\<close>:
  the thread is single-stepped over the original instruction and, at the end of the
  step, resumed in state \<open>Running\<close> after the trap was written back. A hardware
  breakpoint in trace mode and a client that answers \<^verbatim>\<open>true\<close>: the thread is
  single-stepped and the debugger is in state \<open>SingleStepping\<close>.
\<close>

theorem breakpoint_hit_verdict_witness:
  "find_breakpoint_index X86_64 dbg_sw_set (regs_pc regs_at_4001) = 1000 \<and>
   length (breakpoint_hit_counts dbg_sw_set) = MAX_BREAKPOINTS \<and>
   fst (breakpoint_stop X86_64 os_silent 100 1000 regs_at_4001 dbg_sw_set) = 0 \<and>
   last (new_effects dbg_sw_set
           (snd (breakpoint_stop X86_64 os_silent 100 1000 regs_at_4001 dbg_sw_set))) =
     PTRACE_SINGLESTEP 100 0 \<and>
   fst (handle_exception X86_64 os_silent 100 0x57f
          (snd (breakpoint_stop X86_64 os_silent 100 1000 regs_at_4001 dbg_sw_set))) = 0 \<and>
   new_effects (snd (breakpoint_stop X86_64 os_silent 100 1000 regs_at_4001 dbg_sw_set))
     (snd (handle_exception X86_64 os_silent 100 0x57f
             (snd (breakpoint_stop X86_64 os_silent 100 1000 regs_at_4001 dbg_sw_set)))) =
     [PTRACE_GETREGS 100,
      SEND_EXCEPTION_INFO
        (populate_exception_info X86_64 regs_at_4000 EXCEPTION_SINGLESTEP 100 0
           SoftwareBreakpointContinue False) 100,
      PTRACE_PEEKDATA 100 0x4000,
      PTRACE_POKEDATA 100 0x4000 0xCC,
      PTRACE_CONT 100 0] \<and>
   debug_state (snd (handle_exception X86_64 os_silent 100 0x57f
          (snd (breakpoint_stop X86_64 os_silent 100 1000 regs_at_4001 dbg_sw_set)))) = Running \<and>
   find_breakpoint_index X86_64 dbg_hw_trace (regs_pc regs_at_4000) = 0 \<and>
   length (breakpoint_hit_counts dbg_hw_trace) = MAX_BREAKPOINTS \<and>
   trace_mode dbg_hw_trace 0 \<and>
   fst (breakpoint_stop X86_64 os_ok 100 0 regs_at_4000 dbg_hw_trace) = 0 \<and>
   last (new_effects dbg_hw_trace (snd (breakpoint_stop X86_64 os_ok 100 0 regs_at_4000 dbg_hw_trace))) =
     PTRACE_SINGLESTEP 100 0 \<and>
   debug_state (snd (breakpoint_stop X86_64 os_ok 100 0 regs_at_4000 dbg_hw_trace)) = SingleStepping \<and>
   \<not> is_stopped (ts_at X86_64 (snd (breakpoint_stop X86_64 os_ok 100 0 regs_at_4000 dbg_hw_trace)) 100)"
proof -
  have pc: "regs_pc regs_at_4000 = 0x4000" "regs_pc regs_at_4001 = 0x4001"
    by (simp_all add: regs_at_4000_def regs_at_4001_def)
  have s1: "find_breakpoint_index X86_64 dbg_sw_set (regs_pc regs_at_4001) = 1000"
    by (simp add: pc find_breakpoint_index_4001)
  have s: "find_breakpoint_index X86_64 dbg_sw_set (regs_pc regs_at_4001) \<noteq> -1"
    "length (breakpoint_hit_counts dbg_sw_set) = MAX_BREAKPOINTS"
    "\<forall>n info p. a_ok (os_silent n (SEND_EXCEPTION_INFO info p)) = False"
    by (simp_all add: s1 dbg_sw_set_tables ok_answer_def MAX_BREAKPOINTS_def)
  have sk: "\<forall>n e. \<not> is_upcall e \<longrightarrow> a_ok (os_silent n e)"
  proof (intro allI impI)
    fix n e
    assume "\<not> is_upcall e"
    then show "a_ok (os_silent n e)"
      by (cases e) (simp_all add: ok_answer_def)
  qed
  have h: "find_breakpoint_index X86_64 dbg_hw_trace (regs_pc regs_at_4000) \<noteq> -1"
    "length (breakpoint_hit_counts dbg_hw_trace) = MAX_BREAKPOINTS"
    "\<forall>n info p. a_ok (os_ok n (SEND_EXCEPTION_INFO info p)) = True"
    "\<forall>n e. \<not> is_upcall e \<longrightarrow> a_ok (os_ok n e)"
    by (simp_all add: pc os_ok_def ok_answer_def MAX_BREAKPOINTS_def)
  have t: "trace_mode dbg_hw_trace 0" by (simp add: trace_mode_def wrap_int_def)
  have ad: "software_breakpoint_addresses dbg_sw_set ! 0 = 0x4000"
    by (simp add: dbg_sw_set_tables MAX_SOFTWARE_BREAKPOINTS_def)
  note t1 = breakpoint_hit_verdict [OF s sk, of 100, unfolded s1]
  note t2 = breakpoint_hit_verdict [OF h, of 100]
  from t1 t2 s1 s(2) h(2) t
  show ?thesis
    by (simp add: pc ad dbg_sw_set_tables(5) getregs_call_def answer_regs_def regs_at_4000_def
        patch_trap_def ok_answer_def)
qed

subsection \<open>The results of the command queue\<close>

lemma spawn_parent_command [simp]:
  "command (fst (snd (spawn_parent a os pid cleanup request d))) = command request"
  by (simp add: spawn_parent_def Let_def split_beta)

lemma process_command_command [simp]:
  "command (fst (snd (process_command a os request d))) = command request"
  by (cases "command request")
    (simp_all add: process_command_def returned_def split_beta process_read_register_command_def
      process_read_memory_command_def process_spawn_command_def spawn_process_internal_def
      process_spawn_with_pty_command_def spawn_process_with_pty_internal_def Let_def)

lemma resume_user_stopped_spec:
  "effects (snd (snd (resume_user_stopped os states d))) =
     effects d @ map (\<lambda>kv. PTRACE_CONT (fst kv) 0) (filter (\<lambda>kv. stopped_by_user (snd kv)) states) \<and>
   fst (resume_user_stopped os states d) =
     int (accepted os (length (effects d))
            (map (\<lambda>kv. PTRACE_CONT (fst kv) 0) (filter (\<lambda>kv. stopped_by_user (snd kv)) states))) \<and>
   fst (resume_user_stopped os states d) =
     int (length (filter (\<lambda>kv. stopped_by_user (snd kv)) states)) -
     int (length (filter (\<lambda>kv. stopped_by_user (snd kv)) (fst (snd (resume_user_stopped os states d))))) \<and>
   thread_states (snd (snd (resume_user_stopped os states d))) = thread_states d"
proof (induction states arbitrary: d)
  case Nil
  show ?case by simp
next
  case (Cons kv states)
  obtain tid state where kv: "kv = (tid, state)" by (cases kv)
  show ?case
  proof (cases "stopped_by_user state")
    case False
    with Cons [of d] show ?thesis
      by (simp add: kv split_beta)
  next
    case True
    let ?d1 = "snd (sys os (PTRACE_CONT tid 0) d)"
    have e: "effects ?d1 = effects d @ [PTRACE_CONT tid 0]" "thread_states ?d1 = thread_states d"
      "fst (sys os (PTRACE_CONT tid 0) d) = os (length (effects d)) (PTRACE_CONT tid 0)"
      by (simp_all add: sys_def)
    from Cons [of ?d1] True show ?thesis
      by (simp add: kv split_beta e)
  qed
qed

lemma resume_all_user_stopped_spec:
  "request_result os ResumeUserStoppedThreads d
     (fst (resume_all_user_stopped_threads_internal os d))
     (snd (resume_all_user_stopped_threads_internal os d))"
  using resume_user_stopped_spec [of os "thread_states d" d]
  by (simp add: request_result_def resume_all_user_stopped_threads_internal_def split_beta
      user_stopped_def)

lemma request_result_queue [simp]:
  "request_result os c (d\<lparr>debug_command_queue := q\<rparr>) r d1 = request_result os c d r d1"
  by (simp add: request_result_def user_stopped_def)

lemma process_command_result:
  assumes "fst (process_command a os request d) = Returned r"
  shows "request_result os (command request) d r (snd (snd (process_command a os request d)))"
proof (cases "command request")
  case SpawnProcess
  with assms spawn_process_internal_queue(2) [of a os request d r] show ?thesis
    by (simp add: process_command_def process_spawn_command_def request_result_def)
next
  case SpawnProcessWithPty
  with assms spawn_process_with_pty_internal_queue(2) [of a os request d r] show ?thesis
    by (simp add: process_command_def process_spawn_with_pty_command_def request_result_def)
next
  case ResumeUserStoppedThreads
  with assms resume_all_user_stopped_spec [of os d] show ?thesis
    by (simp add: process_command_def returned_def)
next
  case ReadRegister
  with assms read_register_internal_queue(2)
      [of a os "rq_thread_id request" "rq_reg_name request" "rq_reg_value_ptr request" d]
  show ?thesis
    by (auto simp: process_command_def process_read_register_command_def split_beta
        request_result_def)
next
  case ReadMemory
  with assms show ?thesis
    by (auto simp: process_command_def process_read_memory_command_def split_beta Let_def
        request_result_def split: if_splits)
next
  case SetWatchpoint
  with assms set_watchpoint_internal_queue(2)
      [of a os "rq_address request" "rq_size request" "rq_watchpoint_type request" d]
  show ?thesis
    by (auto simp: process_command_def returned_def process_set_watchpoint_command_def
        request_result_def)
next
  case RemoveWatchpoint
  with assms remove_watchpoint_internal_queue(2) [of a os "rq_address request" d]
  show ?thesis
    by (auto simp: process_command_def returned_def process_remove_watchpoint_command_def
        request_result_def)
next
  case SetBreakpoint
  with assms set_breakpoint_internal_queue(2)
      [of a os "rq_address request" "rq_hit_count request" "rq_breakpoint_type request" d]
  show ?thesis
    by (auto simp: process_command_def returned_def process_set_breakpoint_command_def
        request_result_def)
next
  case RemoveBreakpoint
  with assms remove_breakpoint_internal_queue(2) [of a os "rq_address request" d]
  show ?thesis
    by (auto simp: process_command_def returned_def process_remove_breakpoint_command_def
        request_result_def)
next
  case ContinueExecution
  with assms continue_execution_internal_queue(2) [of a os "rq_thread_id request" d]
  show ?thesis
    by (auto simp: process_command_def returned_def process_continue_execution_command_def
        request_result_def)
next
  case SingleStep
  with assms single_step_internal_queue(2) [of a os "rq_thread_id request" d]
  show ?thesis
    by (auto simp: process_command_def returned_def process_single_step_command_def
        request_result_def)
next
  case ReapplyWatchpoints
  with assms reapply_all_watchpoints_internal_queue(2) [of a os "rq_thread_id request" d]
  show ?thesis
    by (auto simp: process_command_def returned_def process_reapply_watchpoints_command_def
        request_result_def)
next
  case WriteRegister
  with assms write_register_internal_queue(2)
      [of a os "rq_thread_id request" "rq_reg_name request" "rq_reg_value request" d]
  show ?thesis
    by (auto simp: process_command_def returned_def process_write_register_command_def
        request_result_def)
next
  case AttachToThreads
  with assms show ?thesis
    by (auto simp: process_command_def request_result_def)
qed

lemma process_command_queue_acc:
  "process_command_queue a os finished0 d = (out, finished, d') \<Longrightarrow>
     \<exists>new. finished = finished0 @ new \<and>
           length new \<le> length (debug_command_queue d) \<and>
           (\<forall>i<length new.
              completed (new ! i) \<and>
              command (new ! i) = command (debug_command_queue d ! i) \<and>
              request_result os (command (new ! i))
                (queue_states a os (debug_command_queue d) d ! i)
                (result (new ! i))
                (queue_states a os (debug_command_queue d) d ! Suc i)) \<and>
           (out = None \<longrightarrow>
              length new = length (debug_command_queue d) \<and>
              d' = last (queue_states a os (debug_command_queue d) d) \<and>
              debug_command_queue d' = [])"
proof (induction a os finished0 d arbitrary: out finished d' rule: process_command_queue.induct)
  case (1 a os finished0 d)
  show ?case
  proof (cases "debug_command_queue d")
    case Nil
    with "1.prems" show ?thesis
      by (simp add: process_command_queue.simps)
  next
    case (Cons request rest)
    obtain y request' d1 where
      p: "process_command a os request (d\<lparr>debug_command_queue := rest\<rparr>) = (y, request', d1)"
      by (cases "process_command a os request (d\<lparr>debug_command_queue := rest\<rparr>)") auto
    have qs: "queue_states a os (debug_command_queue d) d = d # queue_states a os rest d1"
      by (simp add: Cons p)
    show ?thesis
    proof (cases y)
      case (Returned res)
      let ?done = "request'\<lparr>result := res, completed := True\<rparr>"
      from "1.prems" Cons p Returned
      have call: "process_command_queue a os (finished0 @ [?done]) d1 = (out, finished, d')"
        by (simp add: process_command_queue.simps)
      have rest: "debug_command_queue d1 = rest"
        using process_command_queue_kept [of a os request "d\<lparr>debug_command_queue := rest\<rparr>"]
        by (simp add: p)
      from "1.IH" [OF Cons p [symmetric, unfolded Returned] refl refl call]
      obtain new where new: "finished = (finished0 @ [?done]) @ new"
        "length new \<le> length rest"
        "\<forall>i<length new.
              completed (new ! i) \<and>
              command (new ! i) = command (rest ! i) \<and>
              request_result os (command (new ! i))
                (queue_states a os rest d1 ! i)
                (result (new ! i))
                (queue_states a os rest d1 ! Suc i)"
        "out = None \<longrightarrow> length new = length rest \<and>
                       d' = last (queue_states a os rest d1) \<and>
                       debug_command_queue d' = []"
        unfolding rest by blast
      have cmd: "command request' = command request"
        using process_command_command [of a os request "d\<lparr>debug_command_queue := rest\<rparr>"]
        by (simp add: p)
      have hd1: "hd (queue_states a os rest d1) = d1"
        by (cases rest) simp_all
      have first: "request_result os (command request) d res (hd (queue_states a os rest d1))"
        using process_command_result [of a os request "d\<lparr>debug_command_queue := rest\<rparr>" res]
        unfolding hd1 by (simp add: p Returned)
      have hd0: "queue_states a os rest d1 ! 0 = hd (queue_states a os rest d1)"
        by (cases rest) simp_all
      have ne: "queue_states a os rest d1 \<noteq> []"
        by (cases rest) simp_all
      have all: "completed ((?done # new) ! i) \<and>
              command ((?done # new) ! i) = command ((request # rest) ! i) \<and>
              request_result os (command ((?done # new) ! i))
                ((d # queue_states a os rest d1) ! i)
                (result ((?done # new) ! i))
                ((d # queue_states a os rest d1) ! Suc i)"
        if "i < length (?done # new)" for i
      proof (cases i)
        case 0
        with first show ?thesis
          by (simp add: cmd hd0)
      next
        case (Suc k)
        with that new(3) [rule_format, of k] show ?thesis
          by auto
      qed
      have fin: "out = None \<longrightarrow>
              length (?done # new) = length (request # rest) \<and>
              d' = last (d # queue_states a os rest d1) \<and>
              debug_command_queue d' = []"
        using new(4) ne by auto
      have l: "length (?done # new) \<le> length (request # rest)"
        using new(2) by simp
      have f: "finished = finished0 @ (?done # new)"
        using new(1) by simp
      have "finished = finished0 @ (?done # new) \<and>
            length (?done # new) \<le> length (request # rest) \<and>
            (\<forall>i<length (?done # new).
              completed ((?done # new) ! i) \<and>
              command ((?done # new) ! i) = command ((request # rest) ! i) \<and>
              request_result os (command ((?done # new) ! i))
                ((d # queue_states a os rest d1) ! i)
                (result ((?done # new) ! i))
                ((d # queue_states a os rest d1) ! Suc i)) \<and>
            (out = None \<longrightarrow>
              length (?done # new) = length (request # rest) \<and>
              d' = last (d # queue_states a os rest d1) \<and>
              debug_command_queue d' = [])"
        using f l all fin by blast
      then show ?thesis
        unfolding qs unfolding Cons by (rule exI)
    next
      case (Exited code)
      with "1.prems" Cons p show ?thesis
        by (auto simp: process_command_queue.simps)
    next
      case Replaced
      with "1.prems" Cons p show ?thesis
        by (auto simp: process_command_queue.simps)
    qed
  qed
qed

text \<open>
  Claim C5, as the code has it. Every request that \<^verbatim>\<open>process_command_queue\<close> completes is
  marked \<open>completed\<close>, the requests are completed in the order of the queue, and the
  result of each is the one \<open>request_result\<close> describes, between the state of the debugger
  before the request and the state after it: 0 or -1 for every command except two;
  -1 for \<open>AttachToThreads\<close>; and for \<open>ResumeUserStoppedThreads\<close> the number of threads
  resumed, which is the number of \<^verbatim>\<open>PTRACE_CONT\<close> calls (one for each thread stopped by the
  user) that the kernel accepted and the number of threads that are no longer marked as
  stopped by the user: never negative, and positive as soon as one thread was resumed.
  When the loop returns, it has completed every request of the queue and the queue is empty.
\<close>

theorem command_queue_results:
  assumes "process_command_queue a os [] d = (out, finished, d')"
  shows "length finished \<le> length (debug_command_queue d) \<and>
         (\<forall>i<length finished.
            completed (finished ! i) \<and>
            command (finished ! i) = command (debug_command_queue d ! i) \<and>
            request_result os (command (finished ! i))
              (queue_states a os (debug_command_queue d) d ! i)
              (result (finished ! i))
              (queue_states a os (debug_command_queue d) d ! Suc i)) \<and>
         (out = None \<longrightarrow>
            length finished = length (debug_command_queue d) \<and>
            d' = last (queue_states a os (debug_command_queue d) d) \<and>
            debug_command_queue d' = [])"
proof -
  from process_command_queue_acc [OF assms] obtain new where
    "finished = [] @ new \<and>
     length new \<le> length (debug_command_queue d) \<and>
     (\<forall>i<length new.
        completed (new ! i) \<and>
        command (new ! i) = command (debug_command_queue d ! i) \<and>
        request_result os (command (new ! i))
          (queue_states a os (debug_command_queue d) d ! i)
          (result (new ! i))
          (queue_states a os (debug_command_queue d) d ! Suc i)) \<and>
     (out = None \<longrightarrow>
        length new = length (debug_command_queue d) \<and>
        d' = last (queue_states a os (debug_command_queue d) d) \<and>
        debug_command_queue d' = [])"
    by (rule exE)
  then show ?thesis
    unfolding append_Nil by (elim conjE) (hypsubst, intro conjI, assumption+)
qed

lemma dbg_user_stopped_run:
  "fst (process_command_queue X86_64 os_ok [] dbg_user_stopped) = None"
  "map command (fst (snd (process_command_queue X86_64 os_ok [] dbg_user_stopped))) =
     [ReadRegister, ResumeUserStoppedThreads]"
  "map result (fst (snd (process_command_queue X86_64 os_ok [] dbg_user_stopped))) = [-1, 1]"
  by (simp_all add: process_command_queue.simps dbg_user_stopped_def process_command_def
      returned_def process_read_register_command_def read_register_internal_def
      resume_all_user_stopped_threads_internal_def new_DebugRequest_def new_ThreadState_def
      sys_def os_ok_def ok_answer_def Let_def)

text \<open>
  Claim C5 as stated (no request completes with a positive result) fails: with one thread
  stopped by the user, the request \<open>ResumeUserStoppedThreads\<close> completes with result 1.
\<close>

theorem resume_user_stopped_result_counterexample:
  "map command (fst (snd (process_command_queue X86_64 os_ok [] dbg_user_stopped))) =
     [ReadRegister, ResumeUserStoppedThreads] \<and>
   map result (fst (snd (process_command_queue X86_64 os_ok [] dbg_user_stopped))) = [-1, 1]"
  by (simp add: dbg_user_stopped_run)

lemma dbg_user_stopped_states:
  "map (\<lambda>d. map fst (user_stopped d))
     (queue_states X86_64 os_ok (debug_command_queue dbg_user_stopped) dbg_user_stopped) =
     [ [100], [100], [] ]"
  "map effects
     (queue_states X86_64 os_ok (debug_command_queue dbg_user_stopped) dbg_user_stopped) =
     [ [], [], [PTRACE_CONT 100 0] ]"
  by (simp_all add: dbg_user_stopped_def process_command_def
      returned_def process_read_register_command_def read_register_internal_def
      resume_all_user_stopped_threads_internal_def new_DebugRequest_def new_ThreadState_def
      sys_def os_ok_def ok_answer_def Let_def user_stopped_def)

text \<open>
  Claim C5, amended, on that queue: the loop returns with the queue empty, both requests
  are completed in order, the register read of a thread that is not attached with -1 and
  \<open>ResumeUserStoppedThreads\<close> with 1, for the one thread that was stopped by the user, was
  resumed by the one call \<^verbatim>\<open>PTRACE_CONT\<close> and is no longer marked.
\<close>

theorem command_queue_results_witness:
  "fst (process_command_queue X86_64 os_ok [] dbg_user_stopped) = None \<and>
   map command (fst (snd (process_command_queue X86_64 os_ok [] dbg_user_stopped))) =
     map command (debug_command_queue dbg_user_stopped) \<and>
   map result (fst (snd (process_command_queue X86_64 os_ok [] dbg_user_stopped))) = [-1, 1] \<and>
   completed (fst (snd (process_command_queue X86_64 os_ok [] dbg_user_stopped)) ! 0) \<and>
   completed (fst (snd (process_command_queue X86_64 os_ok [] dbg_user_stopped)) ! 1) \<and>
   request_result os_ok ReadRegister
     (queue_states X86_64 os_ok (debug_command_queue dbg_user_stopped) dbg_user_stopped ! 0) (-1)
     (queue_states X86_64 os_ok (debug_command_queue dbg_user_stopped) dbg_user_stopped ! 1) \<and>
   request_result os_ok ResumeUserStoppedThreads
     (queue_states X86_64 os_ok (debug_command_queue dbg_user_stopped) dbg_user_stopped ! 1) 1
     (queue_states X86_64 os_ok (debug_command_queue dbg_user_stopped) dbg_user_stopped ! 2) \<and>
   map (\<lambda>d. map fst (user_stopped d))
     (queue_states X86_64 os_ok (debug_command_queue dbg_user_stopped) dbg_user_stopped) =
     [ [100], [100], [] ] \<and>
   map effects
     (queue_states X86_64 os_ok (debug_command_queue dbg_user_stopped) dbg_user_stopped) =
     [ [], [], [PTRACE_CONT 100 0] ] \<and>
   debug_command_queue (snd (snd (process_command_queue X86_64 os_ok [] dbg_user_stopped))) = []"
proof -
  let ?run = "process_command_queue X86_64 os_ok [] dbg_user_stopped"
  have e: "?run = (fst ?run, fst (snd ?run), snd (snd ?run))"
    by simp
  have len: "length (fst (snd ?run)) = 2"
    using arg_cong [OF dbg_user_stopped_run(3), of length] by simp
  have r: "result (fst (snd ?run) ! 0) = -1" "result (fst (snd ?run) ! 1) = 1"
    "command (fst (snd ?run) ! 0) = ReadRegister"
    "command (fst (snd ?run) ! 1) = ResumeUserStoppedThreads"
    using arg_cong [OF dbg_user_stopped_run(3), of "\<lambda>xs. xs ! 0"]
      arg_cong [OF dbg_user_stopped_run(3), of "\<lambda>xs. xs ! 1"]
      arg_cong [OF dbg_user_stopped_run(2), of "\<lambda>xs. xs ! 0"]
      arg_cong [OF dbg_user_stopped_run(2), of "\<lambda>xs. xs ! 1"] len
    by simp_all
  have q: "map command (debug_command_queue dbg_user_stopped) =
             [ReadRegister, ResumeUserStoppedThreads]"
    by (simp add: dbg_user_stopped_def new_DebugRequest_def)
  note t = command_queue_results [OF e]
  have lt: "0 < length (fst (snd ?run))" "1 < length (fst (snd ?run))"
    using len by simp_all
  note i0 = t [THEN conjunct2, THEN conjunct1, rule_format, OF lt(1)]
  note i1 = t [THEN conjunct2, THEN conjunct1, rule_format, OF lt(2)]
  from t dbg_user_stopped_run(1) have fin: "debug_command_queue (snd (snd ?run)) = []"
    by blast
  from i0 i1 fin show ?thesis
    unfolding r
    by (simp add: dbg_user_stopped_run q dbg_user_stopped_states numeral_2_eq_2)
qed

end
